theory Spec2Isabelle
  imports Main "HOL-Library.Word" "HOL-Library.Sublist" "HOL-Library.Log_Nat"
begin

unbundle bit_operations_syntax

section \<open>Shared data model (CrossWindow.h)\<close>

text \<open>
  \<open>NativeHandle\<close> is \<open>void *\<close> on Win32 and macOS and \<open>unsigned long\<close> on X11: a 64-bit
  value on the targets considered here. C \<open>int\<close> and \<open>uint32_t\<close> are 32-bit words.
  The fields of \<open>Rect\<close> carry a prefix, since \<open>x\<close> and \<open>y\<close> would otherwise become constants.
\<close>

type_synonym NativeHandle = "64 word"

record Rect =
  rect_x :: "32 word"
  rect_y :: "32 word"
  rect_width :: "32 word"
  rect_height :: "32 word"

definition Rect_default :: Rect where
  "Rect_default = \<lparr>rect_x = 0, rect_y = 0, rect_width = 0, rect_height = 0\<rparr>"

type_synonym WindowState = "32 word"

definition WindowState_Normal :: WindowState where "WindowState_Normal = 0"
definition WindowState_Minimized :: WindowState where "WindowState_Minimized = push_bit 0 1"
definition WindowState_Maximized :: WindowState where "WindowState_Maximized = push_bit 1 1"
definition WindowState_Fullscreen :: WindowState where "WindowState_Fullscreen = push_bit 2 1"
definition WindowState_Hidden :: WindowState where "WindowState_Hidden = push_bit 3 1"
definition WindowState_Focused :: WindowState where "WindowState_Focused = push_bit 4 1"
definition WindowState_AlwaysOnTop :: WindowState where "WindowState_AlwaysOnTop = push_bit 5 1"

definition WindowState_or :: "WindowState \<Rightarrow> WindowState \<Rightarrow> WindowState" where
  "WindowState_or a b = a OR b"

definition HasFlag :: "WindowState \<Rightarrow> WindowState \<Rightarrow> bool" where
  "HasFlag st flag = (st AND flag \<noteq> 0)"

record WindowInfo =
  handle :: NativeHandle
  title :: string
  className :: string
  rect :: Rect
  state :: WindowState
  processId :: "32 word"
  processName :: string
  isVisible :: bool

text \<open>The default member initialisers of \<open>WindowInfo\<close>.\<close>

definition WindowInfo_default :: WindowInfo where
  "WindowInfo_default =
     \<lparr>handle = 0, title = '''', className = '''', rect = Rect_default,
      state = WindowState_Normal, processId = 0, processName = '''', isVisible = False\<rparr>"

datatype ErrorCode =
  Success | InvalidHandle | AccessDenied | WindowNotFound | OperationFailed
  | NotSupported | NotInitialized

text \<open>
  \<open>Result<T>\<close>: a value, an error code and a message (the field \<open>value\<close> is spelled
  \<open>res_value\<close>, the plain word being reserved). \<open>Result_new v\<close> is a default-constructed
  result whose value is \<open>v\<close>; \<open>Result_fail\<close> is the pattern
  \<open>result.error = e; result.errorMessage = m; return result;\<close>.
\<close>

record 'a Result =
  res_value :: 'a
  res_error :: ErrorCode
  res_errorMessage :: string

definition ok :: "'a Result \<Rightarrow> bool" where
  "ok r = (res_error r = Success)"

definition Result_new :: "'a \<Rightarrow> 'a Result" where
  "Result_new v = \<lparr>res_value = v, res_error = Success, res_errorMessage = ''''\<rparr>"

definition Result_fail :: "'a Result \<Rightarrow> ErrorCode \<Rightarrow> string \<Rightarrow> 'a Result" where
  "Result_fail r e m = r\<lparr>res_error := e, res_errorMessage := m\<rparr>"

section \<open>The backend base class (WindowManagerImpl.h)\<close>

text \<open>
  \<open>WindowManagerImplBase\<close> holds \<open>m_initialized\<close> and \<open>m_lastError\<close>. The model adds
  \<open>trace\<close>, the list of native requests the backend has issued so far, oldest first.
  The platform is a function from that history to the desktop as it stands when the next
  request is answered: a window owned by another process may change or disappear
  between two requests.
\<close>

record 'c WindowManagerImplBase =
  m_initialized :: bool
  m_lastError :: string
  trace :: "'c list"

definition request :: "'c \<Rightarrow> ('c, 'z) WindowManagerImplBase_scheme \<Rightarrow> ('c, 'z) WindowManagerImplBase_scheme" where
  "request c s = s\<lparr>trace := trace s @ [c]\<rparr>"

definition SetLastError :: "string \<Rightarrow> ('c, 'z) WindowManagerImplBase_scheme \<Rightarrow> ('c, 'z) WindowManagerImplBase_scheme" where
  "SetLastError msg s = s\<lparr>m_lastError := msg\<rparr>"

definition GetLastError :: "('c, 'z) WindowManagerImplBase_scheme \<Rightarrow> string" where
  "GetLastError s = m_lastError s"

definition IsInitialized :: "('c, 'z) WindowManagerImplBase_scheme \<Rightarrow> bool" where
  "IsInitialized s = m_initialized s"

section \<open>Opacity values: IEEE binary32\<close>

text \<open>
  A C++ \<open>float\<close> is modelled by its value: not-a-number, an infinity, or a finite rational
  (the sign of zero is not represented; no operation below tells the two zeros apart).
  \<open>f32_round\<close> rounds an exact rational to the nearest binary32 value, ties to even:
  24 significant bits, least exponent \<open>-126\<close>, overflow to infinity.
\<close>

datatype f32 = NaN | PInf | NInf | Finite rat

definition ilog2 :: "rat \<Rightarrow> int" where
  \<comment> \<open>\<open>\<lfloor>log\<^sub>2 r\<rfloor>\<close> for \<open>r > 0\<close>, from the bit lengths of numerator and denominator\<close>
  "ilog2 r =
     (let (p, q) = quotient_of r;
          k = bitlen p - bitlen q
      in if 2 powi k \<le> r then k else k - 1)"

definition round_half_even :: "rat \<Rightarrow> int" where
  "round_half_even q =
     (let f = \<lfloor>q\<rfloor>; d = q - of_int f
      in if d < 1 / 2 then f else if 1 / 2 < d then f + 1
         else if even f then f else f + 1)"

definition f32_round :: "rat \<Rightarrow> f32" where
  "f32_round r =
     (if r = 0 then Finite 0
      else let e = max (ilog2 \<bar>r\<bar>) (- 126);
               ulp = 2 powi (e - 23);
               v = of_int (round_half_even (\<bar>r\<bar> / ulp)) * ulp
           in if 2 ^ 128 \<le> v then (if 0 < r then PInf else NInf)
              else Finite (if 0 < r then v else - v))"

fun f32_less :: "f32 \<Rightarrow> f32 \<Rightarrow> bool" where
  "f32_less NaN _ = False"
| "f32_less _ NaN = False"
| "f32_less PInf _ = False"
| "f32_less _ PInf = True"
| "f32_less _ NInf = False"
| "f32_less NInf _ = True"
| "f32_less (Finite a) (Finite b) = (a < b)"

fun f32_mult :: "f32 \<Rightarrow> f32 \<Rightarrow> f32" where
  "f32_mult NaN _ = NaN"
| "f32_mult _ NaN = NaN"
| "f32_mult (Finite a) (Finite b) = f32_round (a * b)"
| "f32_mult (Finite a) PInf = (if a = 0 then NaN else if 0 < a then PInf else NInf)"
| "f32_mult (Finite a) NInf = (if a = 0 then NaN else if 0 < a then NInf else PInf)"
| "f32_mult PInf (Finite b) = (if b = 0 then NaN else if 0 < b then PInf else NInf)"
| "f32_mult NInf (Finite b) = (if b = 0 then NaN else if 0 < b then NInf else PInf)"
| "f32_mult PInf PInf = PInf"
| "f32_mult PInf NInf = NInf"
| "f32_mult NInf PInf = NInf"
| "f32_mult NInf NInf = PInf"

text \<open>\<open>std::min(a, b)\<close> is \<open>(b < a) ? b : a\<close>, \<open>std::max(a, b)\<close> is \<open>(a < b) ? b : a\<close>.\<close>

definition std_min :: "f32 \<Rightarrow> f32 \<Rightarrow> f32" where
  "std_min a b = (if f32_less b a then b else a)"

definition std_max :: "f32 \<Rightarrow> f32 \<Rightarrow> f32" where
  "std_max a b = (if f32_less a b then b else a)"

text \<open>The conversion of an unsigned integer operand to \<open>float\<close>.\<close>

definition f32_of_unsigned :: "'a::len word \<Rightarrow> f32" where
  "f32_of_unsigned w = f32_round (of_int (uint w))"

text \<open>
  Conversion of a \<open>float\<close> to an unsigned integer type of \<open>LENGTH('a)\<close> bits truncates
  towards zero. It is undefined in C++ when the truncated value does not fit (and for NaN
  and the infinities): \<open>None\<close>.
\<close>

definition f32_to_unsigned :: "f32 \<Rightarrow> 'a::len word option" where
  "f32_to_unsigned f =
     (case f of
        Finite r \<Rightarrow>
          (let t = (if 0 \<le> r then \<lfloor>r\<rfloor> else \<lceil>r\<rceil>)
           in if 0 \<le> t \<and> t < 2 ^ LENGTH('a) then Some (word_of_int t) else None)
      | _ \<Rightarrow> None)"


section \<open>Text matching (\<open>std::string::find\<close>, \<open>::tolower\<close>)\<close>

text \<open>
  \<open>string_find s p\<close> is \<open>s.find(p)\<close>: the least position at which \<open>p\<close> occurs in
  \<open>s\<close>, \<open>None\<close> for \<open>std::string::npos\<close>. \<open>tolower\<close> is the function of the C locale:
  it maps \<open>A\<close> to \<open>Z\<close> to \<open>a\<close> to \<open>z\<close> and leaves every other byte alone.
\<close>

text \<open>
  \<open>c_str s\<close> is what a callee sees that takes \<open>s.c_str()\<close> as a NUL-terminated string:
  the characters before the first NUL. \<open>wide_c_str\<close> is the same for wide strings.
\<close>

definition c_str :: "string \<Rightarrow> string" where
  "c_str s = takeWhile (\<lambda>c. c \<noteq> CHR 0x00) s"

definition wide_c_str :: "16 word list \<Rightarrow> 16 word list" where
  "wide_c_str s = takeWhile (\<lambda>c. c \<noteq> 0) s"





section \<open>Enumeration visitors\<close>

text \<open>
  An \<open>EnumWindowsCallback\<close> is a \<open>std::function\<close> and may carry captured state: a visitor
  is modelled as a function from its state and a window to its verdict and new state.
  \<open>walk\<close> records the enumeration: the windows the visitor was invoked on, in order, and
  the visitor's final state. \<open>spec_visit\<close> is what the specification asks for: the visitor
  is run over a given sequence and the walk ends after its first \<open>false\<close>.
\<close>

type_synonym 'v EnumWindowsCallback = "'v \<Rightarrow> WindowInfo \<Rightarrow> bool \<times> 'v"

record 'v walk =
  visited :: "WindowInfo list"
  visitor :: 'v

fun spec_visit :: "'v EnumWindowsCallback \<Rightarrow> 'v walk \<Rightarrow> WindowInfo list \<Rightarrow> 'v walk" where
  "spec_visit callback k [] = k"
| "spec_visit callback k (info # rest) =
     (case callback (visitor k) info of
        (continue, v) \<Rightarrow>
          (let k1 = \<lparr>visited = visited k @ [info], visitor = v\<rparr>
           in if continue then spec_visit callback k1 rest else k1))"

section \<open>macOS backend (WindowManagerMacOS.mm)\<close>

subsection \<open>The platform: window list and Accessibility services\<close>

text \<open>
  One entry of the array returned by \<open>CGWindowListCopyWindowInfo\<close>. A missing number reads
  as 0 and a missing flag as \<open>NO\<close> (a message to \<open>nil\<close>), so these keys are plain values;
  the name, owner name and bounds may be absent. The bounds are held as the integers
  that the \<open>(int)\<close> casts of the source produce.
\<close>

record CGWindow =
  kCGWindowNumber :: "32 word"
  kCGWindowName :: "string option"
  kCGWindowOwnerName :: "string option"
  kCGWindowOwnerPID :: "32 word"
  kCGWindowBounds :: "Rect option"
  kCGWindowIsOnscreen :: bool

type_synonym AXUIElementRef = nat

datatype AXAttribute =
  kAXCloseButtonAttribute | kAXZoomButtonAttribute
  | kAXMinimizedAttribute | kAXPositionAttribute | kAXSizeAttribute

datatype AXAction = kAXPressAction | kAXRaiseAction

datatype AXValue =
  kCFBoolean bool | CGPoint "32 word" "32 word" | CGSize "32 word" "32 word"

text \<open>The native requests of this backend, as they appear in the trace.\<close>

datatype mac_call =
  AXIsProcessTrustedWithOptions
  | CGWindowListCopyWindowInfo_OnScreenOnly
  | CGWindowListCopyWindowInfo_IncludingWindow "32 word"
  | NSWorkspace_frontmostApplication
  | AXUIElementCreateApplication "32 word"
  | AXUIElementCopyAttributeValue_Windows "32 word"
  | AXUIElementCopyAttributeValue AXUIElementRef AXAttribute
  | AXUIElementPerformAction AXUIElementRef AXAction
  | AXUIElementSetAttributeValue AXUIElementRef AXAttribute AXValue
  | kill_SIGKILL "32 word"
  | NSRunningApplication_withProcessIdentifier "32 word"
  | NSRunningApplication_activate "32 word"

text \<open>
  The answers of the platform at one moment. \<open>mac_Windows pid\<close> is the window array of
  the application element (\<open>None\<close> on an error or a null array); \<open>mac_Attribute\<close> is an
  element-valued attribute (\<open>None\<close> on an error or a null value).
\<close>

record macos =
  mac_trusted :: bool
  mac_OnScreenOnly :: "CGWindow list option"
  mac_IncludingWindow :: "32 word \<Rightarrow> CGWindow list option"
  mac_frontmostApplication :: "32 word option"
  mac_CreateApplication :: "32 word \<Rightarrow> bool"
  mac_Windows :: "32 word \<Rightarrow> AXUIElementRef list option"
  mac_Attribute :: "AXUIElementRef \<Rightarrow> AXAttribute \<Rightarrow> AXUIElementRef option"
  mac_runningApplication :: "32 word \<Rightarrow> bool"

type_synonym mac_env = "mac_call list \<Rightarrow> macos"
type_synonym mac_state = "mac_call WindowManagerImplBase"

subsection \<open>Lifecycle\<close>

definition MacOS_Initialize :: "mac_env \<Rightarrow> mac_state \<Rightarrow> bool \<times> mac_state" where
  "MacOS_Initialize env s =
     (let trusted = mac_trusted (env (trace s));
          s1 = request AXIsProcessTrustedWithOptions s;
          s2 = (if \<not> trusted
                then SetLastError ''Accessibility permissions required. Please grant access in System Preferences.'' s1
                else s1)
      in (True, s2\<lparr>m_initialized := True\<rparr>))"

definition MacOS_Shutdown :: "mac_state \<Rightarrow> mac_state" where
  "MacOS_Shutdown s = s\<lparr>m_initialized := False\<rparr>"

subsection \<open>Enumeration and queries\<close>

text \<open>The body of the loop of \<open>GetAllWindows\<close>: the snapshot built from one array entry.\<close>

definition MacOS_entry :: "CGWindow \<Rightarrow> WindowInfo" where
  "MacOS_entry window =
     (let info = WindowInfo_default\<lparr>handle := ucast (kCGWindowNumber window)\<rparr>;
          info = (case kCGWindowName window of
                    Some t \<Rightarrow> info\<lparr>title := t\<rparr> | None \<Rightarrow> info);
          info = (case kCGWindowOwnerName window of
                    Some n \<Rightarrow> info\<lparr>processName := n, className := n\<rparr> | None \<Rightarrow> info);
          info = info\<lparr>processId := kCGWindowOwnerPID window\<rparr>;
          info = (case kCGWindowBounds window of
                    Some b \<Rightarrow> info\<lparr>rect := b\<rparr> | None \<Rightarrow> info)
      in info\<lparr>isVisible := kCGWindowIsOnscreen window\<rparr>)"

definition MacOS_GetAllWindows :: "mac_env \<Rightarrow> mac_state \<Rightarrow> WindowInfo list \<times> mac_state" where
  "MacOS_GetAllWindows env s =
     (if \<not> m_initialized s then ([], SetLastError ''WindowManager not initialized'' s)
      else
        let windowList = mac_OnScreenOnly (env (trace s));
            s1 = request CGWindowListCopyWindowInfo_OnScreenOnly s
        in case windowList of
             None \<Rightarrow> ([], s1)
           | Some windows \<Rightarrow>
               (filter (\<lambda>info. title info \<noteq> []) (map MacOS_entry windows), s1))"

fun MacOS_visit :: "'v EnumWindowsCallback \<Rightarrow> 'v walk \<Rightarrow> WindowInfo list \<Rightarrow> 'v walk" where
  "MacOS_visit callback k [] = k"
| "MacOS_visit callback k (info # windows) =
     (case callback (visitor k) info of
        (continue, v) \<Rightarrow>
          (let k1 = \<lparr>visited = visited k @ [info], visitor = v\<rparr>
           in if \<not> continue then k1 else MacOS_visit callback k1 windows))"

definition MacOS_EnumerateWindows ::
  "mac_env \<Rightarrow> 'v EnumWindowsCallback \<Rightarrow> 'v \<Rightarrow> mac_state \<Rightarrow> 'v walk \<times> mac_state" where
  "MacOS_EnumerateWindows env callback v s =
     (if \<not> m_initialized s then (\<lparr>visited = [], visitor = v\<rparr>, s)
      else case MacOS_GetAllWindows env s of
             (windows, s1) \<Rightarrow> (MacOS_visit callback \<lparr>visited = [], visitor = v\<rparr> windows, s1))"


definition MacOS_GetWindowInfo ::
  "mac_env \<Rightarrow> NativeHandle \<Rightarrow> mac_state \<Rightarrow> WindowInfo Result \<times> mac_state" where
  "MacOS_GetWindowInfo env h s =
     (let result = Result_new WindowInfo_default in
      if \<not> m_initialized s
      then (Result_fail result NotInitialized ''WindowManager not initialized'', s)
      else
        let windowID = (ucast h :: 32 word);
            windowList = mac_IncludingWindow (env (trace s)) windowID;
            s1 = request (CGWindowListCopyWindowInfo_IncludingWindow windowID) s
        in case windowList of
             None \<Rightarrow> (Result_fail result InvalidHandle ''Invalid window handle'', s1)
           | Some [] \<Rightarrow> (Result_fail result InvalidHandle ''Invalid window handle'', s1)
           | Some (window # _) \<Rightarrow>
               (let info = WindowInfo_default\<lparr>handle := h\<rparr>;
                    info = (case kCGWindowName window of
                              Some t \<Rightarrow> info\<lparr>title := t\<rparr> | None \<Rightarrow> info);
                    info = (case kCGWindowOwnerName window of
                              Some n \<Rightarrow> info\<lparr>processName := n, className := n\<rparr>
                            | None \<Rightarrow> info);
                    info = info\<lparr>processId := kCGWindowOwnerPID window\<rparr>;
                    info = (case kCGWindowBounds window of
                              Some b \<Rightarrow> info\<lparr>rect := b\<rparr> | None \<Rightarrow> info);
                    info = info\<lparr>isVisible := kCGWindowIsOnscreen window\<rparr>;
                    info = info\<lparr>state := WindowState_Normal\<rparr>;
                    info = (if \<not> isVisible info
                            then info\<lparr>state := WindowState_or (state info) WindowState_Hidden\<rparr>
                            else info)
                in (Result_new info, s1)))"

definition MacOS_GetWindowTitle ::
  "mac_env \<Rightarrow> NativeHandle \<Rightarrow> mac_state \<Rightarrow> string Result \<times> mac_state" where
  "MacOS_GetWindowTitle env h s =
     (case MacOS_GetWindowInfo env h s of
        (info, s1) \<Rightarrow>
          if \<not> ok info
          then (Result_fail (Result_new []) (res_error info) (res_errorMessage info), s1)
          else (Result_new (title (res_value info)), s1))"

definition MacOS_GetWindowRect ::
  "mac_env \<Rightarrow> NativeHandle \<Rightarrow> mac_state \<Rightarrow> Rect Result \<times> mac_state" where
  "MacOS_GetWindowRect env h s =
     (case MacOS_GetWindowInfo env h s of
        (info, s1) \<Rightarrow>
          if \<not> ok info
          then (Result_fail (Result_new Rect_default) (res_error info) (res_errorMessage info), s1)
          else (Result_new (rect (res_value info)), s1))"

text \<open>
  \<open>Result<WindowState>\<close> and \<open>Result<uint32_t>\<close> leave their value uninitialised on the
  error paths; the model puts 0 there, and nothing below reads it.
\<close>

definition MacOS_GetWindowState ::
  "mac_env \<Rightarrow> NativeHandle \<Rightarrow> mac_state \<Rightarrow> WindowState Result \<times> mac_state" where
  "MacOS_GetWindowState env h s =
     (case MacOS_GetWindowInfo env h s of
        (info, s1) \<Rightarrow>
          if \<not> ok info
          then (Result_fail (Result_new 0) (res_error info) (res_errorMessage info), s1)
          else (Result_new (state (res_value info)), s1))"

definition MacOS_GetWindowProcessId ::
  "mac_env \<Rightarrow> NativeHandle \<Rightarrow> mac_state \<Rightarrow> 32 word Result \<times> mac_state" where
  "MacOS_GetWindowProcessId env h s =
     (case MacOS_GetWindowInfo env h s of
        (info, s1) \<Rightarrow>
          if \<not> ok info
          then (Result_fail (Result_new 0) (res_error info) (res_errorMessage info), s1)
          else (Result_new (processId (res_value info)), s1))"

definition MacOS_IsWindowVisible :: "mac_env \<Rightarrow> NativeHandle \<Rightarrow> mac_state \<Rightarrow> bool \<times> mac_state" where
  "MacOS_IsWindowVisible env h s =
     (case MacOS_GetWindowInfo env h s of
        (info, s1) \<Rightarrow> (ok info \<and> isVisible (res_value info), s1))"

definition MacOS_IsValidWindow :: "mac_env \<Rightarrow> NativeHandle \<Rightarrow> mac_state \<Rightarrow> bool \<times> mac_state" where
  "MacOS_IsValidWindow env h s =
     (case MacOS_GetWindowInfo env h s of (info, s1) \<Rightarrow> (ok info, s1))"

text \<open>The loop of \<open>GetFocusedWindow\<close>: the first titled window of the frontmost application.\<close>

fun MacOS_first_titled :: "32 word \<Rightarrow> CGWindow list \<Rightarrow> NativeHandle" where
  "MacOS_first_titled pid [] = 0"
| "MacOS_first_titled pid (window # windows) =
     (if kCGWindowOwnerPID window = pid
         \<and> (case kCGWindowName window of Some t \<Rightarrow> 0 < length t | None \<Rightarrow> False)
      then ucast (kCGWindowNumber window)
      else MacOS_first_titled pid windows)"

definition MacOS_GetFocusedWindow :: "mac_env \<Rightarrow> mac_state \<Rightarrow> NativeHandle \<times> mac_state" where
  "MacOS_GetFocusedWindow env s =
     (if \<not> m_initialized s then (0, s)
      else
        let frontApp = mac_frontmostApplication (env (trace s));
            s1 = request NSWorkspace_frontmostApplication s
        in case frontApp of
             None \<Rightarrow> (0, s1)
           | Some pid \<Rightarrow>
               (let windowList = mac_OnScreenOnly (env (trace s1));
                    s2 = request CGWindowListCopyWindowInfo_OnScreenOnly s1
                in case windowList of
                     None \<Rightarrow> (0, s2)
                   | Some windows \<Rightarrow> (MacOS_first_titled pid windows, s2)))"

definition MacOS_GetFocusedWindowInfo :: "mac_env \<Rightarrow> mac_state \<Rightarrow> WindowInfo Result \<times> mac_state" where
  "MacOS_GetFocusedWindowInfo env s =
     (case MacOS_GetFocusedWindow env s of
        (focused, s1) \<Rightarrow>
          if focused = 0
          then (Result_fail (Result_new WindowInfo_default) WindowNotFound ''No focused window found'', s1)
          else MacOS_GetWindowInfo env focused s1)"

subsection \<open>Window control\<close>

text \<open>
  \<open>GetAXWindowForPid\<close>: the first element of the application's window array, whatever
  the window id asked for.
\<close>

definition GetAXWindowForPid ::
  "mac_env \<Rightarrow> 32 word \<Rightarrow> 32 word \<Rightarrow> mac_state \<Rightarrow> AXUIElementRef option \<times> mac_state" where
  "GetAXWindowForPid env pid targetWindowID s =
     (let appElement = mac_CreateApplication (env (trace s)) pid;
          s1 = request (AXUIElementCreateApplication pid) s
      in if \<not> appElement then (None, s1)
         else
           let windows = mac_Windows (env (trace s1)) pid;
               s2 = request (AXUIElementCopyAttributeValue_Windows pid) s1
           in case windows of
                None \<Rightarrow> (None, s2)
              | Some [] \<Rightarrow> (None, s2)
              | Some (window # _) \<Rightarrow> (Some window, s2))"

definition MacOS_CloseWindow :: "mac_env \<Rightarrow> NativeHandle \<Rightarrow> mac_state \<Rightarrow> ErrorCode \<times> mac_state" where
  "MacOS_CloseWindow env h s =
     (if \<not> m_initialized s then (NotInitialized, s)
      else case MacOS_GetWindowInfo env h s of
        (info, s1) \<Rightarrow>
          if \<not> ok info then (res_error info, s1)
          else case GetAXWindowForPid env (processId (res_value info)) (ucast h) s1 of
            (None, s2) \<Rightarrow> (AccessDenied, s2)
          | (Some window, s2) \<Rightarrow>
              (let closeButton = mac_Attribute (env (trace s2)) window kAXCloseButtonAttribute;
                   s3 = request (AXUIElementCopyAttributeValue window kAXCloseButtonAttribute) s2
               in case closeButton of
                    Some b \<Rightarrow> (Success, request (AXUIElementPerformAction b kAXPressAction) s3)
                  | None \<Rightarrow> (Success, s3)))"

definition MacOS_ForceCloseWindow :: "mac_env \<Rightarrow> NativeHandle \<Rightarrow> mac_state \<Rightarrow> ErrorCode \<times> mac_state" where
  "MacOS_ForceCloseWindow env h s =
     (if \<not> m_initialized s then (NotInitialized, s)
      else case MacOS_GetWindowInfo env h s of
        (info, s1) \<Rightarrow>
          if \<not> ok info then (res_error info, s1)
          else (Success, request (kill_SIGKILL (processId (res_value info))) s1))"

definition MacOS_MinimizeWindow :: "mac_env \<Rightarrow> NativeHandle \<Rightarrow> mac_state \<Rightarrow> ErrorCode \<times> mac_state" where
  "MacOS_MinimizeWindow env h s =
     (if \<not> m_initialized s then (NotInitialized, s)
      else case MacOS_GetWindowInfo env h s of
        (info, s1) \<Rightarrow>
          if \<not> ok info then (res_error info, s1)
          else case GetAXWindowForPid env (processId (res_value info)) (ucast h) s1 of
            (None, s2) \<Rightarrow> (AccessDenied, s2)
          | (Some window, s2) \<Rightarrow>
              (Success,
               request (AXUIElementSetAttributeValue window kAXMinimizedAttribute (kCFBoolean True)) s2))"

definition MacOS_MaximizeWindow :: "mac_env \<Rightarrow> NativeHandle \<Rightarrow> mac_state \<Rightarrow> ErrorCode \<times> mac_state" where
  "MacOS_MaximizeWindow env h s =
     (if \<not> m_initialized s then (NotInitialized, s)
      else case MacOS_GetWindowInfo env h s of
        (info, s1) \<Rightarrow>
          if \<not> ok info then (res_error info, s1)
          else case GetAXWindowForPid env (processId (res_value info)) (ucast h) s1 of
            (None, s2) \<Rightarrow> (AccessDenied, s2)
          | (Some window, s2) \<Rightarrow>
              (let zoomButton = mac_Attribute (env (trace s2)) window kAXZoomButtonAttribute;
                   s3 = request (AXUIElementCopyAttributeValue window kAXZoomButtonAttribute) s2
               in case zoomButton of
                    Some b \<Rightarrow> (Success, request (AXUIElementPerformAction b kAXPressAction) s3)
                  | None \<Rightarrow> (Success, s3)))"

definition MacOS_RestoreWindow :: "mac_env \<Rightarrow> NativeHandle \<Rightarrow> mac_state \<Rightarrow> ErrorCode \<times> mac_state" where
  "MacOS_RestoreWindow env h s =
     (if \<not> m_initialized s then (NotInitialized, s)
      else case MacOS_GetWindowInfo env h s of
        (info, s1) \<Rightarrow>
          if \<not> ok info then (res_error info, s1)
          else case GetAXWindowForPid env (processId (res_value info)) (ucast h) s1 of
            (None, s2) \<Rightarrow> (AccessDenied, s2)
          | (Some window, s2) \<Rightarrow>
              (Success,
               request (AXUIElementSetAttributeValue window kAXMinimizedAttribute (kCFBoolean False)) s2))"

definition MacOS_ShowWindow :: "mac_env \<Rightarrow> NativeHandle \<Rightarrow> mac_state \<Rightarrow> ErrorCode \<times> mac_state" where
  "MacOS_ShowWindow env h s = MacOS_RestoreWindow env h s"

definition MacOS_HideWindow :: "mac_env \<Rightarrow> NativeHandle \<Rightarrow> mac_state \<Rightarrow> ErrorCode \<times> mac_state" where
  "MacOS_HideWindow env h s = MacOS_MinimizeWindow env h s"

definition MacOS_FocusWindow :: "mac_env \<Rightarrow> NativeHandle \<Rightarrow> mac_state \<Rightarrow> ErrorCode \<times> mac_state" where
  "MacOS_FocusWindow env h s =
     (if \<not> m_initialized s then (NotInitialized, s)
      else case MacOS_GetWindowInfo env h s of
        (info, s1) \<Rightarrow>
          if \<not> ok info then (res_error info, s1)
          else
            let pid = processId (res_value info);
                app = mac_runningApplication (env (trace s1)) pid;
                s2 = request (NSRunningApplication_withProcessIdentifier pid) s1;
                s3 = (if app then request (NSRunningApplication_activate pid) s2 else s2)
            in case GetAXWindowForPid env pid (ucast h) s3 of
                 (Some window, s4) \<Rightarrow>
                   (Success, request (AXUIElementPerformAction window kAXRaiseAction) s4)
               | (None, s4) \<Rightarrow> (Success, s4))"

definition MacOS_SetAlwaysOnTop ::
  "mac_env \<Rightarrow> NativeHandle \<Rightarrow> bool \<Rightarrow> mac_state \<Rightarrow> ErrorCode \<times> mac_state" where
  "MacOS_SetAlwaysOnTop env h topmost s =
     (NotSupported, SetLastError ''SetAlwaysOnTop not supported for external windows on macOS'' s)"

definition MacOS_SetWindowRect ::
  "mac_env \<Rightarrow> NativeHandle \<Rightarrow> Rect \<Rightarrow> mac_state \<Rightarrow> ErrorCode \<times> mac_state" where
  "MacOS_SetWindowRect env h r s =
     (if \<not> m_initialized s then (NotInitialized, s)
      else case MacOS_GetWindowInfo env h s of
        (info, s1) \<Rightarrow>
          if \<not> ok info then (res_error info, s1)
          else case GetAXWindowForPid env (processId (res_value info)) (ucast h) s1 of
            (None, s2) \<Rightarrow> (AccessDenied, s2)
          | (Some window, s2) \<Rightarrow>
              (let s3 = request (AXUIElementSetAttributeValue window kAXPositionAttribute
                                   (CGPoint (rect_x r) (rect_y r))) s2;
                   s4 = request (AXUIElementSetAttributeValue window kAXSizeAttribute
                                   (CGSize (rect_width r) (rect_height r))) s3
               in (Success, s4)))"

definition MacOS_MoveWindow ::
  "mac_env \<Rightarrow> NativeHandle \<Rightarrow> 32 word \<Rightarrow> 32 word \<Rightarrow> mac_state \<Rightarrow> ErrorCode \<times> mac_state" where
  "MacOS_MoveWindow env h px py s =
     (if \<not> m_initialized s then (NotInitialized, s)
      else case MacOS_GetWindowInfo env h s of
        (info, s1) \<Rightarrow>
          if \<not> ok info then (res_error info, s1)
          else case GetAXWindowForPid env (processId (res_value info)) (ucast h) s1 of
            (None, s2) \<Rightarrow> (AccessDenied, s2)
          | (Some window, s2) \<Rightarrow>
              (Success,
               request (AXUIElementSetAttributeValue window kAXPositionAttribute (CGPoint px py)) s2))"

definition MacOS_ResizeWindow ::
  "mac_env \<Rightarrow> NativeHandle \<Rightarrow> 32 word \<Rightarrow> 32 word \<Rightarrow> mac_state \<Rightarrow> ErrorCode \<times> mac_state" where
  "MacOS_ResizeWindow env h w ht s =
     (if \<not> m_initialized s then (NotInitialized, s)
      else case MacOS_GetWindowInfo env h s of
        (info, s1) \<Rightarrow>
          if \<not> ok info then (res_error info, s1)
          else case GetAXWindowForPid env (processId (res_value info)) (ucast h) s1 of
            (None, s2) \<Rightarrow> (AccessDenied, s2)
          | (Some window, s2) \<Rightarrow>
              (Success,
               request (AXUIElementSetAttributeValue window kAXSizeAttribute (CGSize w ht)) s2))"

definition MacOS_SetWindowTitle ::
  "mac_env \<Rightarrow> NativeHandle \<Rightarrow> string \<Rightarrow> mac_state \<Rightarrow> ErrorCode \<times> mac_state" where
  "MacOS_SetWindowTitle env h t s =
     (NotSupported, SetLastError ''SetWindowTitle not supported for external windows on macOS'' s)"

definition MacOS_SetWindowOpacity ::
  "mac_env \<Rightarrow> NativeHandle \<Rightarrow> f32 \<Rightarrow> mac_state \<Rightarrow> ErrorCode \<times> mac_state" where
  "MacOS_SetWindowOpacity env h opacity s =
     (NotSupported, SetLastError ''SetWindowOpacity not supported for external windows on macOS'' s)"

section \<open>Win32 backend (WindowManagerWindows.cpp)\<close>

subsection \<open>The platform: the table of windows\<close>

text \<open>
  The desktop is a table from handles to windows. A Win32 query on a handle that is not
  a window fails: it answers \<open>FALSE\<close>, 0 or \<open>NULL\<close>. Wide strings are lists of 16-bit
  units; the conversion between them and UTF-8 belongs to the platform
  (\<open>None\<close> when the size it reports is not positive). The backend always hands the
  conversion a NUL-terminated string, with length \<open>-1\<close>.
\<close>

record RECT =
  rc_left :: "32 word"
  rc_top :: "32 word"
  rc_right :: "32 word"
  rc_bottom :: "32 word"

record win32_window =
  ww_visible :: bool
  ww_owner :: NativeHandle
  ww_text :: "16 word list"
  ww_class :: "16 word list"
  ww_pid :: "32 word"
  ww_rect :: RECT
  ww_iconic :: bool
  ww_zoomed :: bool
  ww_exstyle :: "32 word"

record win32 =
  w32_windows :: "NativeHandle \<rightharpoonup> win32_window"
  w32_toplevel :: "NativeHandle list"
  w32_foreground :: NativeHandle
  w32_OpenProcess_query :: "32 word \<Rightarrow> bool"
  w32_image_name :: "32 word \<Rightarrow> 16 word list option"
  w32_OpenProcess_terminate :: "32 word \<Rightarrow> bool"
  w32_WideCharToMultiByte :: "16 word list \<Rightarrow> string option"
  w32_MultiByteToWideChar :: "string \<Rightarrow> 16 word list option"

definition win_IsWindow :: "win32 \<Rightarrow> NativeHandle \<Rightarrow> bool" where
  "win_IsWindow p h = (w32_windows p h \<noteq> None)"

definition win_IsWindowVisible :: "win32 \<Rightarrow> NativeHandle \<Rightarrow> bool" where
  "win_IsWindowVisible p h = (case w32_windows p h of None \<Rightarrow> False | Some w \<Rightarrow> ww_visible w)"

definition win_GetWindow_owner :: "win32 \<Rightarrow> NativeHandle \<Rightarrow> NativeHandle" where
  "win_GetWindow_owner p h = (case w32_windows p h of None \<Rightarrow> 0 | Some w \<Rightarrow> ww_owner w)"

definition win_GetWindowTextLengthW :: "win32 \<Rightarrow> NativeHandle \<Rightarrow> nat" where
  "win_GetWindowTextLengthW p h = (case w32_windows p h of None \<Rightarrow> 0 | Some w \<Rightarrow> length (ww_text w))"

definition win_GetWindowTextW :: "win32 \<Rightarrow> NativeHandle \<Rightarrow> nat \<Rightarrow> 16 word list" where
  \<comment> \<open>copies at most \<open>nMaxCount - 1\<close> units\<close>
  "win_GetWindowTextW p h nMaxCount =
     (case w32_windows p h of None \<Rightarrow> [] | Some w \<Rightarrow> take (nMaxCount - 1) (ww_text w))"

definition win_GetClassNameW :: "win32 \<Rightarrow> NativeHandle \<Rightarrow> nat \<Rightarrow> 16 word list" where
  "win_GetClassNameW p h nMaxCount =
     (case w32_windows p h of None \<Rightarrow> [] | Some w \<Rightarrow> take (nMaxCount - 1) (ww_class w))"

definition win_GetWindowThreadProcessId :: "win32 \<Rightarrow> NativeHandle \<Rightarrow> 32 word option" where
  "win_GetWindowThreadProcessId p h = map_option ww_pid (w32_windows p h)"

definition win_GetWindowRect :: "win32 \<Rightarrow> NativeHandle \<Rightarrow> RECT option" where
  "win_GetWindowRect p h = map_option ww_rect (w32_windows p h)"

definition win_IsIconic :: "win32 \<Rightarrow> NativeHandle \<Rightarrow> bool" where
  "win_IsIconic p h = (case w32_windows p h of None \<Rightarrow> False | Some w \<Rightarrow> ww_iconic w)"

definition win_IsZoomed :: "win32 \<Rightarrow> NativeHandle \<Rightarrow> bool" where
  "win_IsZoomed p h = (case w32_windows p h of None \<Rightarrow> False | Some w \<Rightarrow> ww_zoomed w)"

definition win_GetWindowLongW :: "win32 \<Rightarrow> NativeHandle \<Rightarrow> 32 word" where
  "win_GetWindowLongW p h = (case w32_windows p h of None \<Rightarrow> 0 | Some w \<Rightarrow> ww_exstyle w)"

text \<open>Constants of \<open>windows.h\<close>.\<close>

definition WS_EX_TOPMOST :: "32 word" where "WS_EX_TOPMOST = 0x00000008"
definition WS_EX_LAYERED :: "32 word" where "WS_EX_LAYERED = 0x00080000"
definition SWP_NOSIZE :: "32 word" where "SWP_NOSIZE = 0x0001"
definition SWP_NOMOVE :: "32 word" where "SWP_NOMOVE = 0x0002"
definition SWP_NOZORDER :: "32 word" where "SWP_NOZORDER = 0x0004"
definition LWA_ALPHA :: "32 word" where "LWA_ALPHA = 0x00000002"

datatype nCmdShow = SW_HIDE | SW_MAXIMIZE | SW_SHOW | SW_MINIMIZE | SW_RESTORE

datatype hWndInsertAfter = HWND_TOPMOST | HWND_NOTOPMOST | HWND_nullptr

datatype dwDesiredAccess = PROCESS_QUERY_LIMITED_INFORMATION | PROCESS_TERMINATE

text \<open>
  The native requests of this backend, as they appear in the trace. A converted opacity is
  \<open>None\<close> where the conversion is undefined in C++.
\<close>

datatype win_call =
  IsWindow NativeHandle
  | IsWindowVisible NativeHandle
  | GetWindow_GW_OWNER NativeHandle
  | GetWindowTextLengthW NativeHandle
  | GetWindowTextW NativeHandle
  | GetClassNameW NativeHandle
  | GetWindowThreadProcessId NativeHandle
  | OpenProcess dwDesiredAccess "32 word"
  | QueryFullProcessImageNameW "32 word"
  | CloseHandle "32 word"
  | TerminateProcess "32 word"
  | GetWindowRect NativeHandle
  | IsIconic NativeHandle
  | IsZoomed NativeHandle
  | GetWindowLongW_GWL_EXSTYLE NativeHandle
  | SetWindowLongW_GWL_EXSTYLE NativeHandle "32 word"
  | GetForegroundWindow
  | EnumWindows
  | PostMessage_WM_CLOSE NativeHandle
  | ShowWindow NativeHandle nCmdShow
  | SetForegroundWindow NativeHandle
  | SetFocus NativeHandle
  | SetWindowPos NativeHandle hWndInsertAfter "32 word" "32 word" "32 word" "32 word" "32 word"
  | MoveWindow NativeHandle "32 word" "32 word" "32 word" "32 word"
  | SetWindowTextW NativeHandle "16 word list"
  | SetLayeredWindowAttributes NativeHandle "8 word option" "32 word"

type_synonym win_env = "win_call list \<Rightarrow> win32"
type_synonym win_state = "win_call WindowManagerImplBase"

text \<open>
  \<open>native env c answer s\<close> issues the request \<open>c\<close>: the platform answers from the desktop
  as it stands after the requests made so far, and the request joins the trace.
\<close>

definition native ::
  "('c list \<Rightarrow> 'p) \<Rightarrow> 'c \<Rightarrow> ('p \<Rightarrow> 'a) \<Rightarrow> ('c, 'z) WindowManagerImplBase_scheme
    \<Rightarrow> 'a \<times> ('c, 'z) WindowManagerImplBase_scheme" where
  "native env c answer s = (answer (env (trace s)), request c s)"

subsection \<open>Lifecycle\<close>

definition Windows_Initialize :: "win_env \<Rightarrow> win_state \<Rightarrow> bool \<times> win_state" where
  "Windows_Initialize env s = (True, s\<lparr>m_initialized := True\<rparr>)"

definition Windows_Shutdown :: "win_state \<Rightarrow> win_state" where
  "Windows_Shutdown s = s\<lparr>m_initialized := False\<rparr>"

subsection \<open>Helpers\<close>

definition Windows_GetWindowTitleInternal ::
  "win_env \<Rightarrow> NativeHandle \<Rightarrow> win_state \<Rightarrow> string \<times> win_state" where
  "Windows_GetWindowTitleInternal env hwnd s =
     (case native env (GetWindowTextLengthW hwnd) (\<lambda>p. win_GetWindowTextLengthW p hwnd) s of
        (len, s1) \<Rightarrow>
          if len = 0 then ([], s1)
          else case native env (GetWindowTextW hwnd) (\<lambda>p. win_GetWindowTextW p hwnd (len + 1)) s1 of
            (wideTitle, s2) \<Rightarrow>
              (case w32_WideCharToMultiByte (env (trace s2)) (wide_c_str (take len wideTitle)) of
                 None \<Rightarrow> ([], s2)
               | Some t \<Rightarrow> (t, s2)))"

definition Windows_GetWindowClassInternal ::
  "win_env \<Rightarrow> NativeHandle \<Rightarrow> win_state \<Rightarrow> string \<times> win_state" where
  "Windows_GetWindowClassInternal env hwnd s =
     (case native env (GetClassNameW hwnd) (\<lambda>p. win_GetClassNameW p hwnd 256) s of
        (name, s1) \<Rightarrow>
          if length name = 0 then ([], s1)
          else case w32_WideCharToMultiByte (env (trace s1)) (wide_c_str name) of
                 None \<Rightarrow> ([], s1)
               | Some t \<Rightarrow> (t, s1))"

text \<open>\<open>wcsrchr(processName, L'\\')\<close> and the file name after it.\<close>

definition fileName_of :: "16 word list \<Rightarrow> 16 word list" where
  "fileName_of path = rev (takeWhile (\<lambda>c. c \<noteq> 0x5C) (rev path))"

definition Windows_GetProcessNameFromPid ::
  "win_env \<Rightarrow> 32 word \<Rightarrow> win_state \<Rightarrow> string \<times> win_state" where
  "Windows_GetProcessNameFromPid env pid s =
     (case native env (OpenProcess PROCESS_QUERY_LIMITED_INFORMATION pid)
             (\<lambda>p. w32_OpenProcess_query p pid) s of
        (hProcess, s1) \<Rightarrow>
          if hProcess then
            (case native env (QueryFullProcessImageNameW pid) (\<lambda>p. w32_image_name p pid) s1 of
               (Some path, s2) \<Rightarrow>
                 (case w32_WideCharToMultiByte (env (trace s2)) (fileName_of (wide_c_str path)) of
                    Some n \<Rightarrow> (n, request (CloseHandle pid) s2)
                  | None \<Rightarrow> ([], request (CloseHandle pid) s2))
             | (None, s2) \<Rightarrow> ([], request (CloseHandle pid) s2))
          else ([], s1))"

subsection \<open>Queries\<close>

text \<open>
  In \<open>GetWindowInfo\<close> the call \<open>GetWindowRect(hwnd, &rect)\<close>, and in \<open>EnumWindowsProc\<close> the
  call \<open>IsWindowVisible(hwnd)\<close>, are the Win32 functions of these names.
\<close>

definition Windows_GetWindowInfo ::
  "win_env \<Rightarrow> NativeHandle \<Rightarrow> win_state \<Rightarrow> WindowInfo Result \<times> win_state" where
  "Windows_GetWindowInfo env h s =
     (let result = Result_new WindowInfo_default in
      if \<not> m_initialized s
      then (Result_fail result NotInitialized ''WindowManager not initialized'', s)
      else case native env (IsWindow h) (\<lambda>p. win_IsWindow p h) s of
        (valid, s1) \<Rightarrow>
          if \<not> valid then (Result_fail result InvalidHandle ''Invalid window handle'', s1)
          else
            case Windows_GetWindowTitleInternal env h s1 of (t, s2) \<Rightarrow>
            case Windows_GetWindowClassInternal env h s2 of (c, s3) \<Rightarrow>
            case native env (GetWindowThreadProcessId h) (\<lambda>p. win_GetWindowThreadProcessId p h) s3 of
              (tid, s4) \<Rightarrow>
            let pid = (case tid of Some p \<Rightarrow> p | None \<Rightarrow> 0) in
            case Windows_GetProcessNameFromPid env pid s4 of (pn, s5) \<Rightarrow>
            let info = WindowInfo_default
                  \<lparr>handle := h, title := t, className := c, processId := pid, processName := pn\<rparr> in
            case native env (GetWindowRect h) (\<lambda>p. win_GetWindowRect p h) s5 of (rc, s6) \<Rightarrow>
            let info = (case rc of
                          Some r \<Rightarrow>
                            info\<lparr>rect := \<lparr>rect_x = rc_left r, rect_y = rc_top r,
                                          rect_width = rc_right r - rc_left r,
                                          rect_height = rc_bottom r - rc_top r\<rparr>\<rparr>
                        | None \<Rightarrow> info) in
            case native env (IsWindowVisible h) (\<lambda>p. win_IsWindowVisible p h) s6 of (vis, s7) \<Rightarrow>
            let info = info\<lparr>state := WindowState_Normal, isVisible := vis\<rparr> in
            case native env (IsIconic h) (\<lambda>p. win_IsIconic p h) s7 of (iconic, s8) \<Rightarrow>
            let info = (if iconic
                        then info\<lparr>state := WindowState_or (state info) WindowState_Minimized\<rparr>
                        else info) in
            case native env (IsZoomed h) (\<lambda>p. win_IsZoomed p h) s8 of (zoomed, s9) \<Rightarrow>
            let info = (if zoomed
                        then info\<lparr>state := WindowState_or (state info) WindowState_Maximized\<rparr>
                        else info);
                info = (if \<not> isVisible info
                        then info\<lparr>state := WindowState_or (state info) WindowState_Hidden\<rparr>
                        else info) in
            case native env (GetWindowLongW_GWL_EXSTYLE h) (\<lambda>p. win_GetWindowLongW p h) s9 of
              (exStyle, s10) \<Rightarrow>
            let info = (if exStyle AND WS_EX_TOPMOST \<noteq> 0
                        then info\<lparr>state := WindowState_or (state info) WindowState_AlwaysOnTop\<rparr>
                        else info) in
            case native env GetForegroundWindow w32_foreground s10 of (fg, s11) \<Rightarrow>
            let info = (if fg = h
                        then info\<lparr>state := WindowState_or (state info) WindowState_Focused\<rparr>
                        else info)
            in (Result_new info, s11))"

definition Windows_GetWindowTitle ::
  "win_env \<Rightarrow> NativeHandle \<Rightarrow> win_state \<Rightarrow> string Result \<times> win_state" where
  "Windows_GetWindowTitle env h s =
     (let result = Result_new [] in
      if \<not> m_initialized s
      then (Result_fail result NotInitialized ''WindowManager not initialized'', s)
      else case native env (IsWindow h) (\<lambda>p. win_IsWindow p h) s of
        (valid, s1) \<Rightarrow>
          if \<not> valid then (Result_fail result InvalidHandle ''Invalid window handle'', s1)
          else case Windows_GetWindowTitleInternal env h s1 of (t, s2) \<Rightarrow> (Result_new t, s2))"

definition Windows_GetWindowRect ::
  "win_env \<Rightarrow> NativeHandle \<Rightarrow> win_state \<Rightarrow> Rect Result \<times> win_state" where
  "Windows_GetWindowRect env h s =
     (let result = Result_new Rect_default in
      if \<not> m_initialized s
      then (Result_fail result NotInitialized ''WindowManager not initialized'', s)
      else case native env (IsWindow h) (\<lambda>p. win_IsWindow p h) s of
        (valid, s1) \<Rightarrow>
          if \<not> valid then (Result_fail result InvalidHandle ''Invalid window handle'', s1)
          else case native env (GetWindowRect h) (\<lambda>p. win_GetWindowRect p h) s1 of
            (Some r, s2) \<Rightarrow>
              (Result_new \<lparr>rect_x = rc_left r, rect_y = rc_top r,
                           rect_width = rc_right r - rc_left r,
                           rect_height = rc_bottom r - rc_top r\<rparr>, s2)
          | (None, s2) \<Rightarrow> (Result_fail result OperationFailed ''Failed to get window rect'', s2))"

definition Windows_GetWindowState ::
  "win_env \<Rightarrow> NativeHandle \<Rightarrow> win_state \<Rightarrow> WindowState Result \<times> win_state" where
  "Windows_GetWindowState env h s =
     (let result = Result_new 0 in
      if \<not> m_initialized s
      then (Result_fail result NotInitialized ''WindowManager not initialized'', s)
      else case native env (IsWindow h) (\<lambda>p. win_IsWindow p h) s of
        (valid, s1) \<Rightarrow>
          if \<not> valid then (Result_fail result InvalidHandle ''Invalid window handle'', s1)
          else
            let st = WindowState_Normal in
            case native env (IsIconic h) (\<lambda>p. win_IsIconic p h) s1 of (iconic, s2) \<Rightarrow>
            let st = (if iconic then WindowState_or st WindowState_Minimized else st) in
            case native env (IsZoomed h) (\<lambda>p. win_IsZoomed p h) s2 of (zoomed, s3) \<Rightarrow>
            let st = (if zoomed then WindowState_or st WindowState_Maximized else st) in
            case native env (IsWindowVisible h) (\<lambda>p. win_IsWindowVisible p h) s3 of (vis, s4) \<Rightarrow>
            let st = (if \<not> vis then WindowState_or st WindowState_Hidden else st) in
            case native env (GetWindowLongW_GWL_EXSTYLE h) (\<lambda>p. win_GetWindowLongW p h) s4 of
              (exStyle, s5) \<Rightarrow>
            let st = (if exStyle AND WS_EX_TOPMOST \<noteq> 0
                      then WindowState_or st WindowState_AlwaysOnTop else st) in
            case native env GetForegroundWindow w32_foreground s5 of (fg, s6) \<Rightarrow>
            let st = (if fg = h then WindowState_or st WindowState_Focused else st)
            in (Result_new st, s6))"

definition Windows_GetWindowProcessId ::
  "win_env \<Rightarrow> NativeHandle \<Rightarrow> win_state \<Rightarrow> 32 word Result \<times> win_state" where
  "Windows_GetWindowProcessId env h s =
     (let result = Result_new 0 in
      if \<not> m_initialized s
      then (Result_fail result NotInitialized ''WindowManager not initialized'', s)
      else case native env (IsWindow h) (\<lambda>p. win_IsWindow p h) s of
        (valid, s1) \<Rightarrow>
          if \<not> valid then (Result_fail result InvalidHandle ''Invalid window handle'', s1)
          else case native env (GetWindowThreadProcessId h)
                      (\<lambda>p. win_GetWindowThreadProcessId p h) s1 of
            (tid, s2) \<Rightarrow> (Result_new (case tid of Some p \<Rightarrow> p | None \<Rightarrow> 0), s2))"

definition Windows_IsWindowVisible ::
  "win_env \<Rightarrow> NativeHandle \<Rightarrow> win_state \<Rightarrow> bool \<times> win_state" where
  "Windows_IsWindowVisible env h s =
     (if \<not> m_initialized s then (False, s)
      else native env (IsWindowVisible h) (\<lambda>p. win_IsWindowVisible p h) s)"

definition Windows_IsValidWindow ::
  "win_env \<Rightarrow> NativeHandle \<Rightarrow> win_state \<Rightarrow> bool \<times> win_state" where
  "Windows_IsValidWindow env h s =
     (if \<not> m_initialized s then (False, s)
      else native env (IsWindow h) (\<lambda>p. win_IsWindow p h) s)"

definition Windows_GetFocusedWindow :: "win_env \<Rightarrow> win_state \<Rightarrow> NativeHandle \<times> win_state" where
  "Windows_GetFocusedWindow env s =
     (if \<not> m_initialized s then (0, s)
      else native env GetForegroundWindow w32_foreground s)"

definition Windows_GetFocusedWindowInfo ::
  "win_env \<Rightarrow> win_state \<Rightarrow> WindowInfo Result \<times> win_state" where
  "Windows_GetFocusedWindowInfo env s =
     (case Windows_GetFocusedWindow env s of
        (focused, s1) \<Rightarrow>
          if focused = 0
          then (Result_fail (Result_new WindowInfo_default) WindowNotFound ''No focused window found'', s1)
          else Windows_GetWindowInfo env focused s1)"

subsection \<open>Enumeration\<close>

text \<open>
  \<open>EnumWindowsData\<close>: the vector to fill (or \<open>nullptr\<close>), the callback (or \<open>nullptr\<close>) and
  the flag; the manager is the backend state. \<open>ewd_walk\<close> records the invocations of the
  callback.
\<close>

record 'v EnumWindowsData =
  ewd_windows :: "WindowInfo list option"
  ewd_callback :: "'v EnumWindowsCallback option"
  ewd_continueEnum :: bool
  ewd_walk :: "'v walk"

definition EnumWindowsProc ::
  "win_env \<Rightarrow> NativeHandle \<Rightarrow> 'v EnumWindowsData \<Rightarrow> win_state
    \<Rightarrow> bool \<times> 'v EnumWindowsData \<times> win_state" where
  "EnumWindowsProc env hwnd data s =
     (case native env (IsWindowVisible hwnd) (\<lambda>p. win_IsWindowVisible p hwnd) s of
        (vis, s1) \<Rightarrow>
          if \<not> vis then (True, data, s1)
          else case native env (GetWindow_GW_OWNER hwnd) (\<lambda>p. win_GetWindow_owner p hwnd) s1 of
            (owner, s2) \<Rightarrow>
              if owner \<noteq> 0 then (True, data, s2)
              else case native env (GetWindowTextLengthW hwnd)
                          (\<lambda>p. win_GetWindowTextLengthW p hwnd) s2 of
                (len, s3) \<Rightarrow>
                  if len = 0 then (True, data, s3)
                  else case Windows_GetWindowInfo env hwnd s3 of
                    (infoResult, s4) \<Rightarrow>
                      if ok infoResult then
                        (let data1 = (case ewd_windows data of
                                        Some ws \<Rightarrow>
                                          data\<lparr>ewd_windows := Some (ws @ [res_value infoResult])\<rparr>
                                      | None \<Rightarrow> data)
                         in case ewd_callback data1 of
                              Some callback \<Rightarrow>
                                (case callback (visitor (ewd_walk data1)) (res_value infoResult) of
                                   (continue, v) \<Rightarrow>
                                     (let data2 = data1\<lparr>ewd_walk :=
                                            \<lparr>visited = visited (ewd_walk data1) @ [res_value infoResult],
                                             visitor = v\<rparr>\<rparr>
                                      in if \<not> continue
                                         then (False, data2\<lparr>ewd_continueEnum := False\<rparr>, s4)
                                         else (True, data2, s4)))
                            | None \<Rightarrow> (True, data1, s4))
                      else (True, data, s4))"

text \<open>
  \<open>::EnumWindows\<close> hands every top-level window to the procedure, in order, until the
  procedure returns \<open>FALSE\<close>.
\<close>

fun EnumWindows_walk ::
  "win_env \<Rightarrow> NativeHandle list \<Rightarrow> 'v EnumWindowsData \<Rightarrow> win_state
    \<Rightarrow> 'v EnumWindowsData \<times> win_state" where
  "EnumWindows_walk env [] data s = (data, s)"
| "EnumWindows_walk env (hwnd # rest) data s =
     (case EnumWindowsProc env hwnd data s of
        (continue, data1, s1) \<Rightarrow>
          if continue then EnumWindows_walk env rest data1 s1 else (data1, s1))"

definition Win32_EnumWindows ::
  "win_env \<Rightarrow> 'v EnumWindowsData \<Rightarrow> win_state \<Rightarrow> 'v EnumWindowsData \<times> win_state" where
  "Win32_EnumWindows env data s =
     (case native env EnumWindows w32_toplevel s of
        (toplevel, s1) \<Rightarrow> EnumWindows_walk env toplevel data s1)"

definition Windows_GetAllWindows :: "win_env \<Rightarrow> win_state \<Rightarrow> WindowInfo list \<times> win_state" where
  "Windows_GetAllWindows env s =
     (if \<not> m_initialized s then ([], SetLastError ''WindowManager not initialized'' s)
      else
        let data = \<lparr>ewd_windows = Some [], ewd_callback = None, ewd_continueEnum = True,
                    ewd_walk = \<lparr>visited = [], visitor = ()\<rparr>\<rparr>
        in case Win32_EnumWindows env data s of
             (data1, s1) \<Rightarrow> (case ewd_windows data1 of Some ws \<Rightarrow> ws | None \<Rightarrow> [], s1))"

definition Windows_EnumerateWindows ::
  "win_env \<Rightarrow> 'v EnumWindowsCallback \<Rightarrow> 'v \<Rightarrow> win_state \<Rightarrow> 'v walk \<times> win_state" where
  "Windows_EnumerateWindows env callback v s =
     (if \<not> m_initialized s then (\<lparr>visited = [], visitor = v\<rparr>, s)
      else
        let data = \<lparr>ewd_windows = None, ewd_callback = Some callback, ewd_continueEnum = True,
                    ewd_walk = \<lparr>visited = [], visitor = v\<rparr>\<rparr>
        in case Win32_EnumWindows env data s of (data1, s1) \<Rightarrow> (ewd_walk data1, s1))"


subsection \<open>Window control\<close>

definition Windows_CloseWindow :: "win_env \<Rightarrow> NativeHandle \<Rightarrow> win_state \<Rightarrow> ErrorCode \<times> win_state" where
  "Windows_CloseWindow env h s =
     (if \<not> m_initialized s then (NotInitialized, s)
      else case native env (IsWindow h) (\<lambda>p. win_IsWindow p h) s of
        (valid, s1) \<Rightarrow>
          if \<not> valid then (InvalidHandle, s1)
          else (Success, request (PostMessage_WM_CLOSE h) s1))"

definition Windows_ForceCloseWindow :: "win_env \<Rightarrow> NativeHandle \<Rightarrow> win_state \<Rightarrow> ErrorCode \<times> win_state" where
  "Windows_ForceCloseWindow env h s =
     (if \<not> m_initialized s then (NotInitialized, s)
      else case native env (IsWindow h) (\<lambda>p. win_IsWindow p h) s of
        (valid, s1) \<Rightarrow>
          if \<not> valid then (InvalidHandle, s1)
          else case native env (GetWindowThreadProcessId h)
                      (\<lambda>p. win_GetWindowThreadProcessId p h) s1 of
            (tid, s2) \<Rightarrow>
              (let pid = (case tid of Some p \<Rightarrow> p | None \<Rightarrow> 0)
               in case native env (OpenProcess PROCESS_TERMINATE pid)
                         (\<lambda>p. w32_OpenProcess_terminate p pid) s2 of
                    (hProcess, s3) \<Rightarrow>
                      if hProcess
                      then (Success, request (CloseHandle pid) (request (TerminateProcess pid) s3))
                      else (AccessDenied, s3)))"

definition Windows_MinimizeWindow :: "win_env \<Rightarrow> NativeHandle \<Rightarrow> win_state \<Rightarrow> ErrorCode \<times> win_state" where
  "Windows_MinimizeWindow env h s =
     (if \<not> m_initialized s then (NotInitialized, s)
      else case native env (IsWindow h) (\<lambda>p. win_IsWindow p h) s of
        (valid, s1) \<Rightarrow>
          if \<not> valid then (InvalidHandle, s1)
          else (Success, request (ShowWindow h SW_MINIMIZE) s1))"

definition Windows_MaximizeWindow :: "win_env \<Rightarrow> NativeHandle \<Rightarrow> win_state \<Rightarrow> ErrorCode \<times> win_state" where
  "Windows_MaximizeWindow env h s =
     (if \<not> m_initialized s then (NotInitialized, s)
      else case native env (IsWindow h) (\<lambda>p. win_IsWindow p h) s of
        (valid, s1) \<Rightarrow>
          if \<not> valid then (InvalidHandle, s1)
          else (Success, request (ShowWindow h SW_MAXIMIZE) s1))"

definition Windows_RestoreWindow :: "win_env \<Rightarrow> NativeHandle \<Rightarrow> win_state \<Rightarrow> ErrorCode \<times> win_state" where
  "Windows_RestoreWindow env h s =
     (if \<not> m_initialized s then (NotInitialized, s)
      else case native env (IsWindow h) (\<lambda>p. win_IsWindow p h) s of
        (valid, s1) \<Rightarrow>
          if \<not> valid then (InvalidHandle, s1)
          else (Success, request (ShowWindow h SW_RESTORE) s1))"

definition Windows_ShowWindow :: "win_env \<Rightarrow> NativeHandle \<Rightarrow> win_state \<Rightarrow> ErrorCode \<times> win_state" where
  "Windows_ShowWindow env h s =
     (if \<not> m_initialized s then (NotInitialized, s)
      else case native env (IsWindow h) (\<lambda>p. win_IsWindow p h) s of
        (valid, s1) \<Rightarrow>
          if \<not> valid then (InvalidHandle, s1)
          else (Success, request (ShowWindow h SW_SHOW) s1))"

definition Windows_HideWindow :: "win_env \<Rightarrow> NativeHandle \<Rightarrow> win_state \<Rightarrow> ErrorCode \<times> win_state" where
  "Windows_HideWindow env h s =
     (if \<not> m_initialized s then (NotInitialized, s)
      else case native env (IsWindow h) (\<lambda>p. win_IsWindow p h) s of
        (valid, s1) \<Rightarrow>
          if \<not> valid then (InvalidHandle, s1)
          else (Success, request (ShowWindow h SW_HIDE) s1))"

definition Windows_FocusWindow :: "win_env \<Rightarrow> NativeHandle \<Rightarrow> win_state \<Rightarrow> ErrorCode \<times> win_state" where
  "Windows_FocusWindow env h s =
     (if \<not> m_initialized s then (NotInitialized, s)
      else case native env (IsWindow h) (\<lambda>p. win_IsWindow p h) s of
        (valid, s1) \<Rightarrow>
          if \<not> valid then (InvalidHandle, s1)
          else case native env (IsIconic h) (\<lambda>p. win_IsIconic p h) s1 of
            (iconic, s2) \<Rightarrow>
              (let s3 = (if iconic then request (ShowWindow h SW_RESTORE) s2 else s2)
               in (Success, request (SetFocus h) (request (SetForegroundWindow h) s3))))"

definition Windows_SetAlwaysOnTop ::
  "win_env \<Rightarrow> NativeHandle \<Rightarrow> bool \<Rightarrow> win_state \<Rightarrow> ErrorCode \<times> win_state" where
  "Windows_SetAlwaysOnTop env h topmost s =
     (if \<not> m_initialized s then (NotInitialized, s)
      else case native env (IsWindow h) (\<lambda>p. win_IsWindow p h) s of
        (valid, s1) \<Rightarrow>
          if \<not> valid then (InvalidHandle, s1)
          else
            let insertAfter = (if topmost then HWND_TOPMOST else HWND_NOTOPMOST)
            in (Success, request (SetWindowPos h insertAfter 0 0 0 0 (SWP_NOMOVE OR SWP_NOSIZE)) s1))"

definition Windows_SetWindowRect ::
  "win_env \<Rightarrow> NativeHandle \<Rightarrow> Rect \<Rightarrow> win_state \<Rightarrow> ErrorCode \<times> win_state" where
  "Windows_SetWindowRect env h r s =
     (if \<not> m_initialized s then (NotInitialized, s)
      else case native env (IsWindow h) (\<lambda>p. win_IsWindow p h) s of
        (valid, s1) \<Rightarrow>
          if \<not> valid then (InvalidHandle, s1)
          else (Success,
                request (MoveWindow h (rect_x r) (rect_y r) (rect_width r) (rect_height r)) s1))"

definition Windows_MoveWindow ::
  "win_env \<Rightarrow> NativeHandle \<Rightarrow> 32 word \<Rightarrow> 32 word \<Rightarrow> win_state \<Rightarrow> ErrorCode \<times> win_state" where
  "Windows_MoveWindow env h px py s =
     (if \<not> m_initialized s then (NotInitialized, s)
      else case native env (IsWindow h) (\<lambda>p. win_IsWindow p h) s of
        (valid, s1) \<Rightarrow>
          if \<not> valid then (InvalidHandle, s1)
          else (Success,
                request (SetWindowPos h HWND_nullptr px py 0 0 (SWP_NOSIZE OR SWP_NOZORDER)) s1))"

definition Windows_ResizeWindow ::
  "win_env \<Rightarrow> NativeHandle \<Rightarrow> 32 word \<Rightarrow> 32 word \<Rightarrow> win_state \<Rightarrow> ErrorCode \<times> win_state" where
  "Windows_ResizeWindow env h w ht s =
     (if \<not> m_initialized s then (NotInitialized, s)
      else case native env (IsWindow h) (\<lambda>p. win_IsWindow p h) s of
        (valid, s1) \<Rightarrow>
          if \<not> valid then (InvalidHandle, s1)
          else (Success,
                request (SetWindowPos h HWND_nullptr 0 0 w ht (SWP_NOMOVE OR SWP_NOZORDER)) s1))"

definition Windows_SetWindowTitle ::
  "win_env \<Rightarrow> NativeHandle \<Rightarrow> string \<Rightarrow> win_state \<Rightarrow> ErrorCode \<times> win_state" where
  "Windows_SetWindowTitle env h t s =
     (if \<not> m_initialized s then (NotInitialized, s)
      else case native env (IsWindow h) (\<lambda>p. win_IsWindow p h) s of
        (valid, s1) \<Rightarrow>
          if \<not> valid then (InvalidHandle, s1)
          else case w32_MultiByteToWideChar (env (trace s1)) (c_str t) of
                 None \<Rightarrow> (OperationFailed, s1)
               | Some wideTitle \<Rightarrow>
                   (Success, request (SetWindowTextW h (wide_c_str wideTitle)) s1))"

definition Windows_SetWindowOpacity ::
  "win_env \<Rightarrow> NativeHandle \<Rightarrow> f32 \<Rightarrow> win_state \<Rightarrow> ErrorCode \<times> win_state" where
  "Windows_SetWindowOpacity env h opacity s =
     (if \<not> m_initialized s then (NotInitialized, s)
      else case native env (IsWindow h) (\<lambda>p. win_IsWindow p h) s of
        (valid, s1) \<Rightarrow>
          if \<not> valid then (InvalidHandle, s1)
          else
            let opacity = std_max (Finite 0) (std_min (Finite 1) opacity) in
            case native env (GetWindowLongW_GWL_EXSTYLE h) (\<lambda>p. win_GetWindowLongW p h) s1 of
              (exStyle, s2) \<Rightarrow>
                (let s3 = request (SetWindowLongW_GWL_EXSTYLE h (exStyle OR WS_EX_LAYERED)) s2;
                     alpha = (f32_to_unsigned (f32_mult opacity (f32_round 255)) :: 8 word option)
                 in (Success, request (SetLayeredWindowAttributes h alpha LWA_ALPHA) s3)))"

section \<open>X11 backend (WindowManagerLinux.cpp)\<close>

subsection \<open>The platform: answers of the X server\<close>

text \<open>
  \<open>Window\<close> and \<open>Atom\<close> are \<open>unsigned long\<close>. The server is described by its answers:
  \<open>XGetWindowAttributes\<close> yields the attributes or fails (status 0);
  \<open>XGetWindowProperty\<close> yields a status (0 is the X11 \<open>Success\<close>) and the data, \<open>None\<close>
  for a null pointer, whose length is \<open>numItems\<close>; items of format 32 are \<open>long\<close>s, items of
  format 8 are bytes. \<open>x_proc_comm\<close> is the first line of \<open>/proc/<pid>/comm\<close>, \<open>None\<close> when
  the file cannot be opened or read.
\<close>

datatype map_state = IsUnmapped | IsUnviewable | IsViewable

record XWindowAttributes =
  xa_width :: "32 word"
  xa_height :: "32 word"
  xa_map_state :: map_state

record xserver =
  x_OpenDisplay :: "nat option"
  x_DefaultRootWindow :: "64 word"
  x_DefaultScreen :: "32 word"
  x_InternAtom :: "string \<Rightarrow> 64 word"
  x_WindowAttributes :: "64 word \<Rightarrow> XWindowAttributes option"
  x_TranslateCoordinates :: "64 word \<Rightarrow> 32 word \<times> 32 word"
  x_Property32 :: "64 word \<Rightarrow> 64 word \<Rightarrow> 64 word \<Rightarrow> int \<times> 64 word list option"
  x_Property8 :: "64 word \<Rightarrow> 64 word \<Rightarrow> 64 word \<Rightarrow> int \<times> string option"
  x_FetchName :: "64 word \<Rightarrow> string option"
  x_ClassHint :: "64 word \<Rightarrow> (string option \<times> string option) option"
  x_proc_comm :: "32 word \<Rightarrow> string option"

text \<open>Constants of the X11 headers.\<close>

definition X11Success :: int where "X11Success = 0"
definition XA_ATOM :: "64 word" where "XA_ATOM = 4"
definition XA_CARDINAL :: "64 word" where "XA_CARDINAL = 6"
definition XA_WINDOW :: "64 word" where "XA_WINDOW = 33"
definition CurrentTime :: "64 word" where "CurrentTime = 0"

text \<open>
  The data handed to \<open>XChangeProperty\<close>: bytes, or \<open>unsigned long\<close>s. A converted opacity
  is \<open>None\<close> where the conversion is undefined in C++.
\<close>

datatype xdata = Bytes string | Longs "64 word option list"

record XClientMessage =
  xcm_window :: "64 word"
  xcm_message_type :: "64 word"
  xcm_data :: "64 word list"

datatype x_call =
  XOpenDisplay
  | XCloseDisplay
  | XInternAtom string
  | XGetWindowProperty "64 word" "64 word" "64 word" "64 word"
  | XFetchName "64 word"
  | XGetClassHint "64 word"
  | XGetWindowAttributes "64 word"
  | XTranslateCoordinates "64 word" "64 word"
  | XSetErrorHandler_ignore
  | XSetErrorHandler_restore
  | XSendEvent "64 word" XClientMessage
  | XFlush
  | XKillClient "64 word"
  | XIconifyWindow "64 word" "32 word"
  | XMapWindow "64 word"
  | XUnmapWindow "64 word"
  | XMoveResizeWindow "64 word" "32 word" "32 word" "32 word" "32 word"
  | XMoveWindow "64 word" "32 word" "32 word"
  | XResizeWindow "64 word" "32 word" "32 word"
  | XStoreName "64 word" string
  | XChangeProperty "64 word" "64 word" "64 word" nat xdata nat
  | read_proc_comm "32 word"

text \<open>The atom cache and the other members of \<open>WindowManagerLinux\<close>.\<close>

record XAtoms =
  m_atomNetClientList :: "64 word"
  m_atomNetActiveWindow :: "64 word"
  m_atomNetWmName :: "64 word"
  m_atomNetWmPid :: "64 word"
  m_atomNetWmState :: "64 word"
  m_atomNetWmStateHidden :: "64 word"
  m_atomNetWmStateMaximizedVert :: "64 word"
  m_atomNetWmStateMaximizedHorz :: "64 word"
  m_atomNetWmStateFullscreen :: "64 word"
  m_atomNetWmStateAbove :: "64 word"
  m_atomNetCloseWindow :: "64 word"
  m_atomWmState :: "64 word"
  m_atomWmChangeState :: "64 word"
  m_atomUtf8String :: "64 word"
  m_atomWmName :: "64 word"
  m_atomWmClass :: "64 word"
  m_atomNetWmWindowOpacity :: "64 word"

record WindowManagerLinux = "x_call WindowManagerImplBase" +
  m_display :: "nat option"
  m_rootWindow :: "64 word"
  m_atoms :: XAtoms

type_synonym x_env = "x_call list \<Rightarrow> xserver"

definition XAtoms_default :: XAtoms where
  "XAtoms_default =
     \<lparr>m_atomNetClientList = 0, m_atomNetActiveWindow = 0, m_atomNetWmName = 0,
      m_atomNetWmPid = 0, m_atomNetWmState = 0, m_atomNetWmStateHidden = 0,
      m_atomNetWmStateMaximizedVert = 0, m_atomNetWmStateMaximizedHorz = 0,
      m_atomNetWmStateFullscreen = 0, m_atomNetWmStateAbove = 0, m_atomNetCloseWindow = 0,
      m_atomWmState = 0, m_atomWmChangeState = 0, m_atomUtf8String = 0, m_atomWmName = 0,
      m_atomWmClass = 0, m_atomNetWmWindowOpacity = 0\<rparr>"

definition WindowManagerLinux_new :: WindowManagerLinux where
  "WindowManagerLinux_new =
     \<lparr>m_initialized = False, m_lastError = [], trace = [],
      m_display = None, m_rootWindow = 0, m_atoms = XAtoms_default\<rparr>"

subsection \<open>Lifecycle\<close>

definition InitializeAtoms :: "x_env \<Rightarrow> WindowManagerLinux \<Rightarrow> WindowManagerLinux" where
  "InitializeAtoms env s =
     (let intern = (\<lambda>name k. native env (XInternAtom name) (\<lambda>p. x_InternAtom p name) k) in
      case intern ''_NET_CLIENT_LIST'' s of (a1, s) \<Rightarrow>
      case intern ''_NET_ACTIVE_WINDOW'' s of (a2, s) \<Rightarrow>
      case intern ''_NET_WM_NAME'' s of (a3, s) \<Rightarrow>
      case intern ''_NET_WM_PID'' s of (a4, s) \<Rightarrow>
      case intern ''_NET_WM_STATE'' s of (a5, s) \<Rightarrow>
      case intern ''_NET_WM_STATE_HIDDEN'' s of (a6, s) \<Rightarrow>
      case intern ''_NET_WM_STATE_MAXIMIZED_VERT'' s of (a7, s) \<Rightarrow>
      case intern ''_NET_WM_STATE_MAXIMIZED_HORZ'' s of (a8, s) \<Rightarrow>
      case intern ''_NET_WM_STATE_FULLSCREEN'' s of (a9, s) \<Rightarrow>
      case intern ''_NET_WM_STATE_ABOVE'' s of (a10, s) \<Rightarrow>
      case intern ''_NET_CLOSE_WINDOW'' s of (a11, s) \<Rightarrow>
      case intern ''WM_STATE'' s of (a12, s) \<Rightarrow>
      case intern ''WM_CHANGE_STATE'' s of (a13, s) \<Rightarrow>
      case intern ''UTF8_STRING'' s of (a14, s) \<Rightarrow>
      case intern ''WM_NAME'' s of (a15, s) \<Rightarrow>
      case intern ''WM_CLASS'' s of (a16, s) \<Rightarrow>
      case intern ''_NET_WM_WINDOW_OPACITY'' s of (a17, s) \<Rightarrow>
      s\<lparr>m_atoms :=
          \<lparr>m_atomNetClientList = a1, m_atomNetActiveWindow = a2, m_atomNetWmName = a3,
           m_atomNetWmPid = a4, m_atomNetWmState = a5, m_atomNetWmStateHidden = a6,
           m_atomNetWmStateMaximizedVert = a7, m_atomNetWmStateMaximizedHorz = a8,
           m_atomNetWmStateFullscreen = a9, m_atomNetWmStateAbove = a10,
           m_atomNetCloseWindow = a11, m_atomWmState = a12, m_atomWmChangeState = a13,
           m_atomUtf8String = a14, m_atomWmName = a15, m_atomWmClass = a16,
           m_atomNetWmWindowOpacity = a17\<rparr>\<rparr>)"

definition Linux_Initialize :: "x_env \<Rightarrow> WindowManagerLinux \<Rightarrow> bool \<times> WindowManagerLinux" where
  "Linux_Initialize env s =
     (if m_initialized s then (True, s)
      else case native env XOpenDisplay x_OpenDisplay s of
        (display, s1) \<Rightarrow>
          (let s2 = s1\<lparr>m_display := display\<rparr>
           in case display of
                None \<Rightarrow> (False, SetLastError ''Failed to open X11 display'' s2)
              | Some d \<Rightarrow>
                  (let s3 = s2\<lparr>m_rootWindow := x_DefaultRootWindow (env (trace s2))\<rparr>;
                       s4 = InitializeAtoms env s3
                   in (True, s4\<lparr>m_initialized := True\<rparr>))))"

definition Linux_Shutdown :: "WindowManagerLinux \<Rightarrow> WindowManagerLinux" where
  "Linux_Shutdown s =
     (let s1 = (case m_display s of
                  Some d \<Rightarrow> (request XCloseDisplay s)\<lparr>m_display := None\<rparr>
                | None \<Rightarrow> s)
      in s1\<lparr>m_initialized := False\<rparr>)"

subsection \<open>Helpers\<close>

definition GetClientList :: "x_env \<Rightarrow> WindowManagerLinux \<Rightarrow> 64 word list \<times> WindowManagerLinux" where
  "GetClientList env s =
     (case native env
             (XGetWindowProperty (m_rootWindow s) (m_atomNetClientList (m_atoms s)) (- 1) XA_WINDOW)
             (\<lambda>p. x_Property32 p (m_rootWindow s) (m_atomNetClientList (m_atoms s)) XA_WINDOW) s of
        ((status, Some windowList), s1) \<Rightarrow>
          (if status = X11Success then windowList else [], s1)
      | ((status, None), s1) \<Rightarrow> ([], s1))"

definition Linux_GetWindowTitleInternal ::
  "x_env \<Rightarrow> 64 word \<Rightarrow> WindowManagerLinux \<Rightarrow> string \<times> WindowManagerLinux" where
  "Linux_GetWindowTitleInternal env window s =
     (case native env
             (XGetWindowProperty window (m_atomNetWmName (m_atoms s)) (- 1)
                (m_atomUtf8String (m_atoms s)))
             (\<lambda>p. x_Property8 p window (m_atomNetWmName (m_atoms s))
                     (m_atomUtf8String (m_atoms s))) s of
        ((status, bytes), s1) \<Rightarrow>
          (let fallback =
                 (case native env (XFetchName window) (\<lambda>p. x_FetchName p window) s1 of
                    (Some name, s2) \<Rightarrow> (name, s2)
                  | (None, s2) \<Rightarrow> ([], s2))
           in case bytes of
                Some (b # bs) \<Rightarrow> if status = X11Success then (b # bs, s1) else fallback
              | _ \<Rightarrow> fallback))"

definition Linux_GetWindowClassInternal ::
  "x_env \<Rightarrow> 64 word \<Rightarrow> WindowManagerLinux \<Rightarrow> string \<times> WindowManagerLinux" where
  "Linux_GetWindowClassInternal env window s =
     (case native env (XGetClassHint window) (\<lambda>p. x_ClassHint p window) s of
        (Some (res_name, res_class), s1) \<Rightarrow>
          (case res_class of Some c \<Rightarrow> c | None \<Rightarrow> [], s1)
      | (None, s1) \<Rightarrow> ([], s1))"

definition GetWindowPidInternal ::
  "x_env \<Rightarrow> 64 word \<Rightarrow> WindowManagerLinux \<Rightarrow> 32 word \<times> WindowManagerLinux" where
  "GetWindowPidInternal env window s =
     (case native env
             (XGetWindowProperty window (m_atomNetWmPid (m_atoms s)) 1 XA_CARDINAL)
             (\<lambda>p. x_Property32 p window (m_atomNetWmPid (m_atoms s)) XA_CARDINAL) s of
        ((status, Some (item # _)), s1) \<Rightarrow>
          (if status = X11Success then ucast item else 0, s1)
      | ((status, _), s1) \<Rightarrow> (0, s1))"

definition Linux_GetProcessNameFromPid ::
  "x_env \<Rightarrow> 32 word \<Rightarrow> WindowManagerLinux \<Rightarrow> string \<times> WindowManagerLinux" where
  "Linux_GetProcessNameFromPid env pid s =
     (if pid = 0 then ([], s)
      else case native env (read_proc_comm pid) (\<lambda>p. x_proc_comm p pid) s of
        (Some name, s1) \<Rightarrow>
          (if name \<noteq> [] \<and> last name = CHR 0x0A then butlast name else name, s1)
      | (None, s1) \<Rightarrow> ([], s1))"

definition HasWmState ::
  "x_env \<Rightarrow> 64 word \<Rightarrow> 64 word \<Rightarrow> WindowManagerLinux \<Rightarrow> bool \<times> WindowManagerLinux" where
  "HasWmState env window st s =
     (case native env
             (XGetWindowProperty window (m_atomNetWmState (m_atoms s)) (- 1) XA_ATOM)
             (\<lambda>p. x_Property32 p window (m_atomNetWmState (m_atoms s)) XA_ATOM) s of
        ((status, Some atoms), s1) \<Rightarrow> (status = X11Success \<and> st \<in> set atoms, s1)
      | ((status, None), s1) \<Rightarrow> (False, s1))"

definition SendClientMessage ::
  "64 word \<Rightarrow> 64 word \<Rightarrow> 64 word \<Rightarrow> 64 word \<Rightarrow> 64 word \<Rightarrow> 64 word \<Rightarrow> 64 word
    \<Rightarrow> WindowManagerLinux \<Rightarrow> WindowManagerLinux" where
  "SendClientMessage window messageType data0 data1 data2 data3 data4 s =
     (let event = \<lparr>xcm_window = window, xcm_message_type = messageType,
                   xcm_data = [data0, data1, data2, data3, data4]\<rparr>
      in request XFlush (request (XSendEvent (m_rootWindow s) event) s))"

definition SetWmState ::
  "64 word \<Rightarrow> bool \<Rightarrow> 64 word \<Rightarrow> 64 word \<Rightarrow> WindowManagerLinux \<Rightarrow> WindowManagerLinux" where
  "SetWmState window add state1 state2 s =
     SendClientMessage window (m_atomNetWmState (m_atoms s)) (if add then 1 else 0)
       state1 state2 1 0 s"

subsection \<open>Queries\<close>

definition Linux_IsValidWindow ::
  "x_env \<Rightarrow> NativeHandle \<Rightarrow> WindowManagerLinux \<Rightarrow> bool \<times> WindowManagerLinux" where
  "Linux_IsValidWindow env h s =
     (if \<not> m_initialized s then (False, s)
      else
        let s1 = request XSetErrorHandler_ignore s in
        case native env (XGetWindowAttributes h) (\<lambda>p. x_WindowAttributes p h) s1 of
          (attrs, s2) \<Rightarrow> (attrs \<noteq> None, request XSetErrorHandler_restore s2))"

definition Linux_GetFocusedWindow ::
  "x_env \<Rightarrow> WindowManagerLinux \<Rightarrow> NativeHandle \<times> WindowManagerLinux" where
  "Linux_GetFocusedWindow env s =
     (if \<not> m_initialized s then (0, s)
      else case native env
             (XGetWindowProperty (m_rootWindow s) (m_atomNetActiveWindow (m_atoms s)) 1 XA_WINDOW)
             (\<lambda>p. x_Property32 p (m_rootWindow s) (m_atomNetActiveWindow (m_atoms s)) XA_WINDOW) s of
        ((status, Some (item # _)), s1) \<Rightarrow> (if status = X11Success then item else 0, s1)
      | ((status, _), s1) \<Rightarrow> (0, s1))"

text \<open>The state bits, computed alike by \<open>GetWindowInfo\<close> and \<open>GetWindowState\<close>.\<close>

definition Linux_state_bits ::
  "x_env \<Rightarrow> 64 word \<Rightarrow> WindowManagerLinux \<Rightarrow> WindowState \<times> WindowManagerLinux" where
  "Linux_state_bits env window s =
     (let st = WindowState_Normal in
      case HasWmState env window (m_atomNetWmStateHidden (m_atoms s)) s of (hidden, s1) \<Rightarrow>
      let st = (if hidden then WindowState_or st WindowState_Minimized else st) in
      case HasWmState env window (m_atomNetWmStateMaximizedVert (m_atoms s1)) s1 of (vert, s2) \<Rightarrow>
      case (if vert then HasWmState env window (m_atomNetWmStateMaximizedHorz (m_atoms s2)) s2
            else (False, s2)) of (both, s3) \<Rightarrow>
      let st = (if both then WindowState_or st WindowState_Maximized else st) in
      case HasWmState env window (m_atomNetWmStateFullscreen (m_atoms s3)) s3 of (full, s4) \<Rightarrow>
      let st = (if full then WindowState_or st WindowState_Fullscreen else st) in
      case HasWmState env window (m_atomNetWmStateAbove (m_atoms s4)) s4 of (onTop, s5) \<Rightarrow>
      let st = (if onTop then WindowState_or st WindowState_AlwaysOnTop else st) in
      case Linux_GetFocusedWindow env s5 of (focusedWindow, s6) \<Rightarrow>
      let st = (if focusedWindow = window then WindowState_or st WindowState_Focused else st)
      in (st, s6))"

definition Linux_GetWindowInfo ::
  "x_env \<Rightarrow> NativeHandle \<Rightarrow> WindowManagerLinux \<Rightarrow> WindowInfo Result \<times> WindowManagerLinux" where
  "Linux_GetWindowInfo env h s =
     (let result = Result_new WindowInfo_default in
      if \<not> m_initialized s
      then (Result_fail result NotInitialized ''WindowManager not initialized'', s)
      else case Linux_IsValidWindow env h s of
        (valid, s1) \<Rightarrow>
          if \<not> valid then (Result_fail result InvalidHandle ''Invalid window handle'', s1)
          else
            case Linux_GetWindowTitleInternal env h s1 of (t, s2) \<Rightarrow>
            case Linux_GetWindowClassInternal env h s2 of (c, s3) \<Rightarrow>
            case GetWindowPidInternal env h s3 of (pid, s4) \<Rightarrow>
            case Linux_GetProcessNameFromPid env pid s4 of (pn, s5) \<Rightarrow>
            let info = WindowInfo_default
                  \<lparr>handle := h, title := t, className := c, processId := pid, processName := pn\<rparr> in
            case native env (XGetWindowAttributes h) (\<lambda>p. x_WindowAttributes p h) s5 of
              (attrs, s6) \<Rightarrow>
            case (case attrs of
                    Some a \<Rightarrow>
                      (case native env (XTranslateCoordinates h (m_rootWindow s6))
                              (\<lambda>p. x_TranslateCoordinates p h) s6 of
                         ((absX, absY), s7) \<Rightarrow>
                           (info\<lparr>rect := \<lparr>rect_x = absX, rect_y = absY,
                                          rect_width = xa_width a, rect_height = xa_height a\<rparr>,
                                 isVisible := (xa_map_state a = IsViewable)\<rparr>, s7))
                  | None \<Rightarrow> (info, s6)) of
              (info, s7) \<Rightarrow>
            case Linux_state_bits env h s7 of
              (st, s8) \<Rightarrow> (Result_new (info\<lparr>state := st\<rparr>), s8))"

definition Linux_GetWindowTitle ::
  "x_env \<Rightarrow> NativeHandle \<Rightarrow> WindowManagerLinux \<Rightarrow> string Result \<times> WindowManagerLinux" where
  "Linux_GetWindowTitle env h s =
     (let result = Result_new [] in
      if \<not> m_initialized s
      then (Result_fail result NotInitialized ''WindowManager not initialized'', s)
      else case Linux_IsValidWindow env h s of
        (valid, s1) \<Rightarrow>
          if \<not> valid then (Result_fail result InvalidHandle ''Invalid window handle'', s1)
          else case Linux_GetWindowTitleInternal env h s1 of (t, s2) \<Rightarrow> (Result_new t, s2))"

definition Linux_GetWindowRect ::
  "x_env \<Rightarrow> NativeHandle \<Rightarrow> WindowManagerLinux \<Rightarrow> Rect Result \<times> WindowManagerLinux" where
  "Linux_GetWindowRect env h s =
     (let result = Result_new Rect_default in
      if \<not> m_initialized s
      then (Result_fail result NotInitialized ''WindowManager not initialized'', s)
      else case Linux_IsValidWindow env h s of
        (valid, s1) \<Rightarrow>
          if \<not> valid then (Result_fail result InvalidHandle ''Invalid window handle'', s1)
          else case native env (XGetWindowAttributes h) (\<lambda>p. x_WindowAttributes p h) s1 of
            (Some a, s2) \<Rightarrow>
              (case native env (XTranslateCoordinates h (m_rootWindow s2))
                      (\<lambda>p. x_TranslateCoordinates p h) s2 of
                 ((absX, absY), s3) \<Rightarrow>
                   (Result_new \<lparr>rect_x = absX, rect_y = absY,
                                rect_width = xa_width a, rect_height = xa_height a\<rparr>, s3))
          | (None, s2) \<Rightarrow>
              (Result_fail result OperationFailed ''Failed to get window attributes'', s2))"

definition Linux_GetWindowState ::
  "x_env \<Rightarrow> NativeHandle \<Rightarrow> WindowManagerLinux \<Rightarrow> WindowState Result \<times> WindowManagerLinux" where
  "Linux_GetWindowState env h s =
     (let result = Result_new 0 in
      if \<not> m_initialized s
      then (Result_fail result NotInitialized ''WindowManager not initialized'', s)
      else case Linux_IsValidWindow env h s of
        (valid, s1) \<Rightarrow>
          if \<not> valid then (Result_fail result InvalidHandle ''Invalid window handle'', s1)
          else case Linux_state_bits env h s1 of (st, s2) \<Rightarrow> (Result_new st, s2))"

definition Linux_GetWindowProcessId ::
  "x_env \<Rightarrow> NativeHandle \<Rightarrow> WindowManagerLinux \<Rightarrow> 32 word Result \<times> WindowManagerLinux" where
  "Linux_GetWindowProcessId env h s =
     (let result = Result_new 0 in
      if \<not> m_initialized s
      then (Result_fail result NotInitialized ''WindowManager not initialized'', s)
      else case Linux_IsValidWindow env h s of
        (valid, s1) \<Rightarrow>
          if \<not> valid then (Result_fail result InvalidHandle ''Invalid window handle'', s1)
          else case GetWindowPidInternal env h s1 of (pid, s2) \<Rightarrow> (Result_new pid, s2))"

definition Linux_IsWindowVisible ::
  "x_env \<Rightarrow> NativeHandle \<Rightarrow> WindowManagerLinux \<Rightarrow> bool \<times> WindowManagerLinux" where
  "Linux_IsWindowVisible env h s =
     (if \<not> m_initialized s then (False, s)
      else case Linux_IsValidWindow env h s of
        (valid, s1) \<Rightarrow>
          if \<not> valid then (False, s1)
          else case native env (XGetWindowAttributes h) (\<lambda>p. x_WindowAttributes p h) s1 of
            (Some a, s2) \<Rightarrow> (xa_map_state a = IsViewable, s2)
          | (None, s2) \<Rightarrow> (False, s2))"

definition Linux_GetFocusedWindowInfo ::
  "x_env \<Rightarrow> WindowManagerLinux \<Rightarrow> WindowInfo Result \<times> WindowManagerLinux" where
  "Linux_GetFocusedWindowInfo env s =
     (case Linux_GetFocusedWindow env s of
        (focused, s1) \<Rightarrow>
          if focused = 0
          then (Result_fail (Result_new WindowInfo_default) WindowNotFound ''No focused window found'', s1)
          else Linux_GetWindowInfo env focused s1)"

subsection \<open>Enumeration\<close>

fun Linux_GetAllWindows_loop ::
  "x_env \<Rightarrow> 64 word list \<Rightarrow> WindowInfo list \<Rightarrow> WindowManagerLinux
    \<Rightarrow> WindowInfo list \<times> WindowManagerLinux" where
  "Linux_GetAllWindows_loop env [] result s = (result, s)"
| "Linux_GetAllWindows_loop env (w # windows) result s =
     (case Linux_GetWindowInfo env w s of
        (info, s1) \<Rightarrow>
          if ok info then Linux_GetAllWindows_loop env windows (result @ [res_value info]) s1
          else Linux_GetAllWindows_loop env windows result s1)"

definition Linux_GetAllWindows ::
  "x_env \<Rightarrow> WindowManagerLinux \<Rightarrow> WindowInfo list \<times> WindowManagerLinux" where
  "Linux_GetAllWindows env s =
     (if \<not> m_initialized s then ([], SetLastError ''WindowManager not initialized'' s)
      else case GetClientList env s of
             (windows, s1) \<Rightarrow> Linux_GetAllWindows_loop env windows [] s1)"

fun Linux_EnumerateWindows_loop ::
  "x_env \<Rightarrow> 'v EnumWindowsCallback \<Rightarrow> 64 word list \<Rightarrow> 'v walk \<Rightarrow> WindowManagerLinux
    \<Rightarrow> 'v walk \<times> WindowManagerLinux" where
  "Linux_EnumerateWindows_loop env callback [] k s = (k, s)"
| "Linux_EnumerateWindows_loop env callback (w # windows) k s =
     (case Linux_GetWindowInfo env w s of
        (info, s1) \<Rightarrow>
          if ok info then
            (case callback (visitor k) (res_value info) of
               (continue, v) \<Rightarrow>
                 (let k1 = \<lparr>visited = visited k @ [res_value info], visitor = v\<rparr>
                  in if \<not> continue then (k1, s1)
                     else Linux_EnumerateWindows_loop env callback windows k1 s1))
          else Linux_EnumerateWindows_loop env callback windows k s1)"

definition Linux_EnumerateWindows ::
  "x_env \<Rightarrow> 'v EnumWindowsCallback \<Rightarrow> 'v \<Rightarrow> WindowManagerLinux
    \<Rightarrow> 'v walk \<times> WindowManagerLinux" where
  "Linux_EnumerateWindows env callback v s =
     (if \<not> m_initialized s then (\<lparr>visited = [], visitor = v\<rparr>, s)
      else case GetClientList env s of
             (windows, s1) \<Rightarrow>
               Linux_EnumerateWindows_loop env callback windows \<lparr>visited = [], visitor = v\<rparr> s1)"



subsection \<open>Window control\<close>

definition Linux_CloseWindow ::
  "x_env \<Rightarrow> NativeHandle \<Rightarrow> WindowManagerLinux \<Rightarrow> ErrorCode \<times> WindowManagerLinux" where
  "Linux_CloseWindow env h s =
     (if \<not> m_initialized s then (NotInitialized, s)
      else case Linux_IsValidWindow env h s of
        (valid, s1) \<Rightarrow>
          if \<not> valid then (InvalidHandle, s1)
          else (Success,
                SendClientMessage h (m_atomNetCloseWindow (m_atoms s1)) CurrentTime 1 0 0 0 s1))"

definition Linux_ForceCloseWindow ::
  "x_env \<Rightarrow> NativeHandle \<Rightarrow> WindowManagerLinux \<Rightarrow> ErrorCode \<times> WindowManagerLinux" where
  "Linux_ForceCloseWindow env h s =
     (if \<not> m_initialized s then (NotInitialized, s)
      else case Linux_IsValidWindow env h s of
        (valid, s1) \<Rightarrow>
          if \<not> valid then (InvalidHandle, s1)
          else (Success, request XFlush (request (XKillClient h) s1)))"

definition Linux_MinimizeWindow ::
  "x_env \<Rightarrow> NativeHandle \<Rightarrow> WindowManagerLinux \<Rightarrow> ErrorCode \<times> WindowManagerLinux" where
  "Linux_MinimizeWindow env h s =
     (if \<not> m_initialized s then (NotInitialized, s)
      else case Linux_IsValidWindow env h s of
        (valid, s1) \<Rightarrow>
          if \<not> valid then (InvalidHandle, s1)
          else (Success,
                request XFlush
                  (request (XIconifyWindow h (x_DefaultScreen (env (trace s1)))) s1)))"

definition Linux_MaximizeWindow ::
  "x_env \<Rightarrow> NativeHandle \<Rightarrow> WindowManagerLinux \<Rightarrow> ErrorCode \<times> WindowManagerLinux" where
  "Linux_MaximizeWindow env h s =
     (if \<not> m_initialized s then (NotInitialized, s)
      else case Linux_IsValidWindow env h s of
        (valid, s1) \<Rightarrow>
          if \<not> valid then (InvalidHandle, s1)
          else
            let s2 = request (XMapWindow h) s1
            in (Success,
                SetWmState h True (m_atomNetWmStateMaximizedVert (m_atoms s2))
                  (m_atomNetWmStateMaximizedHorz (m_atoms s2)) s2))"

definition Linux_RestoreWindow ::
  "x_env \<Rightarrow> NativeHandle \<Rightarrow> WindowManagerLinux \<Rightarrow> ErrorCode \<times> WindowManagerLinux" where
  "Linux_RestoreWindow env h s =
     (if \<not> m_initialized s then (NotInitialized, s)
      else case Linux_IsValidWindow env h s of
        (valid, s1) \<Rightarrow>
          if \<not> valid then (InvalidHandle, s1)
          else
            let s2 = request (XMapWindow h) s1;
                s3 = SetWmState h False (m_atomNetWmStateMaximizedVert (m_atoms s2))
                       (m_atomNetWmStateMaximizedHorz (m_atoms s2)) s2;
                s4 = SetWmState h False (m_atomNetWmStateFullscreen (m_atoms s3)) 0 s3
            in (Success, s4))"

definition Linux_ShowWindow ::
  "x_env \<Rightarrow> NativeHandle \<Rightarrow> WindowManagerLinux \<Rightarrow> ErrorCode \<times> WindowManagerLinux" where
  "Linux_ShowWindow env h s =
     (if \<not> m_initialized s then (NotInitialized, s)
      else case Linux_IsValidWindow env h s of
        (valid, s1) \<Rightarrow>
          if \<not> valid then (InvalidHandle, s1)
          else (Success, request XFlush (request (XMapWindow h) s1)))"

definition Linux_HideWindow ::
  "x_env \<Rightarrow> NativeHandle \<Rightarrow> WindowManagerLinux \<Rightarrow> ErrorCode \<times> WindowManagerLinux" where
  "Linux_HideWindow env h s =
     (if \<not> m_initialized s then (NotInitialized, s)
      else case Linux_IsValidWindow env h s of
        (valid, s1) \<Rightarrow>
          if \<not> valid then (InvalidHandle, s1)
          else (Success, request XFlush (request (XUnmapWindow h) s1)))"

definition Linux_FocusWindow ::
  "x_env \<Rightarrow> NativeHandle \<Rightarrow> WindowManagerLinux \<Rightarrow> ErrorCode \<times> WindowManagerLinux" where
  "Linux_FocusWindow env h s =
     (if \<not> m_initialized s then (NotInitialized, s)
      else case Linux_IsValidWindow env h s of
        (valid, s1) \<Rightarrow>
          if \<not> valid then (InvalidHandle, s1)
          else (Success,
                SendClientMessage h (m_atomNetActiveWindow (m_atoms s1)) 1 CurrentTime 0 0 0 s1))"

definition Linux_SetAlwaysOnTop ::
  "x_env \<Rightarrow> NativeHandle \<Rightarrow> bool \<Rightarrow> WindowManagerLinux \<Rightarrow> ErrorCode \<times> WindowManagerLinux" where
  "Linux_SetAlwaysOnTop env h topmost s =
     (if \<not> m_initialized s then (NotInitialized, s)
      else case Linux_IsValidWindow env h s of
        (valid, s1) \<Rightarrow>
          if \<not> valid then (InvalidHandle, s1)
          else (Success, SetWmState h topmost (m_atomNetWmStateAbove (m_atoms s1)) 0 s1))"

definition Linux_SetWindowRect ::
  "x_env \<Rightarrow> NativeHandle \<Rightarrow> Rect \<Rightarrow> WindowManagerLinux \<Rightarrow> ErrorCode \<times> WindowManagerLinux" where
  "Linux_SetWindowRect env h r s =
     (if \<not> m_initialized s then (NotInitialized, s)
      else case Linux_IsValidWindow env h s of
        (valid, s1) \<Rightarrow>
          if \<not> valid then (InvalidHandle, s1)
          else (Success,
                request XFlush
                  (request (XMoveResizeWindow h (rect_x r) (rect_y r) (rect_width r) (rect_height r))
                     s1)))"

definition Linux_MoveWindow ::
  "x_env \<Rightarrow> NativeHandle \<Rightarrow> 32 word \<Rightarrow> 32 word \<Rightarrow> WindowManagerLinux
    \<Rightarrow> ErrorCode \<times> WindowManagerLinux" where
  "Linux_MoveWindow env h px py s =
     (if \<not> m_initialized s then (NotInitialized, s)
      else case Linux_IsValidWindow env h s of
        (valid, s1) \<Rightarrow>
          if \<not> valid then (InvalidHandle, s1)
          else (Success, request XFlush (request (XMoveWindow h px py) s1)))"

definition Linux_ResizeWindow ::
  "x_env \<Rightarrow> NativeHandle \<Rightarrow> 32 word \<Rightarrow> 32 word \<Rightarrow> WindowManagerLinux
    \<Rightarrow> ErrorCode \<times> WindowManagerLinux" where
  "Linux_ResizeWindow env h w ht s =
     (if \<not> m_initialized s then (NotInitialized, s)
      else case Linux_IsValidWindow env h s of
        (valid, s1) \<Rightarrow>
          if \<not> valid then (InvalidHandle, s1)
          else (Success, request XFlush (request (XResizeWindow h w ht) s1)))"

definition Linux_SetWindowTitle ::
  "x_env \<Rightarrow> NativeHandle \<Rightarrow> string \<Rightarrow> WindowManagerLinux \<Rightarrow> ErrorCode \<times> WindowManagerLinux" where
  "Linux_SetWindowTitle env h t s =
     (if \<not> m_initialized s then (NotInitialized, s)
      else case Linux_IsValidWindow env h s of
        (valid, s1) \<Rightarrow>
          if \<not> valid then (InvalidHandle, s1)
          else
            let s2 = request (XStoreName h (c_str t)) s1;
                s3 = request (XChangeProperty h (m_atomNetWmName (m_atoms s2))
                                (m_atomUtf8String (m_atoms s2)) 8 (Bytes t) (length t)) s2
            in (Success, request XFlush s3))"

text \<open>
  \<open>opacity * 0xFFFFFFFF\<close> multiplies a \<open>float\<close> by an \<open>unsigned int\<close>: the integer operand is
  converted to \<open>float\<close> first, the product is a \<open>float\<close>, and the cast takes it to
  \<open>unsigned long\<close>, 64 bits wide.
\<close>

definition Linux_SetWindowOpacity ::
  "x_env \<Rightarrow> NativeHandle \<Rightarrow> f32 \<Rightarrow> WindowManagerLinux \<Rightarrow> ErrorCode \<times> WindowManagerLinux" where
  "Linux_SetWindowOpacity env h opacity s =
     (if \<not> m_initialized s then (NotInitialized, s)
      else case Linux_IsValidWindow env h s of
        (valid, s1) \<Rightarrow>
          if \<not> valid then (InvalidHandle, s1)
          else
            let opacity = std_max (Finite 0) (std_min (Finite 1) opacity);
                opacityValue = (f32_to_unsigned
                                  (f32_mult opacity (f32_of_unsigned (0xFFFFFFFF :: 32 word)))
                                :: 64 word option);
                s2 = request (XChangeProperty h (m_atomNetWmWindowOpacity (m_atoms s1)) XA_CARDINAL
                                32 (Longs [opacityValue]) 1) s1
            in (Success, request XFlush s2))"

section \<open>Inert backend (WindowManagerStub.h)\<close>

text \<open>The stub issues no native request: its trace has no entries.\<close>

type_synonym stub_state = "unit WindowManagerImplBase"

definition Stub_Initialize :: "stub_state \<Rightarrow> bool \<times> stub_state" where
  "Stub_Initialize s = (False, SetLastError ''Platform not supported'' s)"

definition Stub_IsInitialized :: "stub_state \<Rightarrow> bool" where
  "Stub_IsInitialized s = False"

definition Stub_Shutdown :: "stub_state \<Rightarrow> stub_state" where
  "Stub_Shutdown s = s"

definition Stub_GetAllWindows :: "stub_state \<Rightarrow> WindowInfo list \<times> stub_state" where
  "Stub_GetAllWindows s = ([], s)"

definition Stub_EnumerateWindows ::
  "'v EnumWindowsCallback \<Rightarrow> 'v \<Rightarrow> stub_state \<Rightarrow> 'v walk \<times> stub_state" where
  "Stub_EnumerateWindows callback v s = (\<lparr>visited = [], visitor = v\<rparr>, s)"


definition Stub_GetWindowInfo :: "NativeHandle \<Rightarrow> stub_state \<Rightarrow> WindowInfo Result \<times> stub_state" where
  "Stub_GetWindowInfo h s =
     (\<lparr>res_value = WindowInfo_default, res_error = NotSupported,
       res_errorMessage = ''Platform not supported''\<rparr>, s)"

definition Stub_GetWindowTitle :: "NativeHandle \<Rightarrow> stub_state \<Rightarrow> string Result \<times> stub_state" where
  "Stub_GetWindowTitle h s =
     (\<lparr>res_value = [], res_error = NotSupported,
       res_errorMessage = ''Platform not supported''\<rparr>, s)"

definition Stub_GetWindowRect :: "NativeHandle \<Rightarrow> stub_state \<Rightarrow> Rect Result \<times> stub_state" where
  "Stub_GetWindowRect h s =
     (\<lparr>res_value = Rect_default, res_error = NotSupported,
       res_errorMessage = ''Platform not supported''\<rparr>, s)"

definition Stub_GetWindowState :: "NativeHandle \<Rightarrow> stub_state \<Rightarrow> WindowState Result \<times> stub_state" where
  "Stub_GetWindowState h s =
     (\<lparr>res_value = WindowState_Normal, res_error = NotSupported,
       res_errorMessage = ''Platform not supported''\<rparr>, s)"

definition Stub_GetWindowProcessId :: "NativeHandle \<Rightarrow> stub_state \<Rightarrow> 32 word Result \<times> stub_state" where
  "Stub_GetWindowProcessId h s =
     (\<lparr>res_value = 0, res_error = NotSupported,
       res_errorMessage = ''Platform not supported''\<rparr>, s)"

definition Stub_IsWindowVisible :: "NativeHandle \<Rightarrow> stub_state \<Rightarrow> bool \<times> stub_state" where
  "Stub_IsWindowVisible h s = (False, s)"

definition Stub_IsValidWindow :: "NativeHandle \<Rightarrow> stub_state \<Rightarrow> bool \<times> stub_state" where
  "Stub_IsValidWindow h s = (False, s)"

definition Stub_CloseWindow :: "NativeHandle \<Rightarrow> stub_state \<Rightarrow> ErrorCode \<times> stub_state" where
  "Stub_CloseWindow h s = (NotSupported, s)"

definition Stub_ForceCloseWindow :: "NativeHandle \<Rightarrow> stub_state \<Rightarrow> ErrorCode \<times> stub_state" where
  "Stub_ForceCloseWindow h s = (NotSupported, s)"

definition Stub_MinimizeWindow :: "NativeHandle \<Rightarrow> stub_state \<Rightarrow> ErrorCode \<times> stub_state" where
  "Stub_MinimizeWindow h s = (NotSupported, s)"

definition Stub_MaximizeWindow :: "NativeHandle \<Rightarrow> stub_state \<Rightarrow> ErrorCode \<times> stub_state" where
  "Stub_MaximizeWindow h s = (NotSupported, s)"

definition Stub_RestoreWindow :: "NativeHandle \<Rightarrow> stub_state \<Rightarrow> ErrorCode \<times> stub_state" where
  "Stub_RestoreWindow h s = (NotSupported, s)"

definition Stub_ShowWindow :: "NativeHandle \<Rightarrow> stub_state \<Rightarrow> ErrorCode \<times> stub_state" where
  "Stub_ShowWindow h s = (NotSupported, s)"

definition Stub_HideWindow :: "NativeHandle \<Rightarrow> stub_state \<Rightarrow> ErrorCode \<times> stub_state" where
  "Stub_HideWindow h s = (NotSupported, s)"

definition Stub_FocusWindow :: "NativeHandle \<Rightarrow> stub_state \<Rightarrow> ErrorCode \<times> stub_state" where
  "Stub_FocusWindow h s = (NotSupported, s)"

definition Stub_SetAlwaysOnTop :: "NativeHandle \<Rightarrow> bool \<Rightarrow> stub_state \<Rightarrow> ErrorCode \<times> stub_state" where
  "Stub_SetAlwaysOnTop h topmost s = (NotSupported, s)"

definition Stub_SetWindowRect :: "NativeHandle \<Rightarrow> Rect \<Rightarrow> stub_state \<Rightarrow> ErrorCode \<times> stub_state" where
  "Stub_SetWindowRect h r s = (NotSupported, s)"

definition Stub_MoveWindow ::
  "NativeHandle \<Rightarrow> 32 word \<Rightarrow> 32 word \<Rightarrow> stub_state \<Rightarrow> ErrorCode \<times> stub_state" where
  "Stub_MoveWindow h px py s = (NotSupported, s)"

definition Stub_ResizeWindow ::
  "NativeHandle \<Rightarrow> 32 word \<Rightarrow> 32 word \<Rightarrow> stub_state \<Rightarrow> ErrorCode \<times> stub_state" where
  "Stub_ResizeWindow h w ht s = (NotSupported, s)"

definition Stub_SetWindowTitle :: "NativeHandle \<Rightarrow> string \<Rightarrow> stub_state \<Rightarrow> ErrorCode \<times> stub_state" where
  "Stub_SetWindowTitle h t s = (NotSupported, s)"

definition Stub_SetWindowOpacity :: "NativeHandle \<Rightarrow> f32 \<Rightarrow> stub_state \<Rightarrow> ErrorCode \<times> stub_state" where
  "Stub_SetWindowOpacity h opacity s = (NotSupported, s)"

section \<open>The operations that take a handle\<close>

text \<open>
  The nineteen operations of the contract that take a window handle and report a
  \<open>Result\<close> or an \<open>ErrorCode\<close>, with their further arguments. For each backend,
  \<open>perform\<close> runs one of them and yields the error code it reports and the backend
  state it leaves.
\<close>

datatype operation =
  GetWindowInfo | GetWindowTitle | GetWindowRect_op | GetWindowState | GetWindowProcessId_op
  | CloseWindow | ForceCloseWindow | MinimizeWindow | MaximizeWindow | RestoreWindow
  | ShowWindow_op | HideWindow | FocusWindow
  | SetAlwaysOnTop bool | SetWindowRect Rect | MoveWindow_op "32 word" "32 word"
  | ResizeWindow "32 word" "32 word" | SetWindowTitle string | SetWindowOpacity f32

definition reported :: "'a Result \<times> 's \<Rightarrow> ErrorCode \<times> 's" where
  "reported r = (res_error (fst r), snd r)"

fun Windows_perform :: "win_env \<Rightarrow> operation \<Rightarrow> NativeHandle \<Rightarrow> win_state \<Rightarrow> ErrorCode \<times> win_state" where
  "Windows_perform env GetWindowInfo h s = reported (Windows_GetWindowInfo env h s)"
| "Windows_perform env GetWindowTitle h s = reported (Windows_GetWindowTitle env h s)"
| "Windows_perform env GetWindowRect_op h s = reported (Windows_GetWindowRect env h s)"
| "Windows_perform env GetWindowState h s = reported (Windows_GetWindowState env h s)"
| "Windows_perform env GetWindowProcessId_op h s = reported (Windows_GetWindowProcessId env h s)"
| "Windows_perform env CloseWindow h s = Windows_CloseWindow env h s"
| "Windows_perform env ForceCloseWindow h s = Windows_ForceCloseWindow env h s"
| "Windows_perform env MinimizeWindow h s = Windows_MinimizeWindow env h s"
| "Windows_perform env MaximizeWindow h s = Windows_MaximizeWindow env h s"
| "Windows_perform env RestoreWindow h s = Windows_RestoreWindow env h s"
| "Windows_perform env ShowWindow_op h s = Windows_ShowWindow env h s"
| "Windows_perform env HideWindow h s = Windows_HideWindow env h s"
| "Windows_perform env FocusWindow h s = Windows_FocusWindow env h s"
| "Windows_perform env (SetAlwaysOnTop topmost) h s = Windows_SetAlwaysOnTop env h topmost s"
| "Windows_perform env (SetWindowRect r) h s = Windows_SetWindowRect env h r s"
| "Windows_perform env (MoveWindow_op px py) h s = Windows_MoveWindow env h px py s"
| "Windows_perform env (ResizeWindow w ht) h s = Windows_ResizeWindow env h w ht s"
| "Windows_perform env (SetWindowTitle t) h s = Windows_SetWindowTitle env h t s"
| "Windows_perform env (SetWindowOpacity opacity) h s = Windows_SetWindowOpacity env h opacity s"

fun Linux_perform ::
  "x_env \<Rightarrow> operation \<Rightarrow> NativeHandle \<Rightarrow> WindowManagerLinux \<Rightarrow> ErrorCode \<times> WindowManagerLinux" where
  "Linux_perform env GetWindowInfo h s = reported (Linux_GetWindowInfo env h s)"
| "Linux_perform env GetWindowTitle h s = reported (Linux_GetWindowTitle env h s)"
| "Linux_perform env GetWindowRect_op h s = reported (Linux_GetWindowRect env h s)"
| "Linux_perform env GetWindowState h s = reported (Linux_GetWindowState env h s)"
| "Linux_perform env GetWindowProcessId_op h s = reported (Linux_GetWindowProcessId env h s)"
| "Linux_perform env CloseWindow h s = Linux_CloseWindow env h s"
| "Linux_perform env ForceCloseWindow h s = Linux_ForceCloseWindow env h s"
| "Linux_perform env MinimizeWindow h s = Linux_MinimizeWindow env h s"
| "Linux_perform env MaximizeWindow h s = Linux_MaximizeWindow env h s"
| "Linux_perform env RestoreWindow h s = Linux_RestoreWindow env h s"
| "Linux_perform env ShowWindow_op h s = Linux_ShowWindow env h s"
| "Linux_perform env HideWindow h s = Linux_HideWindow env h s"
| "Linux_perform env FocusWindow h s = Linux_FocusWindow env h s"
| "Linux_perform env (SetAlwaysOnTop topmost) h s = Linux_SetAlwaysOnTop env h topmost s"
| "Linux_perform env (SetWindowRect r) h s = Linux_SetWindowRect env h r s"
| "Linux_perform env (MoveWindow_op px py) h s = Linux_MoveWindow env h px py s"
| "Linux_perform env (ResizeWindow w ht) h s = Linux_ResizeWindow env h w ht s"
| "Linux_perform env (SetWindowTitle t) h s = Linux_SetWindowTitle env h t s"
| "Linux_perform env (SetWindowOpacity opacity) h s = Linux_SetWindowOpacity env h opacity s"

fun MacOS_perform :: "mac_env \<Rightarrow> operation \<Rightarrow> NativeHandle \<Rightarrow> mac_state \<Rightarrow> ErrorCode \<times> mac_state" where
  "MacOS_perform env GetWindowInfo h s = reported (MacOS_GetWindowInfo env h s)"
| "MacOS_perform env GetWindowTitle h s = reported (MacOS_GetWindowTitle env h s)"
| "MacOS_perform env GetWindowRect_op h s = reported (MacOS_GetWindowRect env h s)"
| "MacOS_perform env GetWindowState h s = reported (MacOS_GetWindowState env h s)"
| "MacOS_perform env GetWindowProcessId_op h s = reported (MacOS_GetWindowProcessId env h s)"
| "MacOS_perform env CloseWindow h s = MacOS_CloseWindow env h s"
| "MacOS_perform env ForceCloseWindow h s = MacOS_ForceCloseWindow env h s"
| "MacOS_perform env MinimizeWindow h s = MacOS_MinimizeWindow env h s"
| "MacOS_perform env MaximizeWindow h s = MacOS_MaximizeWindow env h s"
| "MacOS_perform env RestoreWindow h s = MacOS_RestoreWindow env h s"
| "MacOS_perform env ShowWindow_op h s = MacOS_ShowWindow env h s"
| "MacOS_perform env HideWindow h s = MacOS_HideWindow env h s"
| "MacOS_perform env FocusWindow h s = MacOS_FocusWindow env h s"
| "MacOS_perform env (SetAlwaysOnTop topmost) h s = MacOS_SetAlwaysOnTop env h topmost s"
| "MacOS_perform env (SetWindowRect r) h s = MacOS_SetWindowRect env h r s"
| "MacOS_perform env (MoveWindow_op px py) h s = MacOS_MoveWindow env h px py s"
| "MacOS_perform env (ResizeWindow w ht) h s = MacOS_ResizeWindow env h w ht s"
| "MacOS_perform env (SetWindowTitle t) h s = MacOS_SetWindowTitle env h t s"
| "MacOS_perform env (SetWindowOpacity opacity) h s = MacOS_SetWindowOpacity env h opacity s"

fun Stub_perform :: "operation \<Rightarrow> NativeHandle \<Rightarrow> stub_state \<Rightarrow> ErrorCode \<times> stub_state" where
  "Stub_perform GetWindowInfo h s = reported (Stub_GetWindowInfo h s)"
| "Stub_perform GetWindowTitle h s = reported (Stub_GetWindowTitle h s)"
| "Stub_perform GetWindowRect_op h s = reported (Stub_GetWindowRect h s)"
| "Stub_perform GetWindowState h s = reported (Stub_GetWindowState h s)"
| "Stub_perform GetWindowProcessId_op h s = reported (Stub_GetWindowProcessId h s)"
| "Stub_perform CloseWindow h s = Stub_CloseWindow h s"
| "Stub_perform ForceCloseWindow h s = Stub_ForceCloseWindow h s"
| "Stub_perform MinimizeWindow h s = Stub_MinimizeWindow h s"
| "Stub_perform MaximizeWindow h s = Stub_MaximizeWindow h s"
| "Stub_perform RestoreWindow h s = Stub_RestoreWindow h s"
| "Stub_perform ShowWindow_op h s = Stub_ShowWindow h s"
| "Stub_perform HideWindow h s = Stub_HideWindow h s"
| "Stub_perform FocusWindow h s = Stub_FocusWindow h s"
| "Stub_perform (SetAlwaysOnTop topmost) h s = Stub_SetAlwaysOnTop h topmost s"
| "Stub_perform (SetWindowRect r) h s = Stub_SetWindowRect h r s"
| "Stub_perform (MoveWindow_op px py) h s = Stub_MoveWindow h px py s"
| "Stub_perform (ResizeWindow w ht) h s = Stub_ResizeWindow h w ht s"
| "Stub_perform (SetWindowTitle t) h s = Stub_SetWindowTitle h t s"
| "Stub_perform (SetWindowOpacity opacity) h s = Stub_SetWindowOpacity h opacity s"

text \<open>The three mutations for which macOS has no primitive.\<close>

fun unsupported_on_macOS :: "operation \<Rightarrow> bool" where
  "unsupported_on_macOS (SetAlwaysOnTop topmost) = True"
| "unsupported_on_macOS (SetWindowTitle t) = True"
| "unsupported_on_macOS (SetWindowOpacity opacity) = True"
| "unsupported_on_macOS _ = False"

text \<open>
  The validity check of each backend, as the platform answers it when the operation
  starts in state \<open>s\<close>: \<open>IsWindow\<close> on Win32, the \<open>XGetWindowAttributes\<close> probe made under
  the silent error handler on X11, a non-empty window list on macOS.
\<close>

definition Windows_valid :: "win_env \<Rightarrow> NativeHandle \<Rightarrow> win_state \<Rightarrow> bool" where
  "Windows_valid env h s = win_IsWindow (env (trace s)) h"

definition Linux_valid :: "x_env \<Rightarrow> NativeHandle \<Rightarrow> WindowManagerLinux \<Rightarrow> bool" where
  "Linux_valid env h s = (x_WindowAttributes (env (trace s @ [XSetErrorHandler_ignore])) h \<noteq> None)"

definition MacOS_valid :: "mac_env \<Rightarrow> NativeHandle \<Rightarrow> mac_state \<Rightarrow> bool" where
  "MacOS_valid env h s =
     (case mac_IncludingWindow (env (trace s)) (ucast h) of
        None \<Rightarrow> False | Some [] \<Rightarrow> False | Some (window # _) \<Rightarrow> True)"

text \<open>A desktop that stays as it is, whatever is asked of it.\<close>

definition frozen :: "'p \<Rightarrow> 'c list \<Rightarrow> 'p" where
  "frozen d t = d"

text \<open>
  The backend state in which the X11 \<open>GetWindowInfo\<close> issues its geometry query: after
  the validity check and the lookups of title, class, process id and process name.
\<close>

definition geometry_query_state :: "x_env \<Rightarrow> NativeHandle \<Rightarrow> WindowManagerLinux \<Rightarrow> WindowManagerLinux" where
  "geometry_query_state env h s =
     (case Linux_IsValidWindow env h s of (valid, s1) \<Rightarrow>
      case Linux_GetWindowTitleInternal env h s1 of (t, s2) \<Rightarrow>
      case Linux_GetWindowClassInternal env h s2 of (c, s3) \<Rightarrow>
      case GetWindowPidInternal env h s3 of (pid, s4) \<Rightarrow>
      case Linux_GetProcessNameFromPid env pid s4 of (pn, s5) \<Rightarrow> s5)"

section \<open>Example desktops\<close>

text \<open>Concrete platforms and backend states, used to instantiate the theorems below.\<close>

definition mac_window :: CGWindow where
  "mac_window =
     \<lparr>kCGWindowNumber = 7, kCGWindowName = Some ''Notes'',
      kCGWindowOwnerName = Some ''TextEdit'', kCGWindowOwnerPID = 42,
      kCGWindowBounds = Some \<lparr>rect_x = 10, rect_y = 20, rect_width = 300, rect_height = 200\<rparr>,
      kCGWindowIsOnscreen = True\<rparr>"

definition mac_other :: CGWindow where
  "mac_other =
     \<lparr>kCGWindowNumber = 11, kCGWindowName = Some ''Inbox'',
      kCGWindowOwnerName = Some ''Mail'', kCGWindowOwnerPID = 43,
      kCGWindowBounds = Some \<lparr>rect_x = 0, rect_y = 0, rect_width = 500, rect_height = 400\<rparr>,
      kCGWindowIsOnscreen = True\<rparr>"

definition mac_desktop :: macos where
  "mac_desktop =
     \<lparr>mac_trusted = False,
      mac_OnScreenOnly = Some [mac_window, mac_other],
      mac_IncludingWindow =
        (\<lambda>w. if w = 7 then Some [mac_window] else if w = 11 then Some [mac_other] else Some []),
      mac_frontmostApplication = Some 42,
      mac_CreateApplication = (\<lambda>p. True),
      mac_Windows = (\<lambda>p. None),
      mac_Attribute = (\<lambda>e a. None),
      mac_runningApplication = (\<lambda>p. p = 42)\<rparr>"

definition mac_fresh :: mac_state where
  "mac_fresh = \<lparr>m_initialized = False, m_lastError = [], trace = []\<rparr>"

definition mac_ready :: mac_state where
  "mac_ready = \<lparr>m_initialized = True, m_lastError = ''earlier message'', trace = []\<rparr>"

definition win_window :: win32_window where
  "win_window =
     \<lparr>ww_visible = True, ww_owner = 0, ww_text = [0x45, 0x64], ww_class = [0x43],
      ww_pid = 100,
      ww_rect = \<lparr>rc_left = 0, rc_top = 0, rc_right = 800, rc_bottom = 600\<rparr>,
      ww_iconic = False, ww_zoomed = False, ww_exstyle = 0\<rparr>"

definition win_other :: win32_window where
  "win_other =
     \<lparr>ww_visible = True, ww_owner = 0, ww_text = [0x53, 0x68], ww_class = [0x43],
      ww_pid = 101,
      ww_rect = \<lparr>rc_left = 10, rc_top = 10, rc_right = 110, rc_bottom = 60\<rparr>,
      ww_iconic = False, ww_zoomed = False, ww_exstyle = 0\<rparr>"

definition win_desktop :: win32 where
  "win_desktop =
     \<lparr>w32_windows =
        (\<lambda>h. if h = 16 then Some win_window else if h = 18 then Some win_other else None),
      w32_toplevel = [16, 18],
      w32_foreground = 16,
      w32_OpenProcess_query = (\<lambda>p. False),
      w32_image_name = (\<lambda>p. None),
      w32_OpenProcess_terminate = (\<lambda>p. False),
      w32_WideCharToMultiByte =
        (\<lambda>w. if w = [0x45, 0x64] then Some ''Ed'' else if w = [0x53, 0x68] then Some ''Sh''
             else Some ''C''),
      w32_MultiByteToWideChar = (\<lambda>t. Some [0x45])\<rparr>"

definition win_fresh :: win_state where
  "win_fresh = \<lparr>m_initialized = False, m_lastError = [], trace = []\<rparr>"

definition win_ready :: win_state where
  "win_ready = \<lparr>m_initialized = True, m_lastError = [], trace = []\<rparr>"

definition x_desktop :: xserver where
  "x_desktop =
     \<lparr>x_OpenDisplay = Some 1,
      x_DefaultRootWindow = 1,
      x_DefaultScreen = 0,
      x_InternAtom = (\<lambda>name. 100),
      x_WindowAttributes =
        (\<lambda>w. if w = 5 then Some \<lparr>xa_width = 640, xa_height = 480, xa_map_state = IsViewable\<rparr>
             else if w = 9 then Some \<lparr>xa_width = 200, xa_height = 100, xa_map_state = IsViewable\<rparr>
             else None),
      x_TranslateCoordinates = (\<lambda>w. (30, 40)),
      x_Property32 = (\<lambda>w p t. if w = 1 then (0, Some [5, 9]) else (0, None)),
      x_Property8 = (\<lambda>w p t. if w = 5 then (0, Some ''Term'') else (0, Some ''Files'')),
      x_FetchName = (\<lambda>w. None),
      x_ClassHint = (\<lambda>w. None),
      x_proc_comm = (\<lambda>p. None)\<rparr>"

text \<open>The same server once window 5 is gone, and a history in which it goes after the
  first two requests.\<close>

definition x_gone :: xserver where
  "x_gone = x_desktop\<lparr>x_WindowAttributes := (\<lambda>w. None)\<rparr>"

definition x_vanishing :: x_env where
  "x_vanishing t = (if length t < 3 then x_desktop else x_gone)"



definition x_ready :: WindowManagerLinux where
  "x_ready =
     \<lparr>m_initialized = True, m_lastError = [], trace = [],
      m_display = Some 1, m_rootWindow = 1, m_atoms = XAtoms_default\<rparr>"

definition stub_fresh :: stub_state where
  "stub_fresh = \<lparr>m_initialized = False, m_lastError = [], trace = []\<rparr>"

section \<open>Notions used in the statements\<close>

text \<open>
  Two X11 backend states are the same backend when they agree on every member of the
  class: the initialization flag, the last error, the display, the root window and the
  atom cache. They may differ in the trace only.
\<close>

definition same_backend :: "WindowManagerLinux \<Rightarrow> WindowManagerLinux \<Rightarrow> bool" where
  "same_backend s s' \<longleftrightarrow>
     m_initialized s = m_initialized s' \<and> m_lastError s = m_lastError s' \<and>
     m_display s = m_display s' \<and> m_rootWindow s = m_rootWindow s' \<and>
     m_atoms s = m_atoms s'"

text \<open>A visitor that counts its invocations and asks to stop at each of them.\<close>

definition stop_at_once :: "nat EnumWindowsCallback" where
  "stop_at_once n info = (False, Suc n)"

text \<open>A visitor that counts its invocations and never asks to stop.\<close>

definition count_all :: "nat EnumWindowsCallback" where
  "count_all n info = (True, Suc n)"

section \<open>Basic facts\<close>

lemma request_simps [simp]:
  "m_initialized (request c s) = m_initialized s"
  "m_lastError (request c s) = m_lastError s"
  "trace (request c s) = trace s @ [c]"
  by (simp_all add: request_def)

lemma SetLastError_simps [simp]:
  "m_initialized (SetLastError m s) = m_initialized s"
  "m_lastError (SetLastError m s) = m"
  "trace (SetLastError m s) = trace s"
  by (simp_all add: SetLastError_def)

lemma Result_simps [simp]:
  "res_error (Result_fail r e m) = e"
  "res_value (Result_fail r e m) = res_value r"
  "res_errorMessage (Result_fail r e m) = m"
  "res_error (Result_new v) = Success"
  "res_value (Result_new v) = v"
  "ok (Result_fail r e m) = (e = Success)"
  "ok (Result_new v)"
  by (simp_all add: Result_fail_def Result_new_def ok_def)

lemma Linux_request_simps [simp]:
  "m_atoms (request c s) = m_atoms s"
  "m_rootWindow (request c s) = m_rootWindow s"
  "m_display (request c s) = m_display s"
  "m_atoms (SetLastError m s) = m_atoms s"
  "m_rootWindow (SetLastError m s) = m_rootWindow s"
  "m_display (SetLastError m s) = m_display s"
  by (simp_all add: request_def SetLastError_def)

section \<open>Error precedence, backend by backend\<close>

text \<open>
  Each operation tests the initialization flag first and the handle next. An operation
  refused for the first reason leaves the state as it was; one refused for the second has
  issued its validity check and nothing else.
\<close>

lemmas Windows_op_defs =
  Windows_GetWindowInfo_def Windows_GetWindowTitle_def Windows_GetWindowRect_def
  Windows_GetWindowState_def Windows_GetWindowProcessId_def Windows_CloseWindow_def
  Windows_ForceCloseWindow_def Windows_MinimizeWindow_def Windows_MaximizeWindow_def
  Windows_RestoreWindow_def Windows_ShowWindow_def Windows_HideWindow_def
  Windows_FocusWindow_def Windows_SetAlwaysOnTop_def Windows_SetWindowRect_def
  Windows_MoveWindow_def Windows_ResizeWindow_def Windows_SetWindowTitle_def
  Windows_SetWindowOpacity_def

lemma Windows_uninitialized:
  "\<not> m_initialized s \<Longrightarrow> Windows_perform env op h s = (NotInitialized, s)"
  by (cases op) (simp_all add: Windows_op_defs reported_def Let_def)

lemma Windows_invalid:
  "m_initialized s \<Longrightarrow> \<not> Windows_valid env h s \<Longrightarrow>
   Windows_perform env op h s = (InvalidHandle, request (IsWindow h) s)"
  by (cases op) (simp_all add: Windows_op_defs reported_def Let_def native_def Windows_valid_def)

lemmas Linux_op_defs =
  Linux_GetWindowInfo_def Linux_GetWindowTitle_def Linux_GetWindowRect_def
  Linux_GetWindowState_def Linux_GetWindowProcessId_def Linux_CloseWindow_def
  Linux_ForceCloseWindow_def Linux_MinimizeWindow_def Linux_MaximizeWindow_def
  Linux_RestoreWindow_def Linux_ShowWindow_def Linux_HideWindow_def
  Linux_FocusWindow_def Linux_SetAlwaysOnTop_def Linux_SetWindowRect_def
  Linux_MoveWindow_def Linux_ResizeWindow_def Linux_SetWindowTitle_def
  Linux_SetWindowOpacity_def

lemma Linux_IsValidWindow_invalid:
  "m_initialized s \<Longrightarrow> \<not> Linux_valid env h s \<Longrightarrow>
   Linux_IsValidWindow env h s =
     (False, request XSetErrorHandler_restore
               (request (XGetWindowAttributes h) (request XSetErrorHandler_ignore s)))"
  by (simp add: Linux_IsValidWindow_def Linux_valid_def native_def Let_def)

lemma Linux_IsValidWindow_valid:
  "m_initialized s \<Longrightarrow> Linux_valid env h s \<Longrightarrow> fst (Linux_IsValidWindow env h s) = True"
  by (simp add: Linux_IsValidWindow_def Linux_valid_def native_def Let_def)

lemma Linux_uninitialized:
  "\<not> m_initialized s \<Longrightarrow> Linux_perform env op h s = (NotInitialized, s)"
  by (cases op) (simp_all add: Linux_op_defs reported_def Let_def)

lemma Linux_invalid:
  "m_initialized s \<Longrightarrow> \<not> Linux_valid env h s \<Longrightarrow>
   Linux_perform env op h s =
     (InvalidHandle, request XSetErrorHandler_restore
                       (request (XGetWindowAttributes h) (request XSetErrorHandler_ignore s)))"
  by (cases op) (simp_all add: Linux_op_defs reported_def Let_def Linux_IsValidWindow_invalid)

lemmas MacOS_op_defs =
  MacOS_GetWindowTitle_def MacOS_GetWindowRect_def
  MacOS_GetWindowState_def MacOS_GetWindowProcessId_def MacOS_CloseWindow_def
  MacOS_ForceCloseWindow_def MacOS_MinimizeWindow_def MacOS_MaximizeWindow_def
  MacOS_RestoreWindow_def MacOS_ShowWindow_def MacOS_HideWindow_def
  MacOS_FocusWindow_def MacOS_SetAlwaysOnTop_def MacOS_SetWindowRect_def
  MacOS_MoveWindow_def MacOS_ResizeWindow_def MacOS_SetWindowTitle_def
  MacOS_SetWindowOpacity_def

lemma MacOS_GetWindowInfo_uninitialized:
  "\<not> m_initialized s \<Longrightarrow>
   MacOS_GetWindowInfo env h s =
     (Result_fail (Result_new WindowInfo_default) NotInitialized ''WindowManager not initialized'', s)"
  by (simp add: MacOS_GetWindowInfo_def Let_def)

lemma MacOS_GetWindowInfo_invalid:
  "m_initialized s \<Longrightarrow> \<not> MacOS_valid env h s \<Longrightarrow>
   MacOS_GetWindowInfo env h s =
     (Result_fail (Result_new WindowInfo_default) InvalidHandle ''Invalid window handle'',
      request (CGWindowListCopyWindowInfo_IncludingWindow (ucast h)) s)"
  by (simp add: MacOS_GetWindowInfo_def MacOS_valid_def Let_def split: option.splits list.splits)

lemma MacOS_uninitialized:
  "\<not> unsupported_on_macOS op \<Longrightarrow> \<not> m_initialized s \<Longrightarrow>
   MacOS_perform env op h s = (NotInitialized, s)"
  by (cases op) (simp_all add: MacOS_op_defs reported_def MacOS_GetWindowInfo_uninitialized)

lemma MacOS_invalid:
  "\<not> unsupported_on_macOS op \<Longrightarrow> m_initialized s \<Longrightarrow> \<not> MacOS_valid env h s \<Longrightarrow>
   MacOS_perform env op h s =
     (InvalidHandle, request (CGWindowListCopyWindowInfo_IncludingWindow (ucast h)) s)"
  by (cases op) (simp_all add: MacOS_op_defs reported_def MacOS_GetWindowInfo_invalid)

lemma MacOS_unsupported:
  "unsupported_on_macOS op \<Longrightarrow> fst (MacOS_perform env op h s) = NotSupported"
  by (cases op) (simp_all add: MacOS_op_defs)

lemmas Stub_op_defs =
  Stub_GetWindowInfo_def Stub_GetWindowTitle_def Stub_GetWindowRect_def
  Stub_GetWindowState_def Stub_GetWindowProcessId_def Stub_CloseWindow_def
  Stub_ForceCloseWindow_def Stub_MinimizeWindow_def Stub_MaximizeWindow_def
  Stub_RestoreWindow_def Stub_ShowWindow_def Stub_HideWindow_def
  Stub_FocusWindow_def Stub_SetAlwaysOnTop_def Stub_SetWindowRect_def
  Stub_MoveWindow_def Stub_ResizeWindow_def Stub_SetWindowTitle_def
  Stub_SetWindowOpacity_def

lemma Stub_unsupported: "Stub_perform op h s = (NotSupported, s)"
  by (cases op) (simp_all add: Stub_op_defs reported_def)

lemma Windows_probes:
  "(\<not> m_initialized s \<longrightarrow>
      Windows_IsWindowVisible env h s = (False, s) \<and> Windows_IsValidWindow env h s = (False, s)) \<and>
   (m_initialized s \<and> \<not> Windows_valid env h s \<longrightarrow>
      Windows_IsWindowVisible env h s = (False, request (IsWindowVisible h) s) \<and>
      Windows_IsValidWindow env h s = (False, request (IsWindow h) s))"
  by (auto simp: Windows_IsWindowVisible_def Windows_IsValidWindow_def native_def
      Windows_valid_def win_IsWindow_def win_IsWindowVisible_def)

lemma Linux_probes:
  "(\<not> m_initialized s \<longrightarrow>
      Linux_IsWindowVisible env h s = (False, s) \<and> Linux_IsValidWindow env h s = (False, s)) \<and>
   (m_initialized s \<and> \<not> Linux_valid env h s \<longrightarrow>
      Linux_IsWindowVisible env h s =
        (False, request XSetErrorHandler_restore
                  (request (XGetWindowAttributes h) (request XSetErrorHandler_ignore s))) \<and>
      Linux_IsValidWindow env h s =
        (False, request XSetErrorHandler_restore
                  (request (XGetWindowAttributes h) (request XSetErrorHandler_ignore s))))"
  by (simp add: Linux_IsWindowVisible_def Linux_IsValidWindow_invalid)
     (simp add: Linux_IsValidWindow_def)

lemma MacOS_probes:
  "(\<not> m_initialized s \<longrightarrow>
      MacOS_IsWindowVisible env h s = (False, s) \<and> MacOS_IsValidWindow env h s = (False, s)) \<and>
   (m_initialized s \<and> \<not> MacOS_valid env h s \<longrightarrow>
      MacOS_IsWindowVisible env h s =
        (False, request (CGWindowListCopyWindowInfo_IncludingWindow (ucast h)) s) \<and>
      MacOS_IsValidWindow env h s =
        (False, request (CGWindowListCopyWindowInfo_IncludingWindow (ucast h)) s))"
  by (simp add: MacOS_IsWindowVisible_def MacOS_IsValidWindow_def
      MacOS_GetWindowInfo_uninitialized MacOS_GetWindowInfo_invalid)

lemma Windows_Initialize_again:
  "m_initialized s \<Longrightarrow> Windows_Initialize env s = (True, s)"
  by (simp add: Windows_Initialize_def)

lemma Linux_Initialize_again:
  "m_initialized s \<Longrightarrow> Linux_Initialize env s = (True, s)"
  by (simp add: Linux_Initialize_def)

lemma MacOS_Initialize_again:
  "m_initialized s \<Longrightarrow>
   MacOS_Initialize env s =
     (True,
      if mac_trusted (env (trace s)) then request AXIsProcessTrustedWithOptions s
      else SetLastError
             ''Accessibility permissions required. Please grant access in System Preferences.''
             (request AXIsProcessTrustedWithOptions s))"
  by (simp add: MacOS_Initialize_def Let_def request_def SetLastError_def)

section \<open>Enumeration: the visitor sees what GetAllWindows collects\<close>

text \<open>
  \<open>GetAllWindows\<close> and \<open>EnumerateWindows\<close> issue the same native requests in the same
  order as long as the visitor asks to go on, so they meet the same windows.
\<close>

lemma EnumWindowsProc_collect:
  "\<exists>L s'. EnumWindowsProc env hwnd
            \<lparr>ewd_windows = Some acc, ewd_callback = None, ewd_continueEnum = True, ewd_walk = k0\<rparr> s =
          (True, \<lparr>ewd_windows = Some (acc @ L), ewd_callback = None, ewd_continueEnum = True,
                  ewd_walk = k0\<rparr>, s') \<and>
          EnumWindowsProc env hwnd
            \<lparr>ewd_windows = None, ewd_callback = Some callback, ewd_continueEnum = True, ewd_walk = k\<rparr> s =
          (case L of
             [] \<Rightarrow> (True, \<lparr>ewd_windows = None, ewd_callback = Some callback,
                          ewd_continueEnum = True, ewd_walk = k\<rparr>, s')
           | info # _ \<Rightarrow>
               (case callback (visitor k) info of
                  (continue, v) \<Rightarrow>
                    (continue,
                     \<lparr>ewd_windows = None, ewd_callback = Some callback,
                      ewd_continueEnum = continue,
                      ewd_walk = \<lparr>visited = visited k @ [info], visitor = v\<rparr>\<rparr>, s'))) \<and>
          length L \<le> 1"
  by (auto simp: EnumWindowsProc_def Let_def split: prod.splits)

lemma spec_visit_stopped:
  "callback (visitor k) info = (False, v) \<Longrightarrow>
   spec_visit callback k (info # rest) = \<lparr>visited = visited k @ [info], visitor = v\<rparr>"
  by simp

lemma EnumWindows_walk_related:
  "\<exists>L sA sB cont.
     EnumWindows_walk env hs
       \<lparr>ewd_windows = Some acc, ewd_callback = None, ewd_continueEnum = True, ewd_walk = k0\<rparr> s =
       (\<lparr>ewd_windows = Some (acc @ L), ewd_callback = None, ewd_continueEnum = True,
         ewd_walk = k0\<rparr>, sA) \<and>
     EnumWindows_walk env hs
       \<lparr>ewd_windows = None, ewd_callback = Some callback, ewd_continueEnum = True, ewd_walk = k\<rparr> s =
       (\<lparr>ewd_windows = None, ewd_callback = Some callback, ewd_continueEnum = cont,
         ewd_walk = spec_visit callback k L\<rparr>, sB)"
proof (induction hs arbitrary: acc k s)
  case Nil
  show ?case by auto
next
  case (Cons hwnd hs)
  obtain L s' where A: "EnumWindowsProc env hwnd
            \<lparr>ewd_windows = Some acc, ewd_callback = None, ewd_continueEnum = True, ewd_walk = k0\<rparr> s =
          (True, \<lparr>ewd_windows = Some (acc @ L), ewd_callback = None, ewd_continueEnum = True,
                  ewd_walk = k0\<rparr>, s')"
    and B: "EnumWindowsProc env hwnd
            \<lparr>ewd_windows = None, ewd_callback = Some callback, ewd_continueEnum = True, ewd_walk = k\<rparr> s =
          (case L of
             [] \<Rightarrow> (True, \<lparr>ewd_windows = None, ewd_callback = Some callback,
                          ewd_continueEnum = True, ewd_walk = k\<rparr>, s')
           | info # _ \<Rightarrow>
               (case callback (visitor k) info of
                  (continue, v) \<Rightarrow>
                    (continue,
                     \<lparr>ewd_windows = None, ewd_callback = Some callback,
                      ewd_continueEnum = continue,
                      ewd_walk = \<lparr>visited = visited k @ [info], visitor = v\<rparr>\<rparr>, s')))"
    and len: "length L \<le> 1"
    using EnumWindowsProc_collect [of env hwnd acc k0 s callback k] by blast
  show ?case
  proof (cases L)
    case Nil
    from Cons.IH [where acc = acc and k = k and s = s'] obtain L' sA sB cont where
      "EnumWindows_walk env hs
       \<lparr>ewd_windows = Some acc, ewd_callback = None, ewd_continueEnum = True, ewd_walk = k0\<rparr> s' =
       (\<lparr>ewd_windows = Some (acc @ L'), ewd_callback = None, ewd_continueEnum = True,
         ewd_walk = k0\<rparr>, sA)"
      "EnumWindows_walk env hs
       \<lparr>ewd_windows = None, ewd_callback = Some callback, ewd_continueEnum = True, ewd_walk = k\<rparr> s' =
       (\<lparr>ewd_windows = None, ewd_callback = Some callback, ewd_continueEnum = cont,
         ewd_walk = spec_visit callback k L'\<rparr>, sB)"
      by blast
    with A B Nil show ?thesis by simp
  next
    case (Cons info rest)
    with len have L: "L = [info]" by simp
    obtain continue v where cb: "callback (visitor k) info = (continue, v)" by force
    let ?k1 = "\<lparr>visited = visited k @ [info], visitor = v\<rparr>"
    from Cons.IH [where acc = "acc @ [info]" and k = ?k1 and s = s'] obtain L' sA sB cont where
      IA: "EnumWindows_walk env hs
       \<lparr>ewd_windows = Some (acc @ [info]), ewd_callback = None, ewd_continueEnum = True, ewd_walk = k0\<rparr> s' =
       (\<lparr>ewd_windows = Some ((acc @ [info]) @ L'), ewd_callback = None, ewd_continueEnum = True,
         ewd_walk = k0\<rparr>, sA)"
      and IB: "EnumWindows_walk env hs
       \<lparr>ewd_windows = None, ewd_callback = Some callback, ewd_continueEnum = True, ewd_walk = ?k1\<rparr> s' =
       (\<lparr>ewd_windows = None, ewd_callback = Some callback, ewd_continueEnum = cont,
         ewd_walk = spec_visit callback ?k1 L'\<rparr>, sB)"
      by blast
    show ?thesis
    proof (cases continue)
      case True
      with A B L cb IA IB show ?thesis
        by (intro exI [of _ "info # L'"]) auto
    next
      case False
      with A B L cb IA show ?thesis
        by (intro exI [of _ "info # L'"]) auto
    qed
  qed
qed

lemma Windows_Enumerate_same_walk:
  "fst (Windows_EnumerateWindows env callback v s) =
   spec_visit callback \<lparr>visited = [], visitor = v\<rparr> (fst (Windows_GetAllWindows env s))"
proof (cases "m_initialized s")
  case False
  then show ?thesis
    by (simp add: Windows_EnumerateWindows_def Windows_GetAllWindows_def)
next
  case True
  obtain L sA sB cont where
    "EnumWindows_walk env (w32_toplevel (env (trace s)))
       \<lparr>ewd_windows = Some [], ewd_callback = None, ewd_continueEnum = True,
        ewd_walk = \<lparr>visited = [], visitor = ()\<rparr>\<rparr> (request EnumWindows s) =
       (\<lparr>ewd_windows = Some ([] @ L), ewd_callback = None, ewd_continueEnum = True,
         ewd_walk = \<lparr>visited = [], visitor = ()\<rparr>\<rparr>, sA)"
    "EnumWindows_walk env (w32_toplevel (env (trace s)))
       \<lparr>ewd_windows = None, ewd_callback = Some callback, ewd_continueEnum = True,
        ewd_walk = \<lparr>visited = [], visitor = v\<rparr>\<rparr> (request EnumWindows s) =
       (\<lparr>ewd_windows = None, ewd_callback = Some callback, ewd_continueEnum = cont,
         ewd_walk = spec_visit callback \<lparr>visited = [], visitor = v\<rparr> L\<rparr>, sB)"
    using EnumWindows_walk_related [of env "w32_toplevel (env (trace s))" "[]"
        "\<lparr>visited = [], visitor = ()\<rparr>" "request EnumWindows s" callback
        "\<lparr>visited = [], visitor = v\<rparr>"]
    by blast
  with True show ?thesis
    by (simp add: Windows_EnumerateWindows_def Windows_GetAllWindows_def Win32_EnumWindows_def
        native_def Let_def)
qed

lemma Linux_GetAllWindows_loop_acc:
  "fst (Linux_GetAllWindows_loop env ws acc s) = acc @ fst (Linux_GetAllWindows_loop env ws [] s)"
proof (induction ws arbitrary: acc s)
  case Nil
  show ?case by simp
next
  case (Cons w ws)
  obtain info s1 where g: "Linux_GetWindowInfo env w s = (info, s1)" by force
  show ?case
    using Cons.IH [where acc = "acc @ [res_value info]" and s = s1]
      Cons.IH [where acc = "[res_value info]" and s = s1]
      Cons.IH [where acc = acc and s = s1]
    by (simp add: g)
qed

lemma Linux_loops_same_walk:
  "fst (Linux_EnumerateWindows_loop env callback ws k s) =
   spec_visit callback k (fst (Linux_GetAllWindows_loop env ws [] s))"
proof (induction ws arbitrary: k s)
  case Nil
  show ?case by simp
next
  case (Cons w ws)
  obtain info s1 where g: "Linux_GetWindowInfo env w s = (info, s1)" by force
  obtain continue v where c: "callback (visitor k) (res_value info) = (continue, v)" by force
  show ?case
    using Cons.IH [where s = s1]
      Linux_GetAllWindows_loop_acc [of env ws "[res_value info]" s1]
    by (simp add: g c Let_def)
qed

lemma Linux_Enumerate_same_walk:
  "fst (Linux_EnumerateWindows env callback v s) =
   spec_visit callback \<lparr>visited = [], visitor = v\<rparr> (fst (Linux_GetAllWindows env s))"
  by (simp add: Linux_EnumerateWindows_def Linux_GetAllWindows_def Linux_loops_same_walk
      split: prod.splits)

lemma MacOS_visit_spec: "MacOS_visit callback k ws = spec_visit callback k ws"
  by (induction ws arbitrary: k) (simp_all add: Let_def split: prod.splits)

lemma MacOS_Enumerate_same_walk:
  "fst (MacOS_EnumerateWindows env callback v s) =
   spec_visit callback \<lparr>visited = [], visitor = v\<rparr> (fst (MacOS_GetAllWindows env s))"
  by (simp add: MacOS_EnumerateWindows_def MacOS_visit_spec MacOS_GetAllWindows_def Let_def
      split: prod.splits option.splits)

lemma Stub_Enumerate_same_walk:
  "fst (Stub_EnumerateWindows callback v s) =
   spec_visit callback \<lparr>visited = [], visitor = v\<rparr> (fst (Stub_GetAllWindows s))"
  by (simp add: Stub_EnumerateWindows_def Stub_GetAllWindows_def)

section \<open>X11 lookups on a desktop that stays as it is\<close>

text \<open>
  No lookup changes what the lookups read (the frame lemmas), and on a frozen desktop the
  value of a lookup depends on the backend state only through that (the value lemmas).
\<close>

lemma same_backend_refl [simp]: "same_backend s s"
  by (simp add: same_backend_def)


lemma same_backend_trans: "same_backend s s' \<Longrightarrow> same_backend s' s'' \<Longrightarrow> same_backend s s''"
  by (simp add: same_backend_def)

lemma same_backend_request [simp]:
  "same_backend (request c s) s' = same_backend s s'"
  "same_backend s (request c s') = same_backend s s'"
  by (simp_all add: same_backend_def)

lemma same_backend_fields:
  "same_backend s c \<Longrightarrow> m_atoms s = m_atoms c \<and> m_rootWindow s = m_rootWindow c \<and> m_initialized s = m_initialized c"
  by (simp add: same_backend_def)

lemma frame_IsValidWindow: "same_backend (snd (Linux_IsValidWindow env h s)) s"
  by (simp add: Linux_IsValidWindow_def native_def Let_def)

lemma frame_Title: "same_backend (snd (Linux_GetWindowTitleInternal env h s)) s"
  by (simp add: Linux_GetWindowTitleInternal_def native_def Let_def
      split: prod.splits option.splits list.splits)

lemma frame_Class: "same_backend (snd (Linux_GetWindowClassInternal env h s)) s"
  by (simp add: Linux_GetWindowClassInternal_def native_def Let_def
      split: prod.splits option.splits list.splits)

lemma frame_Pid: "same_backend (snd (GetWindowPidInternal env h s)) s"
  by (simp add: GetWindowPidInternal_def native_def Let_def
      split: prod.splits option.splits list.splits)

lemma frame_ProcessName: "same_backend (snd (Linux_GetProcessNameFromPid env pid s)) s"
  by (simp add: Linux_GetProcessNameFromPid_def native_def Let_def
      split: prod.splits option.splits list.splits)

lemma frame_HasWmState: "same_backend (snd (HasWmState env h a s)) s"
  by (simp add: HasWmState_def native_def Let_def
      split: prod.splits option.splits list.splits)

lemma frame_GetFocusedWindow: "same_backend (snd (Linux_GetFocusedWindow env s)) s"
  by (simp add: Linux_GetFocusedWindow_def native_def Let_def
      split: prod.splits option.splits list.splits)

lemma frame_GetClientList: "same_backend (snd (GetClientList env s)) s"
  by (simp add: GetClientList_def native_def split: prod.splits option.splits)

lemma value_IsValidWindow:
  "same_backend s s' \<Longrightarrow>
   fst (Linux_IsValidWindow (frozen d) h s) = fst (Linux_IsValidWindow (frozen d) h s')"
  by (simp add: Linux_IsValidWindow_def native_def Let_def frozen_def same_backend_def)

lemma value_Title:
  "same_backend s s' \<Longrightarrow>
   fst (Linux_GetWindowTitleInternal (frozen d) h s) =
   fst (Linux_GetWindowTitleInternal (frozen d) h s')"
  by (simp add: Linux_GetWindowTitleInternal_def native_def Let_def frozen_def same_backend_def
      split: prod.splits option.splits list.splits)

lemma value_Class:
  "fst (Linux_GetWindowClassInternal (frozen d) h s) =
   fst (Linux_GetWindowClassInternal (frozen d) h s')"
  by (simp add: Linux_GetWindowClassInternal_def native_def Let_def frozen_def
      split: prod.splits option.splits list.splits)

lemma value_Pid:
  "same_backend s s' \<Longrightarrow>
   fst (GetWindowPidInternal (frozen d) h s) = fst (GetWindowPidInternal (frozen d) h s')"
  by (simp add: GetWindowPidInternal_def native_def Let_def frozen_def same_backend_def
      split: prod.splits option.splits list.splits)

lemma value_ProcessName:
  "fst (Linux_GetProcessNameFromPid (frozen d) pid s) =
   fst (Linux_GetProcessNameFromPid (frozen d) pid s')"
  by (simp add: Linux_GetProcessNameFromPid_def native_def Let_def frozen_def
      split: prod.splits option.splits list.splits)

lemma value_HasWmState:
  "same_backend s s' \<Longrightarrow>
   fst (HasWmState (frozen d) h a s) = fst (HasWmState (frozen d) h a s')"
  by (simp add: HasWmState_def native_def Let_def frozen_def same_backend_def
      split: prod.splits option.splits list.splits)

lemma value_GetFocusedWindow:
  "same_backend s s' \<Longrightarrow>
   fst (Linux_GetFocusedWindow (frozen d) s) = fst (Linux_GetFocusedWindow (frozen d) s')"
  by (simp add: Linux_GetFocusedWindow_def native_def Let_def frozen_def same_backend_def
      split: prod.splits option.splits list.splits)

lemma value_GetClientList:
  "same_backend s s' \<Longrightarrow> fst (GetClientList (frozen d) s) = fst (GetClientList (frozen d) s')"
  by (simp add: GetClientList_def native_def frozen_def same_backend_def
      split: prod.splits option.splits)

lemma state_bits_char:
  assumes sc: "same_backend s c"
  shows "same_backend (snd (Linux_state_bits env h s)) c \<and>
   (env = frozen d \<longrightarrow> fst (Linux_state_bits env h s) =
     (let st = WindowState_Normal;
          st = (if fst (HasWmState (frozen d) h (m_atomNetWmStateHidden (m_atoms c)) c)
                then WindowState_or st WindowState_Minimized else st);
          st = (if fst (HasWmState (frozen d) h (m_atomNetWmStateMaximizedVert (m_atoms c)) c) \<and>
                   fst (HasWmState (frozen d) h (m_atomNetWmStateMaximizedHorz (m_atoms c)) c)
                then WindowState_or st WindowState_Maximized else st);
          st = (if fst (HasWmState (frozen d) h (m_atomNetWmStateFullscreen (m_atoms c)) c)
                then WindowState_or st WindowState_Fullscreen else st);
          st = (if fst (HasWmState (frozen d) h (m_atomNetWmStateAbove (m_atoms c)) c)
                then WindowState_or st WindowState_AlwaysOnTop else st)
      in if fst (Linux_GetFocusedWindow (frozen d) c) = h
         then WindowState_or st WindowState_Focused else st))"
proof -
  note f = same_backend_fields
  obtain b1 s1 where 1: "HasWmState env h (m_atomNetWmStateHidden (m_atoms s)) s = (b1, s1)" by force
  have c1: "same_backend s1 c"
    using frame_HasWmState [of env h "m_atomNetWmStateHidden (m_atoms s)" s] sc 1
    by (auto intro: same_backend_trans)
  obtain b2 s2 where 2: "HasWmState env h (m_atomNetWmStateMaximizedVert (m_atoms s1)) s1 = (b2, s2)" by force
  have c2: "same_backend s2 c"
    using frame_HasWmState [of env h "m_atomNetWmStateMaximizedVert (m_atoms s1)" s1] c1 2
    by (auto intro: same_backend_trans)
  obtain b3 s3 where 3: "(if b2 then HasWmState env h (m_atomNetWmStateMaximizedHorz (m_atoms s2)) s2
            else (False, s2)) = (b3, s3)" by force
  have c3: "same_backend s3 c"
    using frame_HasWmState [of env h "m_atomNetWmStateMaximizedHorz (m_atoms s2)" s2] c2 3
    by (auto intro: same_backend_trans split: if_splits)
  obtain b4 s4 where 4: "HasWmState env h (m_atomNetWmStateFullscreen (m_atoms s3)) s3 = (b4, s4)" by force
  have c4: "same_backend s4 c"
    using frame_HasWmState [of env h "m_atomNetWmStateFullscreen (m_atoms s3)" s3] c3 4
    by (auto intro: same_backend_trans)
  obtain b5 s5 where 5: "HasWmState env h (m_atomNetWmStateAbove (m_atoms s4)) s4 = (b5, s5)" by force
  have c5: "same_backend s5 c"
    using frame_HasWmState [of env h "m_atomNetWmStateAbove (m_atoms s4)" s4] c4 5
    by (auto intro: same_backend_trans)
  obtain fw s6 where 6: "Linux_GetFocusedWindow env s5 = (fw, s6)" by force
  have c6: "same_backend s6 c"
    using frame_GetFocusedWindow [of env s5] c5 6 by (auto intro: same_backend_trans)
  have unfolded: "Linux_state_bits env h s =
     (let st = WindowState_Normal;
          st = (if b1 then WindowState_or st WindowState_Minimized else st);
          st = (if b3 then WindowState_or st WindowState_Maximized else st);
          st = (if b4 then WindowState_or st WindowState_Fullscreen else st);
          st = (if b5 then WindowState_or st WindowState_AlwaysOnTop else st)
      in (if fw = h then WindowState_or st WindowState_Focused else st, s6))"
    by (simp add: Linux_state_bits_def Let_def 1 2 3 4 5 6)
  have fr: "same_backend (snd (Linux_state_bits env h s)) c"
    using c6 by (simp add: unfolded Let_def)
  have vals: "fst (Linux_state_bits env h s) =
     (let st = WindowState_Normal;
          st = (if fst (HasWmState (frozen d) h (m_atomNetWmStateHidden (m_atoms c)) c)
                then WindowState_or st WindowState_Minimized else st);
          st = (if fst (HasWmState (frozen d) h (m_atomNetWmStateMaximizedVert (m_atoms c)) c) \<and>
                   fst (HasWmState (frozen d) h (m_atomNetWmStateMaximizedHorz (m_atoms c)) c)
                then WindowState_or st WindowState_Maximized else st);
          st = (if fst (HasWmState (frozen d) h (m_atomNetWmStateFullscreen (m_atoms c)) c)
                then WindowState_or st WindowState_Fullscreen else st);
          st = (if fst (HasWmState (frozen d) h (m_atomNetWmStateAbove (m_atoms c)) c)
                then WindowState_or st WindowState_AlwaysOnTop else st)
      in if fst (Linux_GetFocusedWindow (frozen d) c) = h
         then WindowState_or st WindowState_Focused else st)" if e: "env = frozen d"
  proof -
    have v1: "b1 = fst (HasWmState (frozen d) h (m_atomNetWmStateHidden (m_atoms c)) c)"
      using value_HasWmState [OF sc, of d h "m_atomNetWmStateHidden (m_atoms c)"] 1 f [OF sc] e
      by simp
    have v2: "b2 = fst (HasWmState (frozen d) h (m_atomNetWmStateMaximizedVert (m_atoms c)) c)"
      using value_HasWmState [OF c1, of d h "m_atomNetWmStateMaximizedVert (m_atoms c)"] 2 f [OF c1] e
      by simp
    have v3: "b3 = (b2 \<and> fst (HasWmState (frozen d) h (m_atomNetWmStateMaximizedHorz (m_atoms c)) c))"
      using value_HasWmState [OF c2, of d h "m_atomNetWmStateMaximizedHorz (m_atoms c)"] 3 f [OF c2] e
      by (auto split: if_splits)
    have v4: "b4 = fst (HasWmState (frozen d) h (m_atomNetWmStateFullscreen (m_atoms c)) c)"
      using value_HasWmState [OF c3, of d h "m_atomNetWmStateFullscreen (m_atoms c)"] 4 f [OF c3] e
      by simp
    have v5: "b5 = fst (HasWmState (frozen d) h (m_atomNetWmStateAbove (m_atoms c)) c)"
      using value_HasWmState [OF c4, of d h "m_atomNetWmStateAbove (m_atoms c)"] 5 f [OF c4] e
      by simp
    have v6: "fw = fst (Linux_GetFocusedWindow (frozen d) c)"
      using value_GetFocusedWindow [OF c5, of d] 6 e by simp
    show ?thesis
      unfolding unfolded by (simp add: Let_def v1 [symmetric] v2 [symmetric] v3 v4 [symmetric] v5 [symmetric] v6 [symmetric])
  qed
  from fr vals show ?thesis by blast
qed

lemma frame_state_bits: "same_backend (snd (Linux_state_bits env h s)) s"
  using state_bits_char [of s s env h] by simp

lemma value_state_bits:
  "same_backend s s' \<Longrightarrow>
   fst (Linux_state_bits (frozen d) h s) = fst (Linux_state_bits (frozen d) h s')"
  using state_bits_char [of s s' "frozen d" h d] state_bits_char [of s' s' "frozen d" h d]
  by simp

lemma GetWindowInfo_char:
  assumes sc: "same_backend s c"
  shows "same_backend (snd (Linux_GetWindowInfo env h s)) c \<and>
   (env = frozen d \<longrightarrow> fst (Linux_GetWindowInfo env h s) =
     (if \<not> m_initialized c
      then Result_fail (Result_new WindowInfo_default) NotInitialized ''WindowManager not initialized''
      else if \<not> fst (Linux_IsValidWindow (frozen d) h c)
      then Result_fail (Result_new WindowInfo_default) InvalidHandle ''Invalid window handle''
      else Result_new
        (let info = WindowInfo_default
               \<lparr>handle := h,
                title := fst (Linux_GetWindowTitleInternal (frozen d) h c),
                className := fst (Linux_GetWindowClassInternal (frozen d) h c),
                processId := fst (GetWindowPidInternal (frozen d) h c),
                processName :=
                  fst (Linux_GetProcessNameFromPid (frozen d)
                         (fst (GetWindowPidInternal (frozen d) h c)) c)\<rparr>;
             info = (case x_WindowAttributes d h of
                       Some a \<Rightarrow>
                         info\<lparr>rect := \<lparr>rect_x = fst (x_TranslateCoordinates d h),
                                        rect_y = snd (x_TranslateCoordinates d h),
                                        rect_width = xa_width a, rect_height = xa_height a\<rparr>,
                               isVisible := (xa_map_state a = IsViewable)\<rparr>
                     | None \<Rightarrow> info)
         in info\<lparr>state := fst (Linux_state_bits (frozen d) h c)\<rparr>)))"
proof (cases "m_initialized s")
  case False
  with sc show ?thesis
    by (simp add: Linux_GetWindowInfo_def Let_def same_backend_def)
next
  case init: True
  note f = same_backend_fields
  have initc: "m_initialized c" using init f [OF sc] by simp
  obtain v s1 where 1: "Linux_IsValidWindow env h s = (v, s1)" by force
  have c1: "same_backend s1 c"
    using frame_IsValidWindow [of env h s] sc 1 by (auto intro: same_backend_trans)
  show ?thesis
  proof (cases v)
    case False
    have "env = frozen d \<Longrightarrow> \<not> fst (Linux_IsValidWindow (frozen d) h c)"
      using value_IsValidWindow [OF sc, of d h] 1 False by simp
    with init initc 1 False c1 show ?thesis
      by (auto simp: Linux_GetWindowInfo_def Let_def)
  next
    case valid: True
    obtain t s2 where 2: "Linux_GetWindowTitleInternal env h s1 = (t, s2)" by force
    have c2: "same_backend s2 c"
      using frame_Title [of env h s1] c1 2 by (auto intro: same_backend_trans)
    obtain cl s3 where 3: "Linux_GetWindowClassInternal env h s2 = (cl, s3)" by force
    have c3: "same_backend s3 c"
      using frame_Class [of env h s2] c2 3 by (auto intro: same_backend_trans)
    obtain pid s4 where 4: "GetWindowPidInternal env h s3 = (pid, s4)" by force
    have c4: "same_backend s4 c"
      using frame_Pid [of env h s3] c3 4 by (auto intro: same_backend_trans)
    obtain pn s5 where 5: "Linux_GetProcessNameFromPid env pid s4 = (pn, s5)" by force
    have c5: "same_backend s5 c"
      using frame_ProcessName [of env pid s4] c4 5 by (auto intro: same_backend_trans)
    define s6 where "s6 = request (XGetWindowAttributes h) s5"
    define s7 where "s7 = (case x_WindowAttributes (env (trace s5)) h of
                             Some a \<Rightarrow> request (XTranslateCoordinates h (m_rootWindow s6)) s6
                           | None \<Rightarrow> s6)"
    have c7: "same_backend s7 c"
      using c5 by (simp add: s7_def s6_def split: option.splits)
    obtain st s8 where 8: "Linux_state_bits env h s7 = (st, s8)" by force
    have c8: "same_backend s8 c"
      using state_bits_char [OF c7, of env h d] 8 by simp
    have unfolded: "Linux_GetWindowInfo env h s =
      (Result_new
        (let info = WindowInfo_default
               \<lparr>handle := h, title := t, className := cl, processId := pid, processName := pn\<rparr>;
             info = (case x_WindowAttributes (env (trace s5)) h of
                       Some a \<Rightarrow>
                         info\<lparr>rect := \<lparr>rect_x = fst (x_TranslateCoordinates (env (trace s6)) h),
                                        rect_y = snd (x_TranslateCoordinates (env (trace s6)) h),
                                        rect_width = xa_width a, rect_height = xa_height a\<rparr>,
                               isVisible := (xa_map_state a = IsViewable)\<rparr>
                     | None \<Rightarrow> info)
         in info\<lparr>state := st\<rparr>), s8)"
      using 8
      by (simp add: Linux_GetWindowInfo_def Let_def init 1 valid 2 3 4 5 native_def s7_def s6_def
          split: option.splits prod.splits)
    have fr: "same_backend (snd (Linux_GetWindowInfo env h s)) c"
      using c8 by (simp add: unfolded)
    have vals: "fst (Linux_GetWindowInfo env h s) =
      Result_new
        (let info = WindowInfo_default
               \<lparr>handle := h,
                title := fst (Linux_GetWindowTitleInternal (frozen d) h c),
                className := fst (Linux_GetWindowClassInternal (frozen d) h c),
                processId := fst (GetWindowPidInternal (frozen d) h c),
                processName :=
                  fst (Linux_GetProcessNameFromPid (frozen d)
                         (fst (GetWindowPidInternal (frozen d) h c)) c)\<rparr>;
             info = (case x_WindowAttributes d h of
                       Some a \<Rightarrow>
                         info\<lparr>rect := \<lparr>rect_x = fst (x_TranslateCoordinates d h),
                                        rect_y = snd (x_TranslateCoordinates d h),
                                        rect_width = xa_width a, rect_height = xa_height a\<rparr>,
                               isVisible := (xa_map_state a = IsViewable)\<rparr>
                     | None \<Rightarrow> info)
         in info\<lparr>state := fst (Linux_state_bits (frozen d) h c)\<rparr>)
      \<and> fst (Linux_IsValidWindow (frozen d) h c)" if e: "env = frozen d"
    proof -
      have v0: "fst (Linux_IsValidWindow (frozen d) h c)"
        using value_IsValidWindow [OF sc, of d h] 1 valid e by simp
      have v2: "t = fst (Linux_GetWindowTitleInternal (frozen d) h c)"
        using value_Title [OF c1, of d h] 2 e by simp
      have v3: "cl = fst (Linux_GetWindowClassInternal (frozen d) h c)"
        using value_Class [of d h s2 c] 3 e by simp
      have v4: "pid = fst (GetWindowPidInternal (frozen d) h c)"
        using value_Pid [OF c3, of d h] 4 e by simp
      have v5: "pn = fst (Linux_GetProcessNameFromPid (frozen d) pid c)"
        using value_ProcessName [of d pid s4 c] 5 e by simp
      have v8: "st = fst (Linux_state_bits (frozen d) h c)"
        using value_state_bits [OF c7, of d h] 8 e by simp
      show ?thesis
        unfolding unfolded using v0
        by (simp add: Let_def v2 [symmetric] v3 [symmetric] v4 [symmetric] v5 [symmetric]
            v8 [symmetric] e frozen_def cong: option.case_cong)
    qed
    from fr vals initc show ?thesis by auto
  qed
qed

lemma frame_GetWindowInfo: "same_backend (snd (Linux_GetWindowInfo env h s)) s"
  using GetWindowInfo_char [of s s env h] by simp



section \<open>Searching by title\<close>







section \<open>Clamping and scaling an opacity\<close>

lemma clamp_cases:
  "std_max (Finite 0) (std_min (Finite 1) opacity) =
     (case opacity of
        NaN \<Rightarrow> Finite 1
      | PInf \<Rightarrow> Finite 1
      | NInf \<Rightarrow> Finite 0
      | Finite r \<Rightarrow> Finite (max 0 (min 1 r)))"
  by (cases opacity) (auto simp: std_max_def std_min_def)

lemma clamp_examples:
  "std_max (Finite 0) (std_min (Finite 1) (Finite (- 1))) = Finite 0"
  "std_max (Finite 0) (std_min (Finite 1) (Finite (1 / 2))) = Finite (1 / 2)"
  "std_max (Finite 0) (std_min (Finite 1) (Finite 2)) = Finite 1"
  by (simp_all add: std_max_def std_min_def)

lemma f32_of_0xFFFFFFFF: "f32_of_unsigned (0xFFFFFFFF :: 32 word) = Finite 4294967296"
  by code_simp

lemma opacity_value_full: "(f32_to_unsigned (f32_mult (Finite 1) (f32_of_unsigned (0xFFFFFFFF :: 32 word))) :: 64 word option) = Some 0x100000000"
  by code_simp

lemma alpha_examples:
  "(f32_to_unsigned (f32_mult (Finite 0) (f32_round 255)) :: 8 word option) = Some 0"
  "(f32_to_unsigned (f32_mult (Finite (1 / 2)) (f32_round 255)) :: 8 word option) = Some 127"
  "(f32_to_unsigned (f32_mult (Finite 1) (f32_round 255)) :: 8 word option) = Some 255"
  by code_simp+

section \<open>The example desktops, evaluated\<close>

lemma win_example_all:
  "fst (Windows_GetAllWindows (frozen win_desktop) win_ready) =
     [\<lparr>handle = 16, title = ''Ed'', className = ''C'',
       rect = \<lparr>rect_x = 0, rect_y = 0, rect_width = 800, rect_height = 600\<rparr>,
       state = WindowState_Focused, processId = 100, processName = [], isVisible = True\<rparr>,
      \<lparr>handle = 18, title = ''Sh'', className = ''C'',
       rect = \<lparr>rect_x = 10, rect_y = 10, rect_width = 100, rect_height = 50\<rparr>,
       state = WindowState_Normal, processId = 101, processName = [], isVisible = True\<rparr>]"
  by (simp add: Windows_GetAllWindows_def Win32_EnumWindows_def EnumWindowsProc_def
      Windows_GetWindowInfo_def Windows_GetWindowTitleInternal_def
      Windows_GetWindowClassInternal_def Windows_GetProcessNameFromPid_def native_def frozen_def
      win_desktop_def win_window_def win_other_def win_ready_def Let_def win_IsWindow_def
      win_IsWindowVisible_def win_GetWindow_owner_def win_GetWindowTextLengthW_def
      win_GetWindowTextW_def win_GetClassNameW_def win_GetWindowThreadProcessId_def
      win_GetWindowRect_def win_IsIconic_def win_IsZoomed_def win_GetWindowLongW_def
      WindowInfo_default_def Rect_default_def WindowState_or_def WindowState_Normal_def
      WS_EX_TOPMOST_def wide_c_str_def)

lemma x_example_all:
  "fst (Linux_GetAllWindows (frozen x_desktop) x_ready) =
     [\<lparr>handle = 5, title = ''Term'', className = [],
       rect = \<lparr>rect_x = 30, rect_y = 40, rect_width = 640, rect_height = 480\<rparr>,
       state = WindowState_Focused, processId = 0, processName = [], isVisible = True\<rparr>,
      \<lparr>handle = 9, title = ''Files'', className = [],
       rect = \<lparr>rect_x = 30, rect_y = 40, rect_width = 200, rect_height = 100\<rparr>,
       state = WindowState_Normal, processId = 0, processName = [], isVisible = True\<rparr>]"
  by (simp add: Linux_GetAllWindows_def GetClientList_def Linux_GetWindowInfo_def
      Linux_IsValidWindow_def Linux_GetWindowTitleInternal_def Linux_GetWindowClassInternal_def
      GetWindowPidInternal_def Linux_GetProcessNameFromPid_def Linux_state_bits_def
      HasWmState_def Linux_GetFocusedWindow_def native_def frozen_def x_desktop_def x_ready_def
      XAtoms_default_def X11Success_def Let_def WindowInfo_default_def Rect_default_def
      WindowState_or_def WindowState_Normal_def)

lemma mac_example_all:
  "fst (MacOS_GetAllWindows (frozen mac_desktop) mac_ready) =
     [\<lparr>handle = 7, title = ''Notes'', className = ''TextEdit'',
       rect = \<lparr>rect_x = 10, rect_y = 20, rect_width = 300, rect_height = 200\<rparr>,
       state = WindowState_Normal, processId = 42, processName = ''TextEdit'', isVisible = True\<rparr>,
      \<lparr>handle = 11, title = ''Inbox'', className = ''Mail'',
       rect = \<lparr>rect_x = 0, rect_y = 0, rect_width = 500, rect_height = 400\<rparr>,
       state = WindowState_Normal, processId = 43, processName = ''Mail'', isVisible = True\<rparr>]"
  by (simp add: MacOS_GetAllWindows_def MacOS_entry_def frozen_def mac_desktop_def mac_ready_def
      mac_window_def mac_other_def Let_def WindowInfo_default_def)




lemma x_ready_geometry:
  "trace (geometry_query_state x_vanishing 5 x_ready) =
     [XSetErrorHandler_ignore, XGetWindowAttributes 5, XSetErrorHandler_restore,
      XGetWindowProperty 5 0 (- 1) 0, XGetClassHint 5, XGetWindowProperty 5 0 1 XA_CARDINAL]"
  by (simp add: geometry_query_state_def Linux_IsValidWindow_def Linux_GetWindowTitleInternal_def
      Linux_GetWindowClassInternal_def GetWindowPidInternal_def Linux_GetProcessNameFromPid_def
      native_def x_vanishing_def x_desktop_def x_gone_def x_ready_def XAtoms_default_def
      X11Success_def Let_def)

lemma spec_visit_first_false:
  "\<not> fst (callback v first) \<Longrightarrow>
   visited (spec_visit callback \<lparr>visited = [], visitor = v\<rparr> (first # rest)) = [first]"
  by (cases "callback v first") (auto simp: Let_def)

section \<open>Walks leave the last error alone\<close>

text \<open>
  No query used by the walks calls \<open>SetLastError\<close>: after \<open>EnumerateWindows\<close> the last
  error message is the one from before.
\<close>

lemma native_quiet [simp]: "m_lastError (snd (native env c answer s)) = m_lastError s"
  by (simp add: native_def)

lemma Windows_Title_quiet:
  "m_lastError (snd (Windows_GetWindowTitleInternal env h s)) = m_lastError s"
  by (simp add: Windows_GetWindowTitleInternal_def native_def split: prod.splits option.splits)

lemma Windows_Class_quiet:
  "m_lastError (snd (Windows_GetWindowClassInternal env h s)) = m_lastError s"
  by (simp add: Windows_GetWindowClassInternal_def native_def split: prod.splits option.splits)

lemma Windows_ProcessName_quiet:
  "m_lastError (snd (Windows_GetProcessNameFromPid env pid s)) = m_lastError s"
  by (simp add: Windows_GetProcessNameFromPid_def native_def split: prod.splits option.splits)

lemma Windows_GetWindowInfo_quiet:
  "m_lastError (snd (Windows_GetWindowInfo env h s)) = m_lastError s"
proof -
  define pid where
    "pid s3 = (case win_GetWindowThreadProcessId (env (trace s3)) h of Some p \<Rightarrow> p | None \<Rightarrow> 0)"
    for s3 :: win_state
  obtain t s2 where 2: "Windows_GetWindowTitleInternal env h (request (IsWindow h) s) = (t, s2)"
    by force
  obtain c s3 where 3: "Windows_GetWindowClassInternal env h s2 = (c, s3)" by force
  obtain pn s5 where 5: "Windows_GetProcessNameFromPid env (pid s3)
      (request (GetWindowThreadProcessId h) s3) = (pn, s5)" by force
  have e2: "m_lastError s2 = m_lastError s"
    using Windows_Title_quiet [of env h "request (IsWindow h) s"] by (simp add: 2)
  have e3: "m_lastError s3 = m_lastError s2"
    using Windows_Class_quiet [of env h s2] by (simp add: 3)
  have e5: "m_lastError s5 = m_lastError s3"
    using Windows_ProcessName_quiet [of env "pid s3" "request (GetWindowThreadProcessId h) s3"]
    by (simp add: 5)
  show ?thesis
    using 5 by (simp add: Windows_GetWindowInfo_def Let_def native_def 2 3 pid_def e2 e3 e5)
qed

lemma EnumWindowsProc_quiet:
  "m_lastError (snd (snd (EnumWindowsProc env hwnd data s))) = m_lastError s"
proof -
  obtain r s4 where 4: "Windows_GetWindowInfo env hwnd
     (request (GetWindowTextLengthW hwnd)
       (request (GetWindow_GW_OWNER hwnd) (request (IsWindowVisible hwnd) s))) = (r, s4)"
    by force
  have "m_lastError s4 = m_lastError s"
    using Windows_GetWindowInfo_quiet [of env hwnd "request (GetWindowTextLengthW hwnd)
       (request (GetWindow_GW_OWNER hwnd) (request (IsWindowVisible hwnd) s))"] 4
    by simp
  then show ?thesis
    by (simp add: EnumWindowsProc_def native_def Let_def 4 split: prod.splits option.splits)
qed

lemma EnumWindows_walk_quiet:
  "m_lastError (snd (EnumWindows_walk env hs data s)) = m_lastError s"
proof (induction hs arbitrary: data s)
  case Nil
  show ?case by simp
next
  case (Cons hwnd rest)
  obtain continue data1 s1 where p: "EnumWindowsProc env hwnd data s = (continue, data1, s1)"
    by (cases "EnumWindowsProc env hwnd data s") auto
  have "m_lastError s1 = m_lastError s"
    using EnumWindowsProc_quiet [of env hwnd data s] p by simp
  then show ?case
    using Cons.IH [of data1 s1] by (simp add: p)
qed

lemma Windows_EnumerateWindows_quiet:
  "m_lastError (snd (Windows_EnumerateWindows env callback v s)) = m_lastError s"
proof -
  define data where
    "data = \<lparr>ewd_windows = None, ewd_callback = Some callback, ewd_continueEnum = True,
              ewd_walk = \<lparr>visited = [], visitor = v\<rparr>\<rparr>"
  obtain data1 s1 where
    w: "EnumWindows_walk env (w32_toplevel (env (trace s))) data (request EnumWindows s) = (data1, s1)"
    by force
  have "m_lastError s1 = m_lastError s"
    using EnumWindows_walk_quiet [of env "w32_toplevel (env (trace s))" data "request EnumWindows s"]
    by (simp add: w)
  then show ?thesis
    using w
    by (simp add: Windows_EnumerateWindows_def Win32_EnumWindows_def native_def Let_def data_def)
qed

lemma frame_EnumerateWindows_loop:
  "same_backend (snd (Linux_EnumerateWindows_loop env callback ws k s)) s"
proof (induction ws arbitrary: k s)
  case Nil
  show ?case by simp
next
  case (Cons w ws)
  obtain info s1 where g: "Linux_GetWindowInfo env w s = (info, s1)" by force
  have 1: "same_backend s1 s" using frame_GetWindowInfo [of env w s] g by simp
  obtain continue v where c: "callback (visitor k) (res_value info) = (continue, v)" by force
  show ?case
    using Cons.IH [where s = s1] 1
    by (auto simp: g c Let_def intro: same_backend_trans)
qed

lemma Linux_EnumerateWindows_quiet:
  "m_lastError (snd (Linux_EnumerateWindows env callback v s)) = m_lastError s"
proof (cases "m_initialized s")
  case False
  then show ?thesis by (simp add: Linux_EnumerateWindows_def)
next
  case True
  obtain ws s1 where l: "GetClientList env s = (ws, s1)" by force
  have "same_backend s1 s" using frame_GetClientList [of env s] l by simp
  then have "same_backend (snd (Linux_EnumerateWindows env callback v s)) s"
    using frame_EnumerateWindows_loop [of env callback ws "\<lparr>visited = [], visitor = v\<rparr>" s1] True
    by (auto simp: Linux_EnumerateWindows_def l intro: same_backend_trans)
  then show ?thesis by (simp add: same_backend_def)
qed

lemma MacOS_EnumerateWindows_quiet:
  "m_lastError (snd (MacOS_EnumerateWindows env callback v s)) = m_lastError s"
  by (simp add: MacOS_EnumerateWindows_def MacOS_GetAllWindows_def Let_def
      split: prod.splits option.splits)

lemma Stub_EnumerateWindows_quiet:
  "m_lastError (snd (Stub_EnumerateWindows callback v s)) = m_lastError s"
  by (simp add: Stub_EnumerateWindows_def)

section \<open>The claims\<close>

subsection \<open>Error precedence\<close>

text \<open>
  As stated, claim C1 asks every backend to answer \<open>NotInitialized\<close> to every operation
  called before \<open>Initialize\<close>. The macOS backend answers \<open>NotSupported\<close> to \<open>SetAlwaysOnTop\<close>
  in that state: the operation returns before it looks at the initialization flag.
\<close>

theorem uninitialized_call_counterexample:
  "\<not> m_initialized mac_fresh \<and>
   fst (MacOS_perform (frozen mac_desktop) (SetAlwaysOnTop True) 7 mac_fresh) = NotSupported \<and>
   fst (MacOS_perform (frozen mac_desktop) (SetAlwaysOnTop True) 7 mac_fresh) \<noteq> NotInitialized"
  by (simp add: mac_fresh_def MacOS_SetAlwaysOnTop_def)

text \<open>
  Claim C1, amended. For every operation \<open>op\<close> that takes a handle and returns a \<open>Result\<close> or
  an \<open>ErrorCode\<close>:

  \<^item> on the Win32 and X11 backends, and on the macOS backend unless \<open>op\<close> is \<open>SetAlwaysOnTop\<close>,
    \<open>SetWindowTitle\<close> or \<open>SetWindowOpacity\<close>, a call on an uninitialized backend returns
    \<open>NotInitialized\<close> and issues no native request at all, so no validity check is made; a
    call on an initialized backend with a handle that fails the validity check returns
    \<open>InvalidHandle\<close> and has issued the requests of the validity check only, so the effect
    is not attempted;
  \<^item> on the macOS backend the three operations named return \<open>NotSupported\<close> in every state;
  \<^item> the inert backend returns \<open>NotSupported\<close> to every operation and changes nothing.
\<close>

theorem error_precedence:
  "(\<not> m_initialized ws \<longrightarrow> Windows_perform wenv op h ws = (NotInitialized, ws)) \<and>
   (m_initialized ws \<and> \<not> Windows_valid wenv h ws \<longrightarrow>
      Windows_perform wenv op h ws = (InvalidHandle, request (IsWindow h) ws)) \<and>
   (\<not> m_initialized xs \<longrightarrow> Linux_perform xenv op h xs = (NotInitialized, xs)) \<and>
   (m_initialized xs \<and> \<not> Linux_valid xenv h xs \<longrightarrow>
      Linux_perform xenv op h xs =
        (InvalidHandle,
         request XSetErrorHandler_restore
           (request (XGetWindowAttributes h) (request XSetErrorHandler_ignore xs)))) \<and>
   (\<not> unsupported_on_macOS op \<and> \<not> m_initialized ms \<longrightarrow>
      MacOS_perform menv op h ms = (NotInitialized, ms)) \<and>
   (\<not> unsupported_on_macOS op \<and> m_initialized ms \<and> \<not> MacOS_valid menv h ms \<longrightarrow>
      MacOS_perform menv op h ms =
        (InvalidHandle, request (CGWindowListCopyWindowInfo_IncludingWindow (ucast h)) ms)) \<and>
   (unsupported_on_macOS op \<longrightarrow> fst (MacOS_perform menv op h ms) = NotSupported) \<and>
   Stub_perform op h ss = (NotSupported, ss)"
  using Windows_uninitialized Windows_invalid Linux_uninitialized Linux_invalid
    MacOS_uninitialized MacOS_invalid MacOS_unsupported Stub_unsupported
  by simp

theorem error_precedence_witness:
  "\<not> m_initialized win_fresh \<and>
   Windows_perform (frozen win_desktop) CloseWindow 16 win_fresh = (NotInitialized, win_fresh) \<and>
   m_initialized win_ready \<and> \<not> Windows_valid (frozen win_desktop) 17 win_ready \<and>
   Windows_perform (frozen win_desktop) (SetWindowOpacity (Finite 2)) 17 win_ready =
     (InvalidHandle, request (IsWindow 17) win_ready) \<and>
   \<not> m_initialized WindowManagerLinux_new \<and>
   Linux_perform (frozen x_desktop) GetWindowInfo 5 WindowManagerLinux_new =
     (NotInitialized, WindowManagerLinux_new) \<and>
   m_initialized x_ready \<and> \<not> Linux_valid (frozen x_desktop) 6 x_ready \<and>
   Linux_perform (frozen x_desktop) (SetWindowTitle ''t'') 6 x_ready =
     (InvalidHandle,
      request XSetErrorHandler_restore
        (request (XGetWindowAttributes 6) (request XSetErrorHandler_ignore x_ready))) \<and>
   \<not> unsupported_on_macOS MinimizeWindow \<and> \<not> m_initialized mac_fresh \<and>
   MacOS_perform (frozen mac_desktop) MinimizeWindow 7 mac_fresh = (NotInitialized, mac_fresh) \<and>
   m_initialized mac_ready \<and> \<not> MacOS_valid (frozen mac_desktop) 8 mac_ready \<and>
   MacOS_perform (frozen mac_desktop) MinimizeWindow 8 mac_ready =
     (InvalidHandle, request (CGWindowListCopyWindowInfo_IncludingWindow 8) mac_ready) \<and>
   unsupported_on_macOS (SetWindowTitle ''t'') \<and>
   fst (MacOS_perform (frozen mac_desktop) (SetWindowTitle ''t'') 8 mac_fresh) = NotSupported \<and>
   Stub_perform FocusWindow 3 stub_fresh = (NotSupported, stub_fresh)"
proof -
  have w1: "\<not> m_initialized win_fresh" by (simp add: win_fresh_def)
  have w2: "m_initialized win_ready \<and> \<not> Windows_valid (frozen win_desktop) 17 win_ready"
    by (simp add: win_ready_def Windows_valid_def frozen_def win_desktop_def win_IsWindow_def)
  have x1: "\<not> m_initialized WindowManagerLinux_new" by (simp add: WindowManagerLinux_new_def)
  have x2: "m_initialized x_ready \<and> \<not> Linux_valid (frozen x_desktop) 6 x_ready"
    by (simp add: x_ready_def Linux_valid_def frozen_def x_desktop_def)
  have m1: "\<not> unsupported_on_macOS MinimizeWindow \<and> \<not> m_initialized mac_fresh"
    by (simp add: mac_fresh_def)
  have m2: "m_initialized mac_ready \<and> \<not> MacOS_valid (frozen mac_desktop) 8 mac_ready"
    by (simp add: mac_ready_def MacOS_valid_def frozen_def mac_desktop_def)
  have m3: "unsupported_on_macOS (SetWindowTitle ''t'')" by simp
  have u8: "(ucast (8 :: 64 word) :: 32 word) = 8" by simp
  show ?thesis
    using w1 w2 x1 x2 m1 m2 m3
      error_precedence [of win_fresh "frozen win_desktop" CloseWindow 16
        WindowManagerLinux_new "frozen x_desktop" mac_fresh "frozen mac_desktop" stub_fresh]
      error_precedence [of win_ready "frozen win_desktop" "SetWindowOpacity (Finite 2)" 17
        x_ready "frozen x_desktop" mac_ready "frozen mac_desktop" stub_fresh]
      error_precedence [of win_fresh "frozen win_desktop" GetWindowInfo 5
        WindowManagerLinux_new "frozen x_desktop" mac_fresh "frozen mac_desktop" stub_fresh]
      error_precedence [of win_ready "frozen win_desktop" "SetWindowTitle ''t''" 6
        x_ready "frozen x_desktop" mac_fresh "frozen mac_desktop" stub_fresh]
      error_precedence [of win_fresh "frozen win_desktop" MinimizeWindow 7
        WindowManagerLinux_new "frozen x_desktop" mac_fresh "frozen mac_desktop" stub_fresh]
      error_precedence [of win_ready "frozen win_desktop" MinimizeWindow 8
        x_ready "frozen x_desktop" mac_ready "frozen mac_desktop" stub_fresh]
      error_precedence [of win_ready "frozen win_desktop" "SetWindowTitle ''t''" 8
        x_ready "frozen x_desktop" mac_fresh "frozen mac_desktop" stub_fresh]
      error_precedence [of win_ready "frozen win_desktop" FocusWindow 3
        x_ready "frozen x_desktop" mac_fresh "frozen mac_desktop" stub_fresh]
    by (simp add: u8)
qed

subsection \<open>macOS: the unsupported mutations\<close>

text \<open>
  Claim C2. On the macOS backend, \<open>SetAlwaysOnTop\<close>, \<open>SetWindowTitle\<close> and
  \<open>SetWindowOpacity\<close> return \<open>NotSupported\<close> for every handle and every argument value,
  whether the handle is valid or not and whether the backend is initialized or not.
\<close>

theorem MacOS_unsupported_mutations:
  "fst (MacOS_SetAlwaysOnTop env h topmost s) = NotSupported \<and>
   fst (MacOS_SetWindowTitle env h t s) = NotSupported \<and>
   fst (MacOS_SetWindowOpacity env h opacity s) = NotSupported"
  by (simp add: MacOS_SetAlwaysOnTop_def MacOS_SetWindowTitle_def MacOS_SetWindowOpacity_def)

theorem MacOS_unsupported_mutations_witness:
  "fst (MacOS_SetAlwaysOnTop (frozen mac_desktop) 7 True mac_fresh) = NotSupported \<and>
   fst (MacOS_SetWindowTitle (frozen mac_desktop) 0 ''x'' mac_ready) = NotSupported \<and>
   fst (MacOS_SetWindowOpacity (frozen mac_desktop) 7 (Finite (1 / 2)) mac_ready) = NotSupported"
  using MacOS_unsupported_mutations [of "frozen mac_desktop" 7 True mac_fresh]
    MacOS_unsupported_mutations [of "frozen mac_desktop" 0 _ mac_ready "''x''"]
    MacOS_unsupported_mutations [of "frozen mac_desktop" 7 _ mac_ready _ "Finite (1 / 2)"]
  by simp

subsection \<open>Searching by title\<close>




subsection \<open>Walking the windows with a visitor\<close>

text \<open>
  Claim C4. For every visitor, whatever state it carries, \<open>EnumerateWindows\<close> invokes it on
  the windows that \<open>GetAllWindows\<close> would return, in the same order, and ends the walk at
  the visitor's first \<open>false\<close>: the windows visited and the visitor's final state are those
  of \<open>spec_visit\<close> run over the result of \<open>GetAllWindows\<close>. Ending the walk is no error:
  the operation returns nothing and the last error message is left as it was. In
  particular, when the result of \<open>GetAllWindows\<close> is not empty and the visitor answers
  \<open>false\<close> to its first window, that window is the only one visited.
\<close>

theorem EnumerateWindows_walks_GetAllWindows:
  "fst (Windows_EnumerateWindows wenv callback v ws) =
     spec_visit callback \<lparr>visited = [], visitor = v\<rparr> (fst (Windows_GetAllWindows wenv ws)) \<and>
   fst (Linux_EnumerateWindows xenv callback v xs) =
     spec_visit callback \<lparr>visited = [], visitor = v\<rparr> (fst (Linux_GetAllWindows xenv xs)) \<and>
   fst (MacOS_EnumerateWindows menv callback v ms) =
     spec_visit callback \<lparr>visited = [], visitor = v\<rparr> (fst (MacOS_GetAllWindows menv ms)) \<and>
   fst (Stub_EnumerateWindows callback v ss) =
     spec_visit callback \<lparr>visited = [], visitor = v\<rparr> (fst (Stub_GetAllWindows ss)) \<and>
   (\<forall>first rest.
      fst (Windows_GetAllWindows wenv ws) = first # rest \<and> \<not> fst (callback v first) \<longrightarrow>
      visited (fst (Windows_EnumerateWindows wenv callback v ws)) = [first]) \<and>
   (\<forall>first rest.
      fst (Linux_GetAllWindows xenv xs) = first # rest \<and> \<not> fst (callback v first) \<longrightarrow>
      visited (fst (Linux_EnumerateWindows xenv callback v xs)) = [first]) \<and>
   (\<forall>first rest.
      fst (MacOS_GetAllWindows menv ms) = first # rest \<and> \<not> fst (callback v first) \<longrightarrow>
      visited (fst (MacOS_EnumerateWindows menv callback v ms)) = [first]) \<and>
   m_lastError (snd (Windows_EnumerateWindows wenv callback v ws)) = m_lastError ws \<and>
   m_lastError (snd (Linux_EnumerateWindows xenv callback v xs)) = m_lastError xs \<and>
   m_lastError (snd (MacOS_EnumerateWindows menv callback v ms)) = m_lastError ms \<and>
   m_lastError (snd (Stub_EnumerateWindows callback v ss)) = m_lastError ss"
  by (simp add: Windows_Enumerate_same_walk Linux_Enumerate_same_walk MacOS_Enumerate_same_walk
      Stub_Enumerate_same_walk spec_visit_first_false Windows_EnumerateWindows_quiet
      Linux_EnumerateWindows_quiet MacOS_EnumerateWindows_quiet Stub_EnumerateWindows_quiet
      del: spec_visit.simps)

theorem EnumerateWindows_walks_GetAllWindows_witness:
  "map title (fst (Windows_GetAllWindows (frozen win_desktop) win_ready)) = [''Ed'', ''Sh''] \<and>
   \<not> fst (stop_at_once 0 (hd (fst (Windows_GetAllWindows (frozen win_desktop) win_ready)))) \<and>
   map title (visited (fst (Windows_EnumerateWindows (frozen win_desktop) stop_at_once 0 win_ready))) = [''Ed''] \<and>
   visitor (fst (Windows_EnumerateWindows (frozen win_desktop) stop_at_once 0 win_ready)) = 1 \<and>
   map title (visited (fst (Windows_EnumerateWindows (frozen win_desktop) count_all 0 win_ready))) = [''Ed'', ''Sh''] \<and>
   visitor (fst (Windows_EnumerateWindows (frozen win_desktop) count_all 0 win_ready)) = 2 \<and>
   map title (visited (fst (Linux_EnumerateWindows (frozen x_desktop) stop_at_once 0 x_ready))) = [''Term''] \<and>
   visitor (fst (Linux_EnumerateWindows (frozen x_desktop) stop_at_once 0 x_ready)) = 1 \<and>
   map title (visited (fst (Linux_EnumerateWindows (frozen x_desktop) count_all 0 x_ready))) = [''Term'', ''Files''] \<and>
   map title (visited (fst (MacOS_EnumerateWindows (frozen mac_desktop) stop_at_once 0 mac_ready))) = [''Notes''] \<and>
   visitor (fst (MacOS_EnumerateWindows (frozen mac_desktop) stop_at_once 0 mac_ready)) = 1 \<and>
   map title (visited (fst (MacOS_EnumerateWindows (frozen mac_desktop) count_all 0 mac_ready))) = [''Notes'', ''Inbox'']"
  using EnumerateWindows_walks_GetAllWindows [of "frozen win_desktop" stop_at_once 0 win_ready
      "frozen x_desktop" x_ready "frozen mac_desktop" mac_ready stub_fresh]
    EnumerateWindows_walks_GetAllWindows [of "frozen win_desktop" count_all 0 win_ready
      "frozen x_desktop" x_ready "frozen mac_desktop" mac_ready stub_fresh]
  by (simp add: win_example_all x_example_all mac_example_all stop_at_once_def count_all_def)

subsection \<open>Opacity\<close>

text \<open>
  Claim C5 has the X11 backend scale the clamped opacity linearly over the full unsigned
  32-bit range, so that full opacity is \<open>0xFFFFFFFF\<close>, which is also what the comment in
  the source announces. The product \<open>opacity * 0xFFFFFFFF\<close> is computed in single
  precision, where \<open>0xFFFFFFFF\<close> becomes \<open>2\<^sup>3\<^sup>2\<close>: at opacity \<open>1.0\<close>, and at every input that
  is clamped to it, the value handed to \<open>XChangeProperty\<close> is \<open>0x100000000\<close>, whose low 32
  bits are zero. The backend below is initialized and window 5 is valid.
\<close>

theorem Linux_SetWindowOpacity_full_opacity:
  "Linux_SetWindowOpacity (frozen x_desktop) 5 (Finite 1) x_ready =
     (Success,
      x_ready\<lparr>trace :=
        [XSetErrorHandler_ignore, XGetWindowAttributes 5, XSetErrorHandler_restore,
         XChangeProperty 5 0 XA_CARDINAL 32 (Longs [Some 0x100000000]) 1, XFlush]\<rparr>) \<and>
   Linux_SetWindowOpacity (frozen x_desktop) 5 (Finite 2) x_ready =
     Linux_SetWindowOpacity (frozen x_desktop) 5 (Finite 1) x_ready \<and>
   (ucast (0x100000000 :: 64 word) :: 32 word) = 0"
  by (simp add: Linux_SetWindowOpacity_def Linux_IsValidWindow_def native_def frozen_def
      x_desktop_def x_ready_def XAtoms_default_def Let_def clamp_cases opacity_value_full
      request_def)

subsection \<open>Initializing twice\<close>

text \<open>
  Claim C6 has \<open>Initialize\<close> return at once, with the state unchanged, on a backend that is
  already initialized. The X11 backend has that guard and the Win32 backend only sets the
  flag again; the macOS backend has no guard and runs the accessibility-trust check again.
  On the initialized backend below, whose process is not trusted, the second call puts
  the request to the platform and overwrites the last error message.
\<close>

theorem MacOS_Initialize_repeated:
  "IsInitialized mac_ready \<and>
   MacOS_Initialize (frozen mac_desktop) mac_ready =
     (True,
      \<lparr>m_initialized = True,
       m_lastError = ''Accessibility permissions required. Please grant access in System Preferences.'',
       trace = [AXIsProcessTrustedWithOptions]\<rparr>) \<and>
   snd (MacOS_Initialize (frozen mac_desktop) mac_ready) \<noteq> mac_ready"
  by (simp add: MacOS_Initialize_def Let_def request_def SetLastError_def mac_ready_def
      frozen_def mac_desktop_def IsInitialized_def)

subsection \<open>macOS: showing and hiding\<close>

text \<open>
  Claim C7. On the macOS backend, for every handle, \<open>ShowWindow\<close> is exactly
  \<open>RestoreWindow\<close> and \<open>HideWindow\<close> is exactly \<open>MinimizeWindow\<close>: the same return value and
  the same effect on the backend and on the platform.
\<close>

theorem MacOS_Show_is_Restore_Hide_is_Minimize:
  "MacOS_ShowWindow env h s = MacOS_RestoreWindow env h s \<and>
   MacOS_HideWindow env h s = MacOS_MinimizeWindow env h s"
  by (simp add: MacOS_ShowWindow_def MacOS_HideWindow_def)

theorem MacOS_Show_is_Restore_Hide_is_Minimize_witness:
  "MacOS_ShowWindow (frozen mac_desktop) 7 mac_ready = MacOS_RestoreWindow (frozen mac_desktop) 7 mac_ready \<and>
   MacOS_HideWindow (frozen mac_desktop) 7 mac_ready = MacOS_MinimizeWindow (frozen mac_desktop) 7 mac_ready"
  using MacOS_Show_is_Restore_Hide_is_Minimize [of "frozen mac_desktop" 7 mac_ready]
  by simp

subsection \<open>The two probes\<close>

text \<open>
  Claim C8. On every backend and for every handle, \<open>IsWindowVisible\<close> and \<open>IsValidWindow\<close>
  return \<open>false\<close> when the backend is uninitialized or the handle is invalid. They return
  normally, with the last error untouched: on an uninitialized backend nothing is asked of
  the platform and the state is unchanged, on an invalid handle the only change is the
  request of the check itself.
\<close>

theorem probes_answer_false:
  "(\<not> m_initialized ws \<longrightarrow>
      Windows_IsWindowVisible wenv h ws = (False, ws) \<and>
      Windows_IsValidWindow wenv h ws = (False, ws)) \<and>
   (m_initialized ws \<and> \<not> Windows_valid wenv h ws \<longrightarrow>
      Windows_IsWindowVisible wenv h ws = (False, request (IsWindowVisible h) ws) \<and>
      Windows_IsValidWindow wenv h ws = (False, request (IsWindow h) ws)) \<and>
   (\<not> m_initialized xs \<longrightarrow>
      Linux_IsWindowVisible xenv h xs = (False, xs) \<and>
      Linux_IsValidWindow xenv h xs = (False, xs)) \<and>
   (m_initialized xs \<and> \<not> Linux_valid xenv h xs \<longrightarrow>
      Linux_IsWindowVisible xenv h xs =
        (False, request XSetErrorHandler_restore
                  (request (XGetWindowAttributes h) (request XSetErrorHandler_ignore xs))) \<and>
      Linux_IsValidWindow xenv h xs =
        (False, request XSetErrorHandler_restore
                  (request (XGetWindowAttributes h) (request XSetErrorHandler_ignore xs)))) \<and>
   (\<not> m_initialized ms \<longrightarrow>
      MacOS_IsWindowVisible menv h ms = (False, ms) \<and>
      MacOS_IsValidWindow menv h ms = (False, ms)) \<and>
   (m_initialized ms \<and> \<not> MacOS_valid menv h ms \<longrightarrow>
      MacOS_IsWindowVisible menv h ms =
        (False, request (CGWindowListCopyWindowInfo_IncludingWindow (ucast h)) ms) \<and>
      MacOS_IsValidWindow menv h ms =
        (False, request (CGWindowListCopyWindowInfo_IncludingWindow (ucast h)) ms)) \<and>
   Stub_IsWindowVisible h ss = (False, ss) \<and> Stub_IsValidWindow h ss = (False, ss)"
  using Windows_probes [of ws wenv h] Linux_probes [of xs xenv h] MacOS_probes [of ms menv h]
  by (simp add: Stub_IsWindowVisible_def Stub_IsValidWindow_def)

theorem probes_answer_false_witness:
  "\<not> m_initialized win_fresh \<and>
   Windows_IsWindowVisible (frozen win_desktop) 16 win_fresh = (False, win_fresh) \<and>
   Windows_IsValidWindow (frozen win_desktop) 16 win_fresh = (False, win_fresh) \<and>
   m_initialized win_ready \<and> \<not> Windows_valid (frozen win_desktop) 17 win_ready \<and>
   fst (Windows_IsWindowVisible (frozen win_desktop) 17 win_ready) = False \<and>
   fst (Windows_IsValidWindow (frozen win_desktop) 17 win_ready) = False \<and>
   \<not> m_initialized WindowManagerLinux_new \<and>
   fst (Linux_IsWindowVisible (frozen x_desktop) 5 WindowManagerLinux_new) = False \<and>
   fst (Linux_IsValidWindow (frozen x_desktop) 5 WindowManagerLinux_new) = False \<and>
   m_initialized x_ready \<and> \<not> Linux_valid (frozen x_desktop) 6 x_ready \<and>
   fst (Linux_IsWindowVisible (frozen x_desktop) 6 x_ready) = False \<and>
   fst (Linux_IsValidWindow (frozen x_desktop) 6 x_ready) = False \<and>
   \<not> m_initialized mac_fresh \<and>
   fst (MacOS_IsWindowVisible (frozen mac_desktop) 7 mac_fresh) = False \<and>
   fst (MacOS_IsValidWindow (frozen mac_desktop) 7 mac_fresh) = False \<and>
   m_initialized mac_ready \<and> \<not> MacOS_valid (frozen mac_desktop) 8 mac_ready \<and>
   fst (MacOS_IsWindowVisible (frozen mac_desktop) 8 mac_ready) = False \<and>
   fst (MacOS_IsValidWindow (frozen mac_desktop) 8 mac_ready) = False"
proof -
  have w1: "\<not> m_initialized win_fresh" by (simp add: win_fresh_def)
  have w2: "m_initialized win_ready \<and> \<not> Windows_valid (frozen win_desktop) 17 win_ready"
    by (simp add: win_ready_def Windows_valid_def frozen_def win_desktop_def win_IsWindow_def)
  have x1: "\<not> m_initialized WindowManagerLinux_new" by (simp add: WindowManagerLinux_new_def)
  have x2: "m_initialized x_ready \<and> \<not> Linux_valid (frozen x_desktop) 6 x_ready"
    by (simp add: x_ready_def Linux_valid_def frozen_def x_desktop_def)
  have m1: "\<not> m_initialized mac_fresh" by (simp add: mac_fresh_def)
  have m2: "m_initialized mac_ready \<and> \<not> MacOS_valid (frozen mac_desktop) 8 mac_ready"
    by (simp add: mac_ready_def MacOS_valid_def frozen_def mac_desktop_def)
  show ?thesis
    using w1 w2 x1 x2 m1 m2
      probes_answer_false [of win_fresh "frozen win_desktop" 16
        WindowManagerLinux_new "frozen x_desktop" mac_fresh "frozen mac_desktop" stub_fresh]
      probes_answer_false [of win_ready "frozen win_desktop" 17
        x_ready "frozen x_desktop" mac_ready "frozen mac_desktop" stub_fresh]
      probes_answer_false [of win_ready "frozen win_desktop" 5
        WindowManagerLinux_new "frozen x_desktop" mac_ready "frozen mac_desktop" stub_fresh]
      probes_answer_false [of win_ready "frozen win_desktop" 6
        x_ready "frozen x_desktop" mac_ready "frozen mac_desktop" stub_fresh]
      probes_answer_false [of win_ready "frozen win_desktop" 7
        x_ready "frozen x_desktop" mac_fresh "frozen mac_desktop" stub_fresh]
      probes_answer_false [of win_ready "frozen win_desktop" 8
        x_ready "frozen x_desktop" mac_ready "frozen mac_desktop" stub_fresh]
    by simp
qed

subsection \<open>macOS: initialization and the trust check\<close>

text \<open>
  Claim C9. On the macOS backend \<open>Initialize\<close> always returns \<open>true\<close> and leaves the backend
  initialized, also when the accessibility-trust check reports that the process is not
  trusted: a failed check only stores an advisory message through \<open>SetLastError\<close>.
\<close>

theorem MacOS_Initialize_always_succeeds:
  "fst (MacOS_Initialize env s) = True \<and>
   m_initialized (snd (MacOS_Initialize env s)) \<and>
   m_lastError (snd (MacOS_Initialize env s)) =
     (if mac_trusted (env (trace s)) then m_lastError s
      else ''Accessibility permissions required. Please grant access in System Preferences.'')"
  by (simp add: MacOS_Initialize_def Let_def)

theorem MacOS_Initialize_always_succeeds_witness:
  "\<not> mac_trusted (frozen mac_desktop (trace mac_fresh)) \<and>
   fst (MacOS_Initialize (frozen mac_desktop) mac_fresh) = True \<and>
   m_initialized (snd (MacOS_Initialize (frozen mac_desktop) mac_fresh)) \<and>
   m_lastError (snd (MacOS_Initialize (frozen mac_desktop) mac_fresh)) =
     ''Accessibility permissions required. Please grant access in System Preferences.''"
  using MacOS_Initialize_always_succeeds [of "frozen mac_desktop" mac_fresh]
  by (simp add: frozen_def mac_desktop_def)

subsection \<open>X11: a window that goes away while it is described\<close>

text \<open>
  Claim C10. On the X11 backend, when the backend is initialized and the handle passes the
  validity check, but \<open>XGetWindowAttributes\<close> fails when \<open>GetWindowInfo\<close> asks for the
  geometry, \<open>GetWindowInfo\<close> still returns \<open>Success\<close>: the rectangle of the result is the
  default one, all zero, and \<open>isVisible\<close> is false.
\<close>

theorem Linux_GetWindowInfo_geometry_failure:
  "m_initialized s \<and> Linux_valid env h s \<and>
   x_WindowAttributes (env (trace (geometry_query_state env h s))) h = None \<longrightarrow>
   res_error (fst (Linux_GetWindowInfo env h s)) = Success \<and>
   rect (res_value (fst (Linux_GetWindowInfo env h s))) = Rect_default \<and>
   isVisible (res_value (fst (Linux_GetWindowInfo env h s))) = False"
proof (intro impI, elim conjE)
  assume init: "m_initialized s" and valid: "Linux_valid env h s"
    and gone: "x_WindowAttributes (env (trace (geometry_query_state env h s))) h = None"
  obtain v s1 where 1: "Linux_IsValidWindow env h s = (v, s1)" by force
  obtain t s2 where 2: "Linux_GetWindowTitleInternal env h s1 = (t, s2)" by force
  obtain c s3 where 3: "Linux_GetWindowClassInternal env h s2 = (c, s3)" by force
  obtain pid s4 where 4: "GetWindowPidInternal env h s3 = (pid, s4)" by force
  obtain pn s5 where 5: "Linux_GetProcessNameFromPid env pid s4 = (pn, s5)" by force
  have v: "v" using Linux_IsValidWindow_valid [OF init valid] 1 by simp
  have g: "geometry_query_state env h s = s5"
    by (simp add: geometry_query_state_def 1 2 3 4 5)
  obtain st s8 where 8: "Linux_state_bits env h (request (XGetWindowAttributes h) s5) = (st, s8)"
    by force
  have "fst (Linux_GetWindowInfo env h s) =
        Result_new (WindowInfo_default
          \<lparr>handle := h, title := t, className := c, processId := pid, processName := pn,
           state := st\<rparr>)"
    using gone by (simp add: Linux_GetWindowInfo_def Let_def init 1 2 3 4 5 v g native_def 8)
  then show "res_error (fst (Linux_GetWindowInfo env h s)) = Success \<and>
   rect (res_value (fst (Linux_GetWindowInfo env h s))) = Rect_default \<and>
   isVisible (res_value (fst (Linux_GetWindowInfo env h s))) = False"
    by (simp add: WindowInfo_default_def)
qed

theorem Linux_GetWindowInfo_geometry_failure_witness:
  "m_initialized x_ready \<and> Linux_valid x_vanishing 5 x_ready \<and>
   x_WindowAttributes (x_vanishing (trace (geometry_query_state x_vanishing 5 x_ready))) 5 = None \<and>
   res_error (fst (Linux_GetWindowInfo x_vanishing 5 x_ready)) = Success \<and>
   rect (res_value (fst (Linux_GetWindowInfo x_vanishing 5 x_ready))) = Rect_default \<and>
   isVisible (res_value (fst (Linux_GetWindowInfo x_vanishing 5 x_ready))) = False"
proof -
  have a: "m_initialized x_ready" by (simp add: x_ready_def)
  have b: "Linux_valid x_vanishing 5 x_ready"
    by (simp add: Linux_valid_def x_vanishing_def x_desktop_def x_ready_def)
  have c: "x_WindowAttributes (x_vanishing (trace (geometry_query_state x_vanishing 5 x_ready))) 5 = None"
    by (simp add: x_ready_geometry) (simp add: x_vanishing_def x_gone_def)
  show ?thesis
    using a b c Linux_GetWindowInfo_geometry_failure [of x_ready x_vanishing 5] by simp
qed

end
